theory Spec2Isabelle
  imports Main "HOL-Library.Word" "HOL-Library.Multiset"
begin

unbundle bit_operations_syntax

section \<open>Machine types\<close>

text \<open>
  The program is C++ on a POSIX host: \<open>int\<close> is a 32-bit two's complement integer,
  \<open>in_port_t\<close> and \<open>sa_family_t\<close> are 16-bit unsigned, \<open>in_addr_t\<close> is 32-bit
  unsigned, \<open>char\<close> is one byte.
\<close>

type_synonym c_int = "32 word"
type_synonym uint16_t = "16 word"
type_synonym uint32_t = "32 word"
type_synonym byte = "8 word"

section \<open>File level constants of server.cpp\<close>

definition USAGE_MESSAGE_c :: string where
  "USAGE_MESSAGE_c = ''Usage: ./server {port number}''"

definition USER_SELECTED_FOLLOWING_PORT_c :: string where
  "USER_SELECTED_FOLLOWING_PORT_c = ''> User selected to run the server on port: ''"

definition USER_DID_NOT_SPECIFY_PORT_c :: string where
  "USER_DID_NOT_SPECIFY_PORT_c = ''> User did not specify a port, picking a port for the user''"

definition SERVER_LISTENING_ON_PORT_c :: string where
  "SERVER_LISTENING_ON_PORT_c = ''> Server live and listening on port: ''"

definition HANDLING_NEW_CONNECTION_c :: string where
  "HANDLING_NEW_CONNECTION_c = ''> Handling new connection: ''"

definition ENCOUNTERED_AN_ERROR_OPENING_STREAM_SOCKET_c :: string where
  "ENCOUNTERED_AN_ERROR_OPENING_STREAM_SOCKET_c =
     ''> Encountered a fatal error while opening stream socket''"

definition ENCOUNTERED_ERROR_SETTING_SOCKET_OPTIONS_c :: string where
  "ENCOUNTERED_ERROR_SETTING_SOCKET_OPTIONS_c =
     ''> Encountered a fatal error while setting socket options''"

definition ENCOUNTERED_ERROR_BINDING_STREAM_SOCKET_c :: string where
  "ENCOUNTERED_ERROR_BINDING_STREAM_SOCKET_c =
     ''> Encountered a fatal error while binding stream socket''"

definition ENCOUNTERED_ERROR_FETCHING_SOCKET_PORT_c :: string where
  "ENCOUNTERED_ERROR_FETCHING_SOCKET_PORT_c =
     ''> Encountered a fatal error while fetching socket port''"

definition ENCOUNTERED_ERROR_ACCEPTING_NEW_CONNECTION_c :: string where
  "ENCOUNTERED_ERROR_ACCEPTING_NEW_CONNECTION_c =
     ''> Encountered a fatal error while attempting to accept a new connection''"

definition SERVER_SOCKET_QUEUE_SIZE_c :: c_int where
  "SERVER_SOCKET_QUEUE_SIZE_c = 30"

text \<open>The source uses this constant only as an array size, hence a \<open>nat\<close>.\<close>

definition MAX_MESSAGE_SIZE_IN_BYTES_c :: nat where
  "MAX_MESSAGE_SIZE_IN_BYTES_c = 4096"

section \<open>System headers: constants, byte order, the socket address\<close>

text \<open>The values of \<open>sys/socket.h\<close> and \<open>netinet/in.h\<close> on Linux.\<close>

definition AF_INET :: uint16_t where "AF_INET = 2"
definition SOCK_STREAM :: c_int where "SOCK_STREAM = 1"
definition SOL_SOCKET :: c_int where "SOL_SOCKET = 1"
definition SO_REUSEADDR :: c_int where "SO_REUSEADDR = 2"
definition INADDR_ANY :: uint32_t where "INADDR_ANY = 0"

text \<open>
  \<open>htons\<close> and \<open>ntohs\<close> (\<open>arpa/inet.h\<close>) are library functions, as POSIX defines them:
  they convert a 16-bit value between the byte order of the host and the network byte
  order (most significant byte first). On a little-endian host both swap the two bytes,
  on a big-endian host both are the identity. The byte order of the host is a parameter.
\<close>

datatype byte_order = LittleEndian | BigEndian

definition bswap_16 :: "uint16_t \<Rightarrow> uint16_t" where
  "bswap_16 x = push_bit 8 x OR drop_bit 8 x"

definition htons :: "byte_order \<Rightarrow> uint16_t \<Rightarrow> uint16_t" where
  "htons e hostshort = (case e of LittleEndian \<Rightarrow> bswap_16 hostshort | BigEndian \<Rightarrow> hostshort)"

definition ntohs :: "byte_order \<Rightarrow> uint16_t \<Rightarrow> uint16_t" where
  "ntohs e netshort = (case e of LittleEndian \<Rightarrow> bswap_16 netshort | BigEndian \<Rightarrow> netshort)"

text \<open>The two bytes of a 16-bit object as they lie in the memory of the host.\<close>

definition bytes_in_memory :: "byte_order \<Rightarrow> uint16_t \<Rightarrow> byte list" where
  "bytes_in_memory e x =
     (case e of
        LittleEndian \<Rightarrow> [ucast x, ucast (drop_bit 8 x)]
      | BigEndian \<Rightarrow> [ucast (drop_bit 8 x), ucast x])"

text \<open>\<open>struct sockaddr_in\<close>; \<open>sin_addr\<close> stands for \<open>sin_addr.s_addr\<close>.\<close>

record sockaddr_in =
  sin_family :: uint16_t
  sin_port :: uint16_t
  sin_addr :: uint32_t
  sin_zero :: "byte list"

section \<open>utility.h\<close>

datatype Server_Error = Server_Error string

fun what :: "Server_Error \<Rightarrow> string" where
  "what (Server_Error msg) = msg"

text \<open>
  The console is the list of lines written so far. Each line is kept with the thread that
  wrote it: \<open>thread_safe_print\<close> holds \<open>cout_mutex\<close> for the whole write, which ends
  with \<open>endl\<close> and so is flushed before the mutex is released: while \<open>main\<close> runs, a
  call appends one whole line. What is written once \<open>main\<close> has returned is not
  ordered by the mutex, see \<open>process_exit\<close>. The second argument of the source defaults
  to \<open>true\<close> and no call overrides it.
\<close>

datatype thread_id = Main_Thread | Handler_Thread c_int

datatype syscall =
    Socket uint16_t c_int c_int
  | Setsockopt c_int c_int c_int c_int
  | Bind c_int sockaddr_in
  | Getsockname c_int
  | Listen c_int c_int
  | Accept c_int

record world =
  console :: "(thread_id \<times> string) list"
  calls :: "syscall list"
  bound :: "c_int \<rightharpoonup> sockaddr_in"
  accept_count :: nat
  detached :: "c_int list"
  ticks :: nat

definition initial_world :: world where
  "initial_world =
     \<lparr>console = [], calls = [], bound = Map.empty, accept_count = 0, detached = [], ticks = 0\<rparr>"

definition thread_safe_print :: "thread_id \<Rightarrow> string \<Rightarrow> world \<Rightarrow> world" where
  "thread_safe_print t to_print w = w\<lparr>console := console w @ [(t, to_print)]\<rparr>"

section \<open>The C and C++ library: \<open>atoi\<close>, \<open>to_string\<close>, \<open>memset\<close>\<close>

definition isspace :: "char \<Rightarrow> bool" where
  "isspace c = (of_char c \<in> {32, 9, 10, 11, 12, 13 :: nat})"

definition isdigit :: "char \<Rightarrow> bool" where
  "isdigit c = (48 \<le> (of_char c :: nat) \<and> (of_char c :: nat) \<le> 57)"

text \<open>The value of the longest prefix of decimal digits, most significant first.\<close>

fun digits_value :: "int \<Rightarrow> string \<Rightarrow> int" where
  "digits_value acc [] = acc"
| "digits_value acc (c # cs) =
     (if isdigit c then digits_value (acc * 10 + (of_char c - 48)) cs else acc)"

text \<open>
  \<open>strtol\<close> in base 10: leading white space is skipped, one sign is read, then the
  digits; the first character that is no digit ends the number, and no digit at all gives
  0. A value outside \<open>long\<close> (64 bits) is clamped.
\<close>

definition strtol_10 :: "string \<Rightarrow> int" where
  "strtol_10 nptr =
     (let s = dropWhile isspace nptr;
          v = (case s of
                 [] \<Rightarrow> 0
               | c # cs \<Rightarrow>
                   if c = CHR ''-'' then - digits_value 0 cs
                   else if c = CHR ''+'' then digits_value 0 cs
                   else digits_value 0 s)
      in max (- (2 ^ 63)) (min (2 ^ 63 - 1) v))"

text \<open>\<open>atoi\<close> is \<open>(int) strtol(nptr, NULL, 10)\<close>: the conversion to \<open>int\<close> keeps 32 bits.\<close>

definition atoi :: "string \<Rightarrow> c_int" where
  "atoi nptr = word_of_int (strtol_10 nptr)"

definition digit_char :: "nat \<Rightarrow> char" where
  "digit_char d = ''0123456789'' ! d"

fun string_of_nat :: "nat \<Rightarrow> string" where
  "string_of_nat n =
     (if n < 10 then [digit_char n]
      else string_of_nat (n div 10) @ [digit_char (n mod 10)])"

declare string_of_nat.simps [simp del]

text \<open>\<open>std::to_string(int)\<close>: the signed decimal numeral.\<close>

definition to_string :: "c_int \<Rightarrow> string" where
  "to_string val =
     (if sint val < 0 then CHR ''-'' # string_of_nat (nat (- sint val))
      else string_of_nat (nat (sint val)))"

text \<open>\<open>memset(s, c, n)\<close> on a buffer of at least \<open>n\<close> bytes.\<close>

definition memset :: "byte list \<Rightarrow> byte \<Rightarrow> nat \<Rightarrow> byte list" where
  "memset s c n = replicate n c @ drop n s"

section \<open>The operating system\<close>

text \<open>
  What the program cannot decide is an input: the byte order of the host, the answer of
  the kernel to every call, the port the kernel picks when asked for port 0, what
  uninitialised stack memory holds, and the scheduler's choices. \<open>accept_ret env i\<close> is
  the answer to the \<open>i\<close>-th call of \<open>accept\<close>. \<open>sched env t\<close> lists, for the \<open>t\<close>-th
  scheduling point, the positions (in the list of detached threads that have not run yet)
  of the threads that run there, in that order.
\<close>

record os_env =
  host_order :: byte_order
  socket_ret :: c_int
  setsockopt_fails :: bool
  bind_fails :: bool
  ephemeral_port :: uint16_t
  getsockname_fails :: bool
  listen_fails :: bool
  accept_ret :: "nat \<Rightarrow> c_int"
  sched :: "nat \<Rightarrow> nat list"
  uninit_sockaddr :: sockaddr_in
  uninit_stack :: "nat \<Rightarrow> byte"

definition log_call :: "syscall \<Rightarrow> world \<Rightarrow> world" where
  "log_call c w = w\<lparr>calls := calls w @ [c]\<rparr>"

definition sys_socket :: "os_env \<Rightarrow> uint16_t \<Rightarrow> c_int \<Rightarrow> c_int \<Rightarrow> world \<Rightarrow> c_int \<times> world" where
  "sys_socket env domain ty protocol w = (socket_ret env, log_call (Socket domain ty protocol) w)"

definition sys_setsockopt ::
  "os_env \<Rightarrow> c_int \<Rightarrow> c_int \<Rightarrow> c_int \<Rightarrow> c_int \<Rightarrow> world \<Rightarrow> c_int \<times> world" where
  "sys_setsockopt env sockfd level optname optval w =
     (if setsockopt_fails env then - 1 else 0, log_call (Setsockopt sockfd level optname optval) w)"

text \<open>
  A successful \<open>bind\<close> records the address of the socket. Port 0 asks the kernel to pick
  the port; it is stored, like every port, in network byte order.
\<close>

definition sys_bind :: "os_env \<Rightarrow> c_int \<Rightarrow> sockaddr_in \<Rightarrow> world \<Rightarrow> c_int \<times> world" where
  "sys_bind env sockfd addr w =
     (let w1 = log_call (Bind sockfd addr) w in
      if bind_fails env then (- 1, w1)
      else (0, w1\<lparr>bound := (bound w1)(sockfd \<mapsto>
              (if sin_port addr = 0
               then addr\<lparr>sin_port := htons (host_order env) (ephemeral_port env)\<rparr>
               else addr))\<rparr>))"

definition unbound_sockaddr :: sockaddr_in where
  "unbound_sockaddr =
     \<lparr>sin_family = AF_INET, sin_port = 0, sin_addr = INADDR_ANY, sin_zero = replicate 8 0\<rparr>"

text \<open>On failure \<open>getsockname\<close> leaves the caller's buffer as it was.\<close>

definition sys_getsockname ::
  "os_env \<Rightarrow> c_int \<Rightarrow> sockaddr_in \<Rightarrow> world \<Rightarrow> c_int \<times> sockaddr_in \<times> world" where
  "sys_getsockname env sockfd addr w =
     (let w1 = log_call (Getsockname sockfd) w in
      if getsockname_fails env then (- 1, addr, w1)
      else (0, (case bound w sockfd of None \<Rightarrow> unbound_sockaddr | Some a \<Rightarrow> a), w1))"

definition sys_listen :: "os_env \<Rightarrow> c_int \<Rightarrow> c_int \<Rightarrow> world \<Rightarrow> c_int \<times> world" where
  "sys_listen env sockfd backlog w =
     (if listen_fails env then - 1 else 0, log_call (Listen sockfd backlog) w)"

section \<open>server.cpp\<close>

definition make_server_sockaddr :: "byte_order \<Rightarrow> sockaddr_in \<Rightarrow> c_int \<Rightarrow> sockaddr_in" where
  "make_server_sockaddr e addr port =
     addr\<lparr>sin_family := AF_INET, sin_addr := INADDR_ANY, sin_port := htons e (ucast port)\<rparr>"

definition get_port_number :: "os_env \<Rightarrow> c_int \<Rightarrow> world \<Rightarrow> (Server_Error + c_int) \<times> world" where
  "get_port_number env sock_fd w =
     (let (r, addr, w1) = sys_getsockname env sock_fd (uninit_sockaddr env) w in
      if r = - 1 then (Inl (Server_Error ENCOUNTERED_ERROR_FETCHING_SOCKET_PORT_c), w1)
      else (Inr (ucast (ntohs (host_order env) (sin_port addr))), w1))"

text \<open>
  The handler prints its line, then clears a local buffer. The buffer is returned so that
  it can be spoken about; it is local to the thread in the source.
\<close>

definition handle_connection :: "os_env \<Rightarrow> c_int \<Rightarrow> world \<Rightarrow> world \<times> byte list" where
  "handle_connection env connection_fd w =
     (let w1 = thread_safe_print (Handler_Thread connection_fd)
                 (HANDLING_NEW_CONNECTION_c @ to_string connection_fd) w;
          client_message = map (uninit_stack env) [0..<MAX_MESSAGE_SIZE_IN_BYTES_c];
          client_message = memset client_message 0 (length client_message)
      in (w1, client_message))"

text \<open>
  Threads. \<open>thread service_connection(handle_connection, connection_fd)\<close> followed by
  \<open>detach()\<close> adds a thread that will run \<open>handle_connection connection_fd\<close> at some
  later time; \<open>detached w\<close> holds the connections of the threads that have not run yet.
  At a scheduling point the scheduler runs the threads it picks; a picked position that
  does not exist is skipped. A thread still pending when \<open>main\<close> returns races with
  the exit of the process, see \<open>process_exit\<close>. Whether the thread can be started is
  decided where the loop starts it, below. Memory is taken to suffice: \<open>std::bad_alloc\<close>
  is not modelled.
\<close>

definition spawn_detached :: "c_int \<Rightarrow> world \<Rightarrow> world" where
  "spawn_detached connection_fd w = w\<lparr>detached := detached w @ [connection_fd]\<rparr>"

definition run_thread :: "os_env \<Rightarrow> world \<Rightarrow> nat \<Rightarrow> world" where
  "run_thread env w k =
     (if k < length (detached w)
      then fst (handle_connection env (detached w ! k)
                  (w\<lparr>detached := take k (detached w) @ drop (Suc k) (detached w)\<rparr>))
      else w)"

definition yield :: "os_env \<Rightarrow> world \<Rightarrow> world" where
  "yield env w = foldl (run_thread env) (w\<lparr>ticks := Suc (ticks w)\<rparr>) (sched env (ticks w))"

text \<open>\<open>accept\<close> blocks: other threads run until the kernel answers.\<close>

definition sys_accept :: "os_env \<Rightarrow> c_int \<Rightarrow> world \<Rightarrow> c_int \<times> world" where
  "sys_accept env sockfd w =
     (let w1 = yield env (log_call (Accept sockfd) w) in
      (accept_ret env (accept_count w1), w1\<lparr>accept_count := Suc (accept_count w1)\<rparr>))"

text \<open>
  How a call of \<open>run_server\<close> can end: by returning, by throwing a \<open>Server_Error\<close>, by
  letting through the \<open>std::system_error\<close> that the constructor of \<open>std::thread\<close>
  throws when the thread cannot be started (given with its \<open>what()\<close>), or not at all
  within the number of loop iterations looked at.
\<close>

datatype outcome = Returned | Threw Server_Error | Threw_system_error string | Unfinished

text \<open>
  The C++ runtime: \<open>thread_start_fails rt i\<close> says that the thread for the connection of
  the \<open>i\<close>-th \<open>accept\<close> cannot be started, and \<open>system_error_what rt\<close> is the message
  of the exception thrown then. \<open>exit_writes rt\<close> is what reaches the console after
  \<open>main\<close> has returned while detached threads are still pending, see \<open>process_exit\<close>.
\<close>

record runtime =
  thread_start_fails :: "nat \<Rightarrow> bool"
  system_error_what :: string
  exit_writes :: "(thread_id \<times> string) list"

text \<open>
  The \<open>do { ... } while (true)\<close> loop, with the number of iterations to follow. When the
  loop is entered, \<open>accept_count w\<close> is the number of the \<open>accept\<close> it is about to call.
\<close>

fun accept_loop_rt :: "runtime \<Rightarrow> os_env \<Rightarrow> nat \<Rightarrow> c_int \<Rightarrow> world \<Rightarrow> outcome \<times> world" where
  "accept_loop_rt rt env 0 socket_fd w = (Unfinished, w)"
| "accept_loop_rt rt env (Suc fuel) socket_fd w =
     (let (connection_fd, w1) = sys_accept env socket_fd w in
      if connection_fd = - 1
      then (Threw (Server_Error ENCOUNTERED_ERROR_ACCEPTING_NEW_CONNECTION_c), w1)
      else if thread_start_fails rt (accept_count w)
      then (Threw_system_error (system_error_what rt), w1)
      else accept_loop_rt rt env fuel socket_fd (spawn_detached connection_fd w1))"

definition run_server_rt ::
  "runtime \<Rightarrow> os_env \<Rightarrow> nat \<Rightarrow> c_int \<Rightarrow> c_int \<Rightarrow> world \<Rightarrow> outcome \<times> world" where
  "run_server_rt rt env fuel port_number socket_queue_size w =
     (let (socket_fd, w1) = sys_socket env AF_INET SOCK_STREAM 0 w in
      if socket_fd = - 1
      then (Threw (Server_Error ENCOUNTERED_AN_ERROR_OPENING_STREAM_SOCKET_c), w1)
      else
        let yes_val = 1;
            (r2, w2) = sys_setsockopt env socket_fd SOL_SOCKET SO_REUSEADDR yes_val w1 in
        if r2 = - 1
        then (Threw (Server_Error ENCOUNTERED_ERROR_SETTING_SOCKET_OPTIONS_c), w2)
        else
          let addr = make_server_sockaddr (host_order env) (uninit_sockaddr env) port_number;
              (r3, w3) = sys_bind env socket_fd addr w2 in
          if r3 = - 1
          then (Threw (Server_Error ENCOUNTERED_ERROR_BINDING_STREAM_SOCKET_c), w3)
          else
            (case get_port_number env socket_fd w3 of
               (Inl err, w4) \<Rightarrow> (Threw err, w4)
             | (Inr port_number, w4) \<Rightarrow>
                 let w5 = thread_safe_print Main_Thread
                            (SERVER_LISTENING_ON_PORT_c @ to_string port_number) w4;
                     (r6, w6) = sys_listen env socket_fd socket_queue_size w5
                 in accept_loop_rt rt env fuel socket_fd w6))"

text \<open>
  How the process stands: \<open>main\<close> has returned a value, or it is still in the accept
  loop after the iterations looked at.
\<close>

datatype status = Exited c_int | Still_Running

text \<open>
  The \<open>try\<close> block of \<open>main\<close> with its handler, which catches every \<open>std::exception\<close>.
  Between the throw and the print of the message, and between the print and the return,
  detached threads may still run. The console of the result is what has been written
  when \<open>main\<close> returns. Falling off the end of \<open>main\<close> returns 0.
\<close>

definition try_run_server_rt ::
  "runtime \<Rightarrow> os_env \<Rightarrow> nat \<Rightarrow> c_int \<Rightarrow> world \<Rightarrow> status \<times> world" where
  "try_run_server_rt rt env fuel port w =
     (case run_server_rt rt env fuel port SERVER_SOCKET_QUEUE_SIZE_c w of
        (Threw err, w2) \<Rightarrow>
          (Exited (- 1), yield env (thread_safe_print Main_Thread (what err) (yield env w2)))
      | (Threw_system_error msg, w2) \<Rightarrow>
          (Exited (- 1), yield env (thread_safe_print Main_Thread msg (yield env w2)))
      | (Returned, w2) \<Rightarrow> (Exited 0, w2)
      | (Unfinished, w2) \<Rightarrow> (Still_Running, w2))"

text \<open>\<open>argv\<close> is the list of the \<open>argc\<close> argument strings, the program name first.\<close>

definition main_rt :: "runtime \<Rightarrow> os_env \<Rightarrow> nat \<Rightarrow> string list \<Rightarrow> status \<times> world" where
  "main_rt rt env fuel argv =
     (if length argv > 2
      then (Exited (- 1), thread_safe_print Main_Thread USAGE_MESSAGE_c initial_world)
      else
        let (port, w1) =
              (if length argv = 2
               then let port = atoi (argv ! 1) in
                    (port, thread_safe_print Main_Thread
                             (USER_SELECTED_FOLLOWING_PORT_c @ to_string port) initial_world)
               else (0, thread_safe_print Main_Thread USER_DID_NOT_SPECIFY_PORT_c initial_world))
        in try_run_server_rt rt env fuel port w1)"

text \<open>
  When \<open>main\<close> returns, the process exits. Detached threads are not waited for: a thread
  that has not written its line yet races with the exit, which flushes and destroys
  \<open>std::cout\<close> outside \<open>cout_mutex\<close>. What reaches the console then is not determined by
  the program, and is given by the runtime: nothing, the line of a pending thread, a part
  of it, or the line more than once. With no thread pending nothing more is written,
  since every print ends with \<open>endl\<close>, which flushes.
\<close>

definition process_exit :: "runtime \<Rightarrow> world \<Rightarrow> world" where
  "process_exit rt w =
     (if detached w = [] then w else w\<lparr>console := console w @ exit_writes rt\<rparr>)"

definition run_process :: "runtime \<Rightarrow> os_env \<Rightarrow> nat \<Rightarrow> string list \<Rightarrow> status \<times> world" where
  "run_process rt env fuel argv =
     (case main_rt rt env fuel argv of
        (Exited code, w) \<Rightarrow> (Exited code, process_exit rt w)
      | (Still_Running, w) \<Rightarrow> (Still_Running, w))"

text \<open>
  The program in a runtime where every thread can be started: wherever the start of a
  thread and the exit of the process are not what a property is about, the functions are
  taken in this runtime and written with the names of the source.
\<close>

definition every_thread_starts :: runtime where
  "every_thread_starts =
     \<lparr>thread_start_fails = (\<lambda>i. False), system_error_what = [], exit_writes = []\<rparr>"

definition accept_loop :: "os_env \<Rightarrow> nat \<Rightarrow> c_int \<Rightarrow> world \<Rightarrow> outcome \<times> world" where
  "accept_loop env fuel socket_fd w = accept_loop_rt every_thread_starts env fuel socket_fd w"

definition run_server :: "os_env \<Rightarrow> nat \<Rightarrow> c_int \<Rightarrow> c_int \<Rightarrow> world \<Rightarrow> outcome \<times> world" where
  "run_server env fuel port_number socket_queue_size w =
     run_server_rt every_thread_starts env fuel port_number socket_queue_size w"

definition try_run_server :: "os_env \<Rightarrow> nat \<Rightarrow> c_int \<Rightarrow> world \<Rightarrow> status \<times> world" where
  "try_run_server env fuel port w = try_run_server_rt every_thread_starts env fuel port w"

definition main :: "os_env \<Rightarrow> nat \<Rightarrow> string list \<Rightarrow> status \<times> world" where
  "main env fuel argv = main_rt every_thread_starts env fuel argv"

section \<open>Notions used to state the properties\<close>

text \<open>The line a handler thread prints for its connection.\<close>

definition handler_line :: "c_int \<Rightarrow> thread_id \<times> string" where
  "handler_line fd = (Handler_Thread fd, HANDLING_NEW_CONNECTION_c @ to_string fd)"

text \<open>
  \<open>threads_ran hs w w'\<close>: from \<open>w\<close> to \<open>w'\<close> the detached threads for the connections
  \<open>hs\<close> ran, in that order, and nothing else happened.
\<close>

definition threads_ran :: "c_int list \<Rightarrow> world \<Rightarrow> world \<Rightarrow> bool" where
  "threads_ran hs w w' \<longleftrightarrow>
     console w' = console w @ map handler_line hs
     \<and> mset hs + mset (detached w') = mset (detached w)
     \<and> calls w' = calls w \<and> bound w' = bound w \<and> accept_count w' = accept_count w"

text \<open>
  \<open>loop_ran env fd n m hs w w'\<close>: from \<open>w\<close> to \<open>w'\<close> the accept loop called \<open>accept\<close>
  \<open>m\<close> times and spawned a thread for each of the next \<open>n\<close> connections, while the
  threads for the connections \<open>hs\<close> ran.
\<close>

definition loop_ran ::
  "os_env \<Rightarrow> c_int \<Rightarrow> nat \<Rightarrow> nat \<Rightarrow> c_int list \<Rightarrow> world \<Rightarrow> world \<Rightarrow> bool" where
  "loop_ran env fd n m hs w w' \<longleftrightarrow>
     console w' = console w @ map handler_line hs
     \<and> mset hs + mset (detached w') =
         mset (detached w) + mset (map (accept_ret env) [accept_count w..<accept_count w + n])
     \<and> calls w' = calls w @ replicate m (Accept fd)
     \<and> bound w' = bound w \<and> accept_count w' = accept_count w + m"

text \<open>
  The port \<open>getsockname\<close> reports after a successful \<open>bind\<close> to the endpoint made
  for port \<open>p\<close>: the port of the endpoint, or the port the kernel picked if that is 0.
\<close>

definition resolved_port :: "os_env \<Rightarrow> c_int \<Rightarrow> c_int" where
  "resolved_port env p =
     (if (ucast p :: uint16_t) = 0 then ucast (ephemeral_port env) else ucast (ucast p :: uint16_t))"

text \<open>
  An environment to run the model in: a little-endian host where every call succeeds, the
  kernel hands out connections 4 and 5 and then fails the third \<open>accept\<close>, and the
  scheduler runs the first handler thread during the second \<open>accept\<close>.
\<close>

definition example_env :: os_env where
  "example_env =
     \<lparr>host_order = LittleEndian, socket_ret = 3, setsockopt_fails = False, bind_fails = False,
      ephemeral_port = 40000, getsockname_fails = False, listen_fails = False,
      accept_ret = (\<lambda>i. if i < 2 then 4 + of_nat i else - 1),
      sched = (\<lambda>t. if t = 1 then [0] else []),
      uninit_sockaddr = \<lparr>sin_family = 7, sin_port = 9, sin_addr = 11, sin_zero = [1, 2, 3, 4, 5, 6, 7, 8]\<rparr>,
      uninit_stack = (\<lambda>i. 170)\<rparr>"

text \<open>
  The port \<open>main\<close> passes to \<open>run_server\<close> and the first line it prints, for fewer
  than three arguments.
\<close>

definition requested_port :: "string list \<Rightarrow> c_int" where
  "requested_port argv = (if length argv = 2 then atoi (argv ! 1) else 0)"

definition announcement :: "string list \<Rightarrow> string" where
  "announcement argv =
     (if length argv = 2
      then USER_SELECTED_FOLLOWING_PORT_c @ to_string (atoi (argv ! 1))
      else USER_DID_NOT_SPECIFY_PORT_c)"

text \<open>The lines one thread wrote to the console, in order.\<close>

definition lines_of :: "thread_id \<Rightarrow> (thread_id \<times> string) list \<Rightarrow> string list" where
  "lines_of t c = map snd (filter (\<lambda>l. fst l = t) c)"

text \<open>
  Two more environments: one where every \<open>accept\<close> succeeds, and one where the first
  \<open>accept\<close> succeeds, the second fails, and the scheduler never runs a handler thread.
\<close>

definition busy_env :: os_env where
  "busy_env = example_env\<lparr>accept_ret := (\<lambda>i. 4)\<rparr>"

definition stalled_env :: os_env where
  "stalled_env = example_env\<lparr>accept_ret := (\<lambda>i. if i = 0 then 4 else - 1), sched := (\<lambda>t. [])\<rparr>"

text \<open>
  A numeric argument, for the reading of "non-numeric" in the specification: an optional
  sign and then decimal digits only, at least one.
\<close>

definition numeric :: "string \<Rightarrow> bool" where
  "numeric s =
     (case s of
        [] \<Rightarrow> False
      | c # cs \<Rightarrow>
          if c = CHR ''-'' \<or> c = CHR ''+'' then cs \<noteq> [] \<and> list_all isdigit cs
          else list_all isdigit s)"

text \<open>
  What \<open>atoi\<close> reads of its argument: after leading white space and one optional sign,
  the longest run of decimal digits (\<open>digits_read\<close>), whether the sign is a minus
  (\<open>minus_read\<close>), and the number that a string of decimal digits denotes (\<open>decimal\<close>).
\<close>

definition digits_read :: "string \<Rightarrow> string" where
  "digits_read nptr =
     (case dropWhile isspace nptr of
        [] \<Rightarrow> []
      | c # cs \<Rightarrow>
          if c = CHR ''-'' \<or> c = CHR ''+'' then takeWhile isdigit cs
          else takeWhile isdigit (c # cs))"

definition minus_read :: "string \<Rightarrow> bool" where
  "minus_read nptr = (case dropWhile isspace nptr of [] \<Rightarrow> False | c # cs \<Rightarrow> c = CHR ''-'')"

definition decimal :: "string \<Rightarrow> nat" where
  "decimal ds = foldl (\<lambda>n c. n * 10 + (of_char c - 48)) 0 ds"

text \<open>The same world with more lines at the start of its console.\<close>

definition prepend_console :: "(thread_id \<times> string) list \<Rightarrow> world \<Rightarrow> world" where
  "prepend_console c w = w\<lparr>console := c @ console w\<rparr>"

text \<open>
  Two more runtimes: one in which no thread can be started, and one in which every thread
  starts and the thread for connection 4, pending when \<open>main\<close> returns, gets its line
  onto the console twice while the process exits.
\<close>

definition no_thread_runtime :: runtime where
  "no_thread_runtime =
     \<lparr>thread_start_fails = (\<lambda>i. True),
      system_error_what = ''Resource temporarily unavailable'',
      exit_writes = []\<rparr>"

definition racing_exit_runtime :: runtime where
  "racing_exit_runtime = every_thread_starts\<lparr>exit_writes := [handler_line 4, handler_line 4]\<rparr>"

text \<open>The remainder of C's \<open>%\<close>, which truncates towards zero.\<close>

definition c_rem :: "int \<Rightarrow> int \<Rightarrow> int" where
  "c_rem a b = sgn a * (\<bar>a\<bar> mod \<bar>b\<bar>)"

section \<open>Byte order and integer conversions\<close>

lemma bswap_16_involution: "bswap_16 (bswap_16 x) = x"
  unfolding bswap_16_def by (rule bit_word_eqI) (auto simp add: bit_simps)

lemma ntohs_htons: "ntohs e (htons e x) = x"
  by (cases e) (simp_all add: ntohs_def htons_def bswap_16_involution)

lemma low_byte_bswap_16: "(ucast (bswap_16 x) :: byte) = ucast (drop_bit 8 x)"
  unfolding bswap_16_def by (rule bit_word_eqI) (auto simp add: bit_simps)

lemma high_byte_bswap_16: "(ucast (drop_bit 8 (bswap_16 x)) :: byte) = ucast x"
  unfolding bswap_16_def by (rule bit_word_eqI) (auto simp add: bit_simps)

lemma htons_network_order:
  "bytes_in_memory e (htons e x) = [ucast (drop_bit 8 x), ucast x]"
  by (cases e) (simp_all add: bytes_in_memory_def htons_def low_byte_bswap_16 high_byte_bswap_16)

lemma htons_eq_0_iff: "htons e x = 0 \<longleftrightarrow> x = 0"
proof
  assume h: "htons e x = 0"
  have "x = ntohs e (htons e x)" by (simp only: ntohs_htons)
  also have "\<dots> = ntohs e 0" by (simp only: h)
  also have "\<dots> = 0" by (cases e) (simp_all add: ntohs_def bswap_16_def)
  finally show "x = 0" .
next
  assume "x = 0"
  then show "htons e x = 0" by (cases e) (simp_all add: htons_def bswap_16_def)
qed

lemma uint_ucast_up_16_32: "uint (ucast (q :: uint16_t) :: c_int) = uint q"
  by (rule uint_up_ucast) (simp add: is_up)

lemma sint_nonneg_uint:
  assumes "0 \<le> sint (p :: c_int)"
  shows "sint p = uint p"
proof -
  have "sint p < 2 ^ 31" using sint_lt [of p] by simp
  then have "sint p < 2 ^ 32" by simp
  with assms have "take_bit 32 (sint p) = sint p"
    by (simp add: take_bit_int_eq_self)
  then show ?thesis by (simp add: uint_sint)
qed

lemma uint_ucast_down_32_16: "uint (ucast (p :: c_int) :: uint16_t) = sint p mod 65536"
proof -
  have "uint (ucast p :: uint16_t) = take_bit 16 (uint p)"
    by (simp add: unsigned_ucast_eq)
  also have "\<dots> = take_bit 16 (sint p)"
    by (simp add: sint_uint take_bit_signed_take_bit)
  also have "\<dots> = sint p mod 65536"
    by (simp add: take_bit_eq_mod)
  finally show ?thesis .
qed

lemma port_in_range_roundtrip:
  assumes "0 \<le> sint (p :: c_int)" and "sint p \<le> 65535"
  shows "(ucast (ucast p :: uint16_t) :: c_int) = p"
proof -
  have "uint (ucast (ucast p :: uint16_t) :: c_int) = uint (ucast p :: uint16_t)"
    by (rule uint_ucast_up_16_32)
  also have "\<dots> = sint p mod 65536" by (rule uint_ucast_down_32_16)
  also have "\<dots> = sint p" using assms by simp
  also have "\<dots> = uint p" using assms(1) by (rule sint_nonneg_uint)
  finally show ?thesis by (simp only: word_uint_eq_iff)
qed

lemma port_in_range_nonzero:
  assumes "1 \<le> sint (p :: c_int)" and "sint p \<le> 65535"
  shows "(ucast p :: uint16_t) \<noteq> 0"
proof
  assume "(ucast p :: uint16_t) = 0"
  then have "uint (ucast p :: uint16_t) = 0" by simp
  then have "sint p mod 65536 = 0" by (simp only: uint_ucast_down_32_16)
  with assms show False by simp
qed

lemma encoded_port_mod:
  "uint (ntohs e (sin_port (make_server_sockaddr e addr p))) = sint p mod 65536"
  by (simp add: make_server_sockaddr_def ntohs_htons uint_ucast_down_32_16)

lemma word16_65536: "(65536 :: uint16_t) = 0"
  by (simp add: word_uint_eq_iff uint_bintrunc take_bit_eq_mod)

lemma make_server_sockaddr_65536:
  "make_server_sockaddr e addr 65536 = make_server_sockaddr e addr 0"
  by (simp add: make_server_sockaddr_def word16_65536)

lemma negative_wraps:
  assumes "(a::int) < 0" and "\<not> 65536 dvd a"
  shows "a mod 65536 = 65536 + c_rem a 65536"
proof -
  from assms(2) have "\<not> 65536 dvd (- a)" by simp
  then have nz: "(- a) mod 65536 \<noteq> 0"
    by (simp only: dvd_eq_mod_eq_0) simp
  have "a mod 65536 = (- (- a)) mod 65536" by simp
  also have "\<dots> = 65536 - (- a) mod 65536"
    using nz by (simp only: zmod_zminus1_eq_if) simp
  also have "\<dots> = 65536 + c_rem a 65536"
    using assms(1) by (simp add: c_rem_def)
  finally show ?thesis .
qed

lemma run_server_rt_65536: "run_server_rt rt env fuel 65536 q w = run_server_rt rt env fuel 0 q w"
  unfolding run_server_rt_def by (simp only: make_server_sockaddr_65536)

lemma run_server_65536: "run_server env fuel 65536 q w = run_server env fuel 0 q w"
  unfolding run_server_def by (rule run_server_rt_65536)


section \<open>The scheduler and the accept loop\<close>

lemma threads_ran_refl: "threads_ran [] w w"
  by (simp add: threads_ran_def)

lemma threads_ran_trans:
  "threads_ran hs w w1 \<Longrightarrow> threads_ran hs' w1 w2 \<Longrightarrow> threads_ran (hs @ hs') w w2"
  by (simp add: threads_ran_def add.assoc)

lemma mset_remove_nth:
  "k < length xs \<Longrightarrow> add_mset (xs ! k) (mset (take k xs) + mset (drop (Suc k) xs)) = mset xs"
proof -
  assume "k < length xs"
  then have "xs = take k xs @ xs ! k # drop (Suc k) xs"
    by (rule id_take_nth_drop)
  then have "mset xs = mset (take k xs @ xs ! k # drop (Suc k) xs)"
    by simp
  then show ?thesis by simp
qed

lemma run_thread_ran: "\<exists>hs. threads_ran hs w (run_thread env w k)"
proof (cases "k < length (detached w)")
  case True
  then have "threads_ran [detached w ! k] w (run_thread env w k)"
    by (simp add: threads_ran_def run_thread_def handle_connection_def thread_safe_print_def
        handler_line_def mset_remove_nth Let_def)
  then show ?thesis ..
next
  case False
  then have "threads_ran [] w (run_thread env w k)"
    by (simp add: threads_ran_def run_thread_def)
  then show ?thesis ..
qed

lemma foldl_run_thread_ran: "\<exists>hs. threads_ran hs w (foldl (run_thread env) w ks)"
proof (induction ks arbitrary: w)
  case Nil
  show ?case using threads_ran_refl by auto
next
  case (Cons k ks)
  obtain h1 where h1: "threads_ran h1 w (run_thread env w k)"
    using run_thread_ran by blast
  obtain h2 where h2: "threads_ran h2 (run_thread env w k) (foldl (run_thread env) (run_thread env w k) ks)"
    using Cons.IH by blast
  from threads_ran_trans [OF h1 h2] show ?case by auto
qed

lemma yield_ran: "\<exists>hs. threads_ran hs w (yield env w)"
proof -
  have 1: "threads_ran [] w (w\<lparr>ticks := Suc (ticks w)\<rparr>)"
    by (simp add: threads_ran_def)
  obtain hs where 2: "threads_ran hs (w\<lparr>ticks := Suc (ticks w)\<rparr>) (yield env w)"
    unfolding yield_def using foldl_run_thread_ran by blast
  from threads_ran_trans [OF 1 2] show ?thesis by auto
qed


lemma loop_ranD:
  assumes "loop_ran env fd n m hs w w'"
  shows "console w' = console w @ map handler_line hs"
    and "mset hs + mset (detached w') =
         mset (detached w) + mset (map (accept_ret env) [accept_count w..<accept_count w + n])"
    and "calls w' = calls w @ replicate m (Accept fd)"
    and "bound w' = bound w"
    and "accept_count w' = accept_count w + m"
  using assms unfolding loop_ran_def by blast+

lemma loop_ranI:
  assumes "console w' = console w @ map handler_line hs"
    and "mset hs + mset (detached w') =
         mset (detached w) + mset (map (accept_ret env) [accept_count w..<accept_count w + n])"
    and "calls w' = calls w @ replicate m (Accept fd)"
    and "bound w' = bound w"
    and "accept_count w' = accept_count w + m"
  shows "loop_ran env fd n m hs w w'"
  unfolding loop_ran_def using assms by blast

lemma loop_ran_trans:
  assumes "loop_ran env fd n n hs w w1" and "loop_ran env fd n' m' hs' w1 w2"
  shows "loop_ran env fd (n + n') (n + m') (hs @ hs') w w2"
proof (rule loop_ranI)
  let ?c = "accept_count w"
  let ?f = "accept_ret env"
  note A = loop_ranD [OF assms(1)] and B = loop_ranD [OF assms(2)]
  show "console w2 = console w @ map handler_line (hs @ hs')"
    by (simp only: A(1) B(1) map_append append_assoc)
  show "calls w2 = calls w @ replicate (n + m') (Accept fd)"
    by (simp only: A(3) B(3) replicate_add append_assoc)
  show "bound w2 = bound w"
    by (simp only: A(4) B(4))
  show "accept_count w2 = ?c + (n + m')"
    by (simp only: A(5) B(5) add.assoc)
  have "[?c..<?c + (n + n')] = [?c..<?c + n] @ [?c + n..<?c + n + n']"
    by (simp only: add.assoc [symmetric] upt_add_eq_append [OF le_add1])
  then have split: "mset (map ?f [?c..<?c + (n + n')]) =
      mset (map ?f [?c..<?c + n]) + mset (map ?f [?c + n..<?c + n + n'])"
    by (simp only: map_append mset_append)
  have "mset (hs @ hs') + mset (detached w2) = mset hs + (mset hs' + mset (detached w2))"
    by (simp only: mset_append add.assoc)
  also have "\<dots> = mset hs + (mset (detached w1) + mset (map ?f [?c + n..<?c + n + n']))"
    by (simp only: B(2) A(5))
  also have "\<dots> = (mset hs + mset (detached w1)) + mset (map ?f [?c + n..<?c + n + n'])"
    by (simp only: add.assoc)
  also have "\<dots> = mset (detached w) + mset (map ?f [?c..<?c + (n + n')])"
    by (simp only: A(2) split add.assoc)
  finally show "mset (hs @ hs') + mset (detached w2) =
      mset (detached w) + mset (map ?f [?c..<?c + (n + n')])" .
qed

lemma threads_ranD:
  assumes "threads_ran hs w w'"
  shows "console w' = console w @ map handler_line hs"
    and "mset hs + mset (detached w') = mset (detached w)"
    and "calls w' = calls w" and "bound w' = bound w" and "accept_count w' = accept_count w"
  using assms unfolding threads_ran_def by blast+

lemma sys_accept_ran:
  "\<exists>hs w1. sys_accept env fd w = (accept_ret env (accept_count w), w1)
     \<and> loop_ran env fd 0 1 hs w w1"
proof -
  let ?l = "log_call (Accept fd) w"
  let ?y = "yield env ?l"
  let ?w1 = "?y\<lparr>accept_count := Suc (accept_count ?y)\<rparr>"
  obtain hs where "threads_ran hs ?l ?y"
    using yield_ran by blast
  note T = threads_ranD [OF this]
  have c: "accept_count ?y = accept_count w"
    using T(5) by (simp add: log_call_def)
  have "loop_ran env fd 0 1 hs w ?w1"
  proof (rule loop_ranI)
    show "console ?w1 = console w @ map handler_line hs"
      using T(1) by (simp add: log_call_def)
    show "mset hs + mset (detached ?w1) =
        mset (detached w) + mset (map (accept_ret env) [accept_count w..<accept_count w + 0])"
      using T(2) by (simp add: log_call_def)
    show "calls ?w1 = calls w @ replicate 1 (Accept fd)"
      using T(3) by (simp add: log_call_def)
    show "bound ?w1 = bound w"
      using T(4) by (simp add: log_call_def)
    show "accept_count ?w1 = accept_count w + 1"
      using c by simp
  qed
  moreover have "sys_accept env fd w = (accept_ret env (accept_count w), ?w1)"
    unfolding sys_accept_def Let_def c ..
  ultimately show ?thesis by blast
qed

lemma spawn_detached_ran:
  assumes "loop_ran env fd 0 1 hs w w1"
  shows "loop_ran env fd 1 1 hs w (spawn_detached (accept_ret env (accept_count w)) w1)"
proof (rule loop_ranI)
  let ?w2 = "spawn_detached (accept_ret env (accept_count w)) w1"
  note A = loop_ranD [OF assms]
  show "console ?w2 = console w @ map handler_line hs"
    using A(1) by (simp add: spawn_detached_def)
  have "mset hs + mset (detached ?w2) =
      (mset hs + mset (detached w1)) + {#accept_ret env (accept_count w)#}"
    by (simp add: spawn_detached_def)
  also have "\<dots> = mset (detached w) + {#accept_ret env (accept_count w)#}"
    using A(2) by simp
  finally show "mset hs + mset (detached ?w2) =
      mset (detached w) + mset (map (accept_ret env) [accept_count w..<accept_count w + 1])"
    by simp
  show "calls ?w2 = calls w @ replicate 1 (Accept fd)"
    using A(3) by (simp add: spawn_detached_def)
  show "bound ?w2 = bound w"
    using A(4) by (simp add: spawn_detached_def)
  show "accept_count ?w2 = accept_count w + 1"
    using A(5) by (simp add: spawn_detached_def)
qed

lemma accept_loop_rt_unfinished:
  assumes "\<forall>i<fuel. accept_ret env (accept_count w + i) \<noteq> - 1"
    and "\<forall>i<fuel. \<not> thread_start_fails rt (accept_count w + i)"
  shows "\<exists>hs w'. accept_loop_rt rt env fuel fd w = (Unfinished, w')
    \<and> loop_ran env fd fuel fuel hs w w'"
  using assms
proof (induction fuel arbitrary: w)
  case 0
  have "loop_ran env fd 0 0 [] w w" by (rule loop_ranI) simp_all
  moreover have "accept_loop_rt rt env 0 fd w = (Unfinished, w)" by simp
  ultimately show ?case by blast
next
  case (Suc fuel)
  obtain hs1 w1 where a: "sys_accept env fd w = (accept_ret env (accept_count w), w1)"
    and r1: "loop_ran env fd 0 1 hs1 w w1"
    using sys_accept_ran by blast
  let ?cfd = "accept_ret env (accept_count w)"
  let ?w2 = "spawn_detached ?cfd w1"
  have ok: "?cfd \<noteq> - 1" using Suc.prems(1) by (metis add.right_neutral zero_less_Suc)
  have th: "\<not> thread_start_fails rt (accept_count w)"
    using Suc.prems(2) by (metis add.right_neutral zero_less_Suc)
  have r2: "loop_ran env fd 1 1 hs1 w ?w2" using r1 by (rule spawn_detached_ran)
  have c2: "accept_count ?w2 = Suc (accept_count w)" using loop_ranD(5) [OF r2] by simp
  have p1: "\<forall>i<fuel. accept_ret env (accept_count ?w2 + i) \<noteq> - 1"
  proof (intro allI impI)
    fix i assume "i < fuel"
    then have "Suc i < Suc fuel" by simp
    with Suc.prems(1) have "accept_ret env (accept_count w + Suc i) \<noteq> - 1" by blast
    then show "accept_ret env (accept_count ?w2 + i) \<noteq> - 1" using c2 by simp
  qed
  have p2: "\<forall>i<fuel. \<not> thread_start_fails rt (accept_count ?w2 + i)"
  proof (intro allI impI)
    fix i assume "i < fuel"
    then have "Suc i < Suc fuel" by simp
    with Suc.prems(2) have "\<not> thread_start_fails rt (accept_count w + Suc i)" by blast
    then show "\<not> thread_start_fails rt (accept_count ?w2 + i)" using c2 by simp
  qed
  from Suc.IH [OF p1 p2] obtain hs2 w' where
    l: "accept_loop_rt rt env fuel fd ?w2 = (Unfinished, w')"
    and r3: "loop_ran env fd fuel fuel hs2 ?w2 w'"
    by blast
  have "accept_loop_rt rt env (Suc fuel) fd w = (Unfinished, w')"
    using a ok th l by simp
  moreover have "loop_ran env fd (Suc fuel) (Suc fuel) (hs1 @ hs2) w w'"
    using loop_ran_trans [OF r2 r3] by simp
  ultimately show ?case by blast
qed

text \<open>
  The loop ends at the first \<open>accept\<close> that fails or whose connection gets no thread;
  \<open>k\<close> is the number of that \<open>accept\<close>, counted from the entry of the loop.
\<close>

lemma accept_loop_rt_fails:
  assumes "k < fuel"
    and "\<forall>i<k. accept_ret env (accept_count w + i) \<noteq> - 1"
    and "\<forall>i<k. \<not> thread_start_fails rt (accept_count w + i)"
    and "accept_ret env (accept_count w + k) = - 1 \<or> thread_start_fails rt (accept_count w + k)"
  shows "\<exists>hs w'. accept_loop_rt rt env fuel fd w =
            (if accept_ret env (accept_count w + k) = - 1
             then Threw (Server_Error ENCOUNTERED_ERROR_ACCEPTING_NEW_CONNECTION_c)
             else Threw_system_error (system_error_what rt), w')
          \<and> loop_ran env fd k (Suc k) hs w w'"
  using assms
proof (induction fuel arbitrary: k w)
  case 0
  then show ?case by simp
next
  case (Suc fuel)
  obtain hs1 w1 where a: "sys_accept env fd w = (accept_ret env (accept_count w), w1)"
    and r1: "loop_ran env fd 0 1 hs1 w w1"
    using sys_accept_ran by blast
  let ?cfd = "accept_ret env (accept_count w)"
  show ?case
  proof (cases k)
    case 0
    with Suc.prems(4) have f: "?cfd = - 1 \<or> thread_start_fails rt (accept_count w)" by simp
    have t: "accept_loop_rt rt env (Suc fuel) fd w =
        (if accept_ret env (accept_count w + k) = - 1
         then Threw (Server_Error ENCOUNTERED_ERROR_ACCEPTING_NEW_CONNECTION_c)
         else Threw_system_error (system_error_what rt), w1)"
      using a f 0 by auto
    have "loop_ran env fd k (Suc k) hs1 w w1" using r1 0 by simp
    with t show ?thesis by blast
  next
    case (Suc k')
    let ?w2 = "spawn_detached ?cfd w1"
    have ok: "?cfd \<noteq> - 1" using Suc.prems(2) Suc by (metis add.right_neutral zero_less_Suc)
    have th: "\<not> thread_start_fails rt (accept_count w)"
      using Suc.prems(3) Suc by (metis add.right_neutral zero_less_Suc)
    have r2: "loop_ran env fd 1 1 hs1 w ?w2" using r1 by (rule spawn_detached_ran)
    have c2: "accept_count ?w2 = Suc (accept_count w)" using loop_ranD(5) [OF r2] by simp
    have k': "k' < fuel" using Suc.prems(1) Suc by simp
    have p1: "\<forall>i<k'. accept_ret env (accept_count ?w2 + i) \<noteq> - 1"
    proof (intro allI impI)
      fix i assume "i < k'"
      then have "Suc i < k" using Suc by simp
      with Suc.prems(2) have "accept_ret env (accept_count w + Suc i) \<noteq> - 1" by blast
      then show "accept_ret env (accept_count ?w2 + i) \<noteq> - 1" using c2 by simp
    qed
    have p2: "\<forall>i<k'. \<not> thread_start_fails rt (accept_count ?w2 + i)"
    proof (intro allI impI)
      fix i assume "i < k'"
      then have "Suc i < k" using Suc by simp
      with Suc.prems(3) have "\<not> thread_start_fails rt (accept_count w + Suc i)" by blast
      then show "\<not> thread_start_fails rt (accept_count ?w2 + i)" using c2 by simp
    qed
    have e: "accept_count ?w2 + k' = accept_count w + k" using c2 Suc by simp
    have fail: "accept_ret env (accept_count ?w2 + k') = - 1
        \<or> thread_start_fails rt (accept_count ?w2 + k')"
      using Suc.prems(4) by (simp only: e)
    from Suc.IH [OF k' p1 p2 fail] obtain hs2 w' where
      l: "accept_loop_rt rt env fuel fd ?w2 =
            (if accept_ret env (accept_count ?w2 + k') = - 1
             then Threw (Server_Error ENCOUNTERED_ERROR_ACCEPTING_NEW_CONNECTION_c)
             else Threw_system_error (system_error_what rt), w')"
      and r3: "loop_ran env fd k' (Suc k') hs2 ?w2 w'"
      by blast
    have "accept_loop_rt rt env (Suc fuel) fd w =
        (if accept_ret env (accept_count w + k) = - 1
         then Threw (Server_Error ENCOUNTERED_ERROR_ACCEPTING_NEW_CONNECTION_c)
         else Threw_system_error (system_error_what rt), w')"
      using a ok th l by (simp add: e)
    moreover have "loop_ran env fd k (Suc k) (hs1 @ hs2) w w'"
      using loop_ran_trans [OF r2 r3] Suc by simp
    ultimately show ?thesis by blast
  qed
qed

lemma accept_loop_rt_cases:
  obtains (running) hs w' where
      "\<forall>i<fuel. accept_ret env (accept_count w + i) \<noteq> - 1"
      "\<forall>i<fuel. \<not> thread_start_fails rt (accept_count w + i)"
      "accept_loop_rt rt env fuel fd w = (Unfinished, w')"
      "loop_ran env fd fuel fuel hs w w'"
  | (failed) k hs w' where
      "k < fuel" "\<forall>i<k. accept_ret env (accept_count w + i) \<noteq> - 1"
      "\<forall>i<k. \<not> thread_start_fails rt (accept_count w + i)"
      "accept_ret env (accept_count w + k) = - 1 \<or> thread_start_fails rt (accept_count w + k)"
      "accept_loop_rt rt env fuel fd w =
         (if accept_ret env (accept_count w + k) = - 1
          then Threw (Server_Error ENCOUNTERED_ERROR_ACCEPTING_NEW_CONNECTION_c)
          else Threw_system_error (system_error_what rt), w')"
      "loop_ran env fd k (Suc k) hs w w'"
proof (cases "\<exists>k<fuel. accept_ret env (accept_count w + k) = - 1
    \<or> thread_start_fails rt (accept_count w + k)")
  case False
  then have all: "\<forall>i<fuel. accept_ret env (accept_count w + i) \<noteq> - 1"
    "\<forall>i<fuel. \<not> thread_start_fails rt (accept_count w + i)" by blast+
  from accept_loop_rt_unfinished [OF this] obtain hs w' where
    "accept_loop_rt rt env fuel fd w = (Unfinished, w')" "loop_ran env fd fuel fuel hs w w'"
    by blast
  with all show ?thesis by (rule running)
next
  case True
  let ?P = "\<lambda>k. k < fuel \<and> (accept_ret env (accept_count w + k) = - 1
    \<or> thread_start_fails rt (accept_count w + k))"
  define k where "k = (LEAST k. ?P k)"
  from True have "\<exists>k. ?P k" by blast
  then have "?P k" unfolding k_def by (rule LeastI_ex)
  then have k1: "k < fuel"
    and k2: "accept_ret env (accept_count w + k) = - 1
      \<or> thread_start_fails rt (accept_count w + k)" by simp_all
  have least: "\<not> ?P i" if "i < k" for i
  proof
    assume "?P i"
    then have "k \<le> i" unfolding k_def by (rule Least_le)
    with that show False by simp
  qed
  have k3: "\<forall>i<k. accept_ret env (accept_count w + i) \<noteq> - 1"
    using least k1 by (meson less_trans)
  have k4: "\<forall>i<k. \<not> thread_start_fails rt (accept_count w + i)"
    using least k1 by (meson less_trans)
  from accept_loop_rt_fails [OF k1 k3 k4 k2] obtain hs w' where
    "accept_loop_rt rt env fuel fd w =
         (if accept_ret env (accept_count w + k) = - 1
          then Threw (Server_Error ENCOUNTERED_ERROR_ACCEPTING_NEW_CONNECTION_c)
          else Threw_system_error (system_error_what rt), w')"
    "loop_ran env fd k (Suc k) hs w w'"
    by blast
  with k1 k3 k4 k2 show ?thesis by (rule failed)
qed

lemma accept_loop_rt_console:
  "\<exists>hs. console (snd (accept_loop_rt rt env fuel fd w)) = console w @ map handler_line hs"
proof (cases rule: accept_loop_rt_cases [of fuel env w rt fd])
  case (running hs w')
  then show ?thesis using loop_ranD(1) [OF running(4)] by auto
next
  case (failed k hs w')
  then show ?thesis using loop_ranD(1) [OF failed(6)] by auto
qed

lemma accept_loop_rt_not_Returned: "fst (accept_loop_rt rt env fuel fd w) \<noteq> Returned"
proof (cases rule: accept_loop_rt_cases [of fuel env w rt fd])
  case (running hs w')
  then show ?thesis by simp
next
  case (failed k hs w')
  then show ?thesis by simp
qed

text \<open>The loop in the runtime where every thread starts.\<close>

lemma accept_loop_unfinished:
  assumes "\<forall>i<fuel. accept_ret env (accept_count w + i) \<noteq> - 1"
  shows "\<exists>hs w'. accept_loop env fuel fd w = (Unfinished, w') \<and> loop_ran env fd fuel fuel hs w w'"
  unfolding accept_loop_def
  by (rule accept_loop_rt_unfinished [OF assms]) (simp add: every_thread_starts_def)

lemma accept_loop_threw:
  assumes "k < fuel" and "\<forall>i<k. accept_ret env (accept_count w + i) \<noteq> - 1"
    and "accept_ret env (accept_count w + k) = - 1"
  shows "\<exists>hs w'. accept_loop env fuel fd w =
            (Threw (Server_Error ENCOUNTERED_ERROR_ACCEPTING_NEW_CONNECTION_c), w')
          \<and> loop_ran env fd k (Suc k) hs w w'"
proof -
  have t: "\<forall>i<k. \<not> thread_start_fails every_thread_starts (accept_count w + i)"
    by (simp add: every_thread_starts_def)
  have f: "accept_ret env (accept_count w + k) = - 1
      \<or> thread_start_fails every_thread_starts (accept_count w + k)"
    using assms(3) by simp
  from accept_loop_rt_fails [OF assms(1,2) t f, of fd] show ?thesis
    unfolding accept_loop_def using assms(3) by simp
qed

lemma accept_loop_console:
  "\<exists>hs. console (snd (accept_loop env fuel fd w)) = console w @ map handler_line hs"
  unfolding accept_loop_def by (rule accept_loop_rt_console)


section \<open>Startup\<close>

lemma run_server_rt_socket_fails:
  assumes "socket_ret env = - 1"
  shows "run_server_rt rt env fuel p q w =
    (Threw (Server_Error ENCOUNTERED_AN_ERROR_OPENING_STREAM_SOCKET_c),
     log_call (Socket AF_INET SOCK_STREAM 0) w)"
  using assms by (simp add: run_server_rt_def sys_socket_def)

lemma run_server_rt_setsockopt_fails:
  assumes "socket_ret env \<noteq> - 1" and "setsockopt_fails env"
  shows "run_server_rt rt env fuel p q w =
    (Threw (Server_Error ENCOUNTERED_ERROR_SETTING_SOCKET_OPTIONS_c),
     log_call (Setsockopt (socket_ret env) SOL_SOCKET SO_REUSEADDR 1)
       (log_call (Socket AF_INET SOCK_STREAM 0) w))"
  using assms by (simp add: run_server_rt_def sys_socket_def sys_setsockopt_def)

lemma run_server_rt_bind_fails:
  assumes "socket_ret env \<noteq> - 1" and "\<not> setsockopt_fails env" and "bind_fails env"
  shows "run_server_rt rt env fuel p q w =
    (Threw (Server_Error ENCOUNTERED_ERROR_BINDING_STREAM_SOCKET_c),
     log_call (Bind (socket_ret env) (make_server_sockaddr (host_order env) (uninit_sockaddr env) p))
       (log_call (Setsockopt (socket_ret env) SOL_SOCKET SO_REUSEADDR 1)
         (log_call (Socket AF_INET SOCK_STREAM 0) w)))"
  using assms by (simp add: run_server_rt_def sys_socket_def sys_setsockopt_def sys_bind_def)

lemma run_server_rt_getsockname_fails:
  assumes "socket_ret env \<noteq> - 1" and "\<not> setsockopt_fails env" and "\<not> bind_fails env"
    and "getsockname_fails env"
  shows "fst (run_server_rt rt env fuel p q w) =
           Threw (Server_Error ENCOUNTERED_ERROR_FETCHING_SOCKET_PORT_c)"
    and "calls (snd (run_server_rt rt env fuel p q w)) = calls w @
           [Socket AF_INET SOCK_STREAM 0,
            Setsockopt (socket_ret env) SOL_SOCKET SO_REUSEADDR 1,
            Bind (socket_ret env) (make_server_sockaddr (host_order env) (uninit_sockaddr env) p),
            Getsockname (socket_ret env)]"
    and "console (snd (run_server_rt rt env fuel p q w)) = console w"
    and "detached (snd (run_server_rt rt env fuel p q w)) = detached w"
  using assms
  by (simp_all add: run_server_rt_def sys_socket_def sys_setsockopt_def sys_bind_def
      get_port_number_def sys_getsockname_def log_call_def Let_def)

lemma run_server_rt_started:
  assumes "socket_ret env \<noteq> - 1" and "\<not> setsockopt_fails env" and "\<not> bind_fails env"
    and "\<not> getsockname_fails env"
  shows "\<exists>w6. run_server_rt rt env fuel p q w = accept_loop_rt rt env fuel (socket_ret env) w6
      \<and> console w6 = console w @
           [(Main_Thread, SERVER_LISTENING_ON_PORT_c @ to_string (resolved_port env p))]
      \<and> calls w6 = calls w @
           [Socket AF_INET SOCK_STREAM 0,
            Setsockopt (socket_ret env) SOL_SOCKET SO_REUSEADDR 1,
            Bind (socket_ret env) (make_server_sockaddr (host_order env) (uninit_sockaddr env) p),
            Getsockname (socket_ret env),
            Listen (socket_ret env) q]
      \<and> detached w6 = detached w \<and> accept_count w6 = accept_count w"
  using assms
  by (auto simp add: run_server_rt_def sys_socket_def sys_setsockopt_def sys_bind_def
      get_port_number_def sys_getsockname_def sys_listen_def log_call_def thread_safe_print_def
      make_server_sockaddr_def htons_eq_0_iff ntohs_htons resolved_port_def Let_def)

text \<open>The same in the runtime where every thread starts.\<close>

lemma run_server_socket_fails:
  assumes "socket_ret env = - 1"
  shows "run_server env fuel p q w =
    (Threw (Server_Error ENCOUNTERED_AN_ERROR_OPENING_STREAM_SOCKET_c),
     log_call (Socket AF_INET SOCK_STREAM 0) w)"
  unfolding run_server_def using assms by (rule run_server_rt_socket_fails)

lemma run_server_setsockopt_fails:
  assumes "socket_ret env \<noteq> - 1" and "setsockopt_fails env"
  shows "run_server env fuel p q w =
    (Threw (Server_Error ENCOUNTERED_ERROR_SETTING_SOCKET_OPTIONS_c),
     log_call (Setsockopt (socket_ret env) SOL_SOCKET SO_REUSEADDR 1)
       (log_call (Socket AF_INET SOCK_STREAM 0) w))"
  unfolding run_server_def using assms by (rule run_server_rt_setsockopt_fails)

lemma run_server_bind_fails:
  assumes "socket_ret env \<noteq> - 1" and "\<not> setsockopt_fails env" and "bind_fails env"
  shows "run_server env fuel p q w =
    (Threw (Server_Error ENCOUNTERED_ERROR_BINDING_STREAM_SOCKET_c),
     log_call (Bind (socket_ret env) (make_server_sockaddr (host_order env) (uninit_sockaddr env) p))
       (log_call (Setsockopt (socket_ret env) SOL_SOCKET SO_REUSEADDR 1)
         (log_call (Socket AF_INET SOCK_STREAM 0) w)))"
  unfolding run_server_def using assms by (rule run_server_rt_bind_fails)

lemma run_server_getsockname_fails:
  assumes "socket_ret env \<noteq> - 1" and "\<not> setsockopt_fails env" and "\<not> bind_fails env"
    and "getsockname_fails env"
  shows "fst (run_server env fuel p q w) =
           Threw (Server_Error ENCOUNTERED_ERROR_FETCHING_SOCKET_PORT_c)"
    and "calls (snd (run_server env fuel p q w)) = calls w @
           [Socket AF_INET SOCK_STREAM 0,
            Setsockopt (socket_ret env) SOL_SOCKET SO_REUSEADDR 1,
            Bind (socket_ret env) (make_server_sockaddr (host_order env) (uninit_sockaddr env) p),
            Getsockname (socket_ret env)]"
    and "console (snd (run_server env fuel p q w)) = console w"
    and "detached (snd (run_server env fuel p q w)) = detached w"
  unfolding run_server_def using assms by (rule run_server_rt_getsockname_fails)+

lemma run_server_started:
  assumes "socket_ret env \<noteq> - 1" and "\<not> setsockopt_fails env" and "\<not> bind_fails env"
    and "\<not> getsockname_fails env"
  shows "\<exists>w6. run_server env fuel p q w = accept_loop env fuel (socket_ret env) w6
      \<and> console w6 = console w @
           [(Main_Thread, SERVER_LISTENING_ON_PORT_c @ to_string (resolved_port env p))]
      \<and> calls w6 = calls w @
           [Socket AF_INET SOCK_STREAM 0,
            Setsockopt (socket_ret env) SOL_SOCKET SO_REUSEADDR 1,
            Bind (socket_ret env) (make_server_sockaddr (host_order env) (uninit_sockaddr env) p),
            Getsockname (socket_ret env),
            Listen (socket_ret env) q]
      \<and> detached w6 = detached w \<and> accept_count w6 = accept_count w"
  unfolding run_server_def accept_loop_def using assms by (rule run_server_rt_started)


section \<open>The address resolver\<close>

text \<open>
  C8. The address resolver takes the endpoint and the port and gives the endpoint back:
  it has no access to anything else and no way to fail. For every port it sets the
  family to \<open>AF_INET\<close>, the address to \<open>INADDR_ANY\<close> and the port field to \<open>htons\<close> of
  the port converted to 16 bits, whose two bytes lie in memory most significant first
  (network byte order) whatever the byte order of the host; \<open>sin_zero\<close> is left as it
  was.
\<close>

theorem make_server_sockaddr_endpoint:
  "make_server_sockaddr e addr port =
     \<lparr>sin_family = AF_INET, sin_port = htons e (ucast port), sin_addr = INADDR_ANY,
      sin_zero = sin_zero addr\<rparr>
   \<and> bytes_in_memory e (sin_port (make_server_sockaddr e addr port)) =
       [ucast (drop_bit 8 (ucast port :: uint16_t)), ucast (ucast port :: uint16_t)]"
  by (simp add: make_server_sockaddr_def htons_network_order)

lemma resolved_port_in_range:
  assumes "1 \<le> sint port" and "sint port \<le> 65535"
  shows "resolved_port env port = port"
  using assms port_in_range_nonzero [OF assms] port_in_range_roundtrip [of port]
  by (simp add: resolved_port_def)


text \<open>
  C1. For every requested port \<open>P\<close> from 1 to 65535: reading back the port of the
  endpoint that \<open>make_server_sockaddr\<close> made gives \<open>P\<close>; after a successful
  \<open>bind\<close> to that endpoint \<open>get_port_number\<close> returns \<open>P\<close>; and when the startup
  calls succeed, the line \<open>run_server\<close> prints carries \<open>P\<close>.
\<close>

theorem resolved_port_equals_requested:
  assumes "1 \<le> sint port" and "sint port \<le> 65535"
    and "socket_ret env \<noteq> - 1" and "\<not> setsockopt_fails env"
    and "\<not> bind_fails env" and "\<not> getsockname_fails env"
  shows "ucast (ntohs e (sin_port (make_server_sockaddr e addr port))) = port
    \<and> fst (get_port_number env fd
              (snd (sys_bind env fd (make_server_sockaddr (host_order env) addr port) w))) =
        Inr port
    \<and> (\<exists>rest. console (snd (run_server env fuel port q w)) =
          console w @ (Main_Thread, SERVER_LISTENING_ON_PORT_c @ to_string port) # rest)"
proof (intro conjI)
  have rt: "(ucast (ucast port :: uint16_t) :: c_int) = port"
    using assms(1,2) by (simp add: port_in_range_roundtrip)
  have nz: "(ucast port :: uint16_t) \<noteq> 0"
    using assms(1,2) by (rule port_in_range_nonzero)
  show "ucast (ntohs e (sin_port (make_server_sockaddr e addr port))) = port"
    by (simp add: make_server_sockaddr_def ntohs_htons rt)
  show "fst (get_port_number env fd
              (snd (sys_bind env fd (make_server_sockaddr (host_order env) addr port) w))) =
        Inr port"
    using assms(5,6) nz
    by (simp add: get_port_number_def sys_getsockname_def sys_bind_def log_call_def
        make_server_sockaddr_def htons_eq_0_iff ntohs_htons rt Let_def)
  from run_server_started [OF assms(3-6), of fuel port q w] obtain w6 where
    r: "run_server env fuel port q w = accept_loop env fuel (socket_ret env) w6"
    and c: "console w6 = console w @
           [(Main_Thread, SERVER_LISTENING_ON_PORT_c @ to_string (resolved_port env port))]"
    by blast
  obtain hs where "console (snd (accept_loop env fuel (socket_ret env) w6)) =
      console w6 @ map handler_line hs"
    using accept_loop_console by blast
  then have "console (snd (run_server env fuel port q w)) =
      console w @ (Main_Thread, SERVER_LISTENING_ON_PORT_c @ to_string port) # map handler_line hs"
    using r c resolved_port_in_range [OF assms(1,2)] by simp
  then show "\<exists>rest. console (snd (run_server env fuel port q w)) =
          console w @ (Main_Thread, SERVER_LISTENING_ON_PORT_c @ to_string port) # rest"
    by blast
qed

theorem resolved_port_equals_requested_witness:
  "1 \<le> sint (8080 :: c_int) \<and> sint (8080 :: c_int) \<le> 65535
   \<and> socket_ret example_env \<noteq> - 1 \<and> \<not> setsockopt_fails example_env
   \<and> \<not> bind_fails example_env \<and> \<not> getsockname_fails example_env
   \<and> ucast (ntohs LittleEndian (sin_port (make_server_sockaddr LittleEndian unbound_sockaddr 8080))) =
       (8080 :: c_int)
   \<and> fst (get_port_number example_env 3
            (snd (sys_bind example_env 3
                   (make_server_sockaddr (host_order example_env) unbound_sockaddr 8080)
                   initial_world))) = Inr 8080
   \<and> (\<exists>rest. console (snd (run_server example_env 5 8080 30 initial_world)) =
         console initial_world @
         (Main_Thread, SERVER_LISTENING_ON_PORT_c @ to_string 8080) # rest)"
proof -
  have h: "1 \<le> sint (8080 :: c_int)" "sint (8080 :: c_int) \<le> 65535"
    "socket_ret example_env \<noteq> - 1" "\<not> setsockopt_fails example_env"
    "\<not> bind_fails example_env" "\<not> getsockname_fails example_env"
    by (simp_all add: example_env_def)
  from resolved_port_equals_requested [OF h, of LittleEndian unbound_sockaddr 3 initial_world 5 30]
  show ?thesis using h by simp
qed

section \<open>Ports out of range\<close>

text \<open>
  C10, as stated: a negative port \<open>p\<close> is encoded as \<open>65536 + (p mod 65536)\<close>. For
  \<open>p = -65536\<close> the port encoded is 0, and the formula gives 65536, whether \<open>mod\<close> is
  read as C's remainder or as the non-negative residue.
\<close>

theorem negative_port_formula_counterexample:
  "sint (- 65536 :: c_int) < 0
   \<and> uint (ntohs LittleEndian
        (sin_port (make_server_sockaddr LittleEndian unbound_sockaddr (- 65536)))) \<noteq>
      65536 + c_rem (sint (- 65536 :: c_int)) 65536
   \<and> uint (ntohs LittleEndian
        (sin_port (make_server_sockaddr LittleEndian unbound_sockaddr (- 65536)))) \<noteq>
      65536 + sint (- 65536 :: c_int) mod 65536"
  by (simp add: encoded_port_mod c_rem_def)

text \<open>
  C10, amended. For every \<open>int\<close> \<open>p\<close> the port encoded into the endpoint is the
  residue of \<open>p\<close> modulo 65536, so a port out of range is truncated, not rejected.
  Port 65536 gives the endpoint of port 0, and \<open>run_server\<close> cannot tell the two apart.
  A negative \<open>p\<close> that is no multiple of 65536 is encoded as 65536 plus the (negative)
  C remainder of \<open>p\<close> by 65536; a multiple of 65536 is encoded as 0.
\<close>

theorem port_truncated_mod_65536:
  "uint (ntohs e (sin_port (make_server_sockaddr e addr p))) = sint p mod 65536
   \<and> make_server_sockaddr e addr 65536 = make_server_sockaddr e addr 0
   \<and> run_server env fuel 65536 q w = run_server env fuel 0 q w
   \<and> (sint p < 0 \<and> \<not> 65536 dvd sint p \<longrightarrow>
        uint (ntohs e (sin_port (make_server_sockaddr e addr p))) = 65536 + c_rem (sint p) 65536)
   \<and> (65536 dvd sint p \<longrightarrow>
        uint (ntohs e (sin_port (make_server_sockaddr e addr p))) = 0)"
  by (simp add: encoded_port_mod make_server_sockaddr_65536 run_server_65536 negative_wraps)

theorem port_truncated_mod_65536_witness:
  "sint (- 1 :: c_int) < 0 \<and> \<not> 65536 dvd sint (- 1 :: c_int)
   \<and> uint (ntohs LittleEndian (sin_port (make_server_sockaddr LittleEndian unbound_sockaddr (- 1)))) =
       65536 + c_rem (sint (- 1 :: c_int)) 65536
   \<and> 65536 dvd sint (- 65536 :: c_int)
   \<and> uint (ntohs LittleEndian (sin_port (make_server_sockaddr LittleEndian unbound_sockaddr (- 65536)))) = 0"
  using port_truncated_mod_65536 [of LittleEndian unbound_sockaddr "- 1"]
    port_truncated_mod_65536 [of LittleEndian unbound_sockaddr "- 65536"]
  by simp


section \<open>Evaluation\<close>

text \<open>The definitions to unfold when the model is run on a concrete input.\<close>

lemmas model_defs =
  main_def main_rt_def try_run_server_def try_run_server_rt_def run_server_def run_server_rt_def
  accept_loop_def every_thread_starts_def sys_socket_def sys_setsockopt_def sys_bind_def
  get_port_number_def sys_getsockname_def sys_listen_def sys_accept_def log_call_def
  thread_safe_print_def make_server_sockaddr_def initial_world_def
  yield_def run_thread_def handle_connection_def spawn_detached_def Let_def


section \<open>Usage errors\<close>

text \<open>
  C4. With two or more command-line arguments (\<open>argc > 2\<close>) \<open>main\<close> prints the usage
  message and nothing else, returns -1 (not 0), makes no call of the socket interface and
  starts no thread.
\<close>

theorem usage_error_only:
  assumes "length argv > 2"
  shows "fst (main env fuel argv) = Exited (- 1)
    \<and> fst (main env fuel argv) \<noteq> Exited 0
    \<and> snd (main env fuel argv) = initial_world\<lparr>console := [(Main_Thread, USAGE_MESSAGE_c)]\<rparr>
    \<and> console (snd (main env fuel argv)) = [(Main_Thread, USAGE_MESSAGE_c)]
    \<and> calls (snd (main env fuel argv)) = []
    \<and> detached (snd (main env fuel argv)) = []"
  using assms by (simp add: main_def main_rt_def thread_safe_print_def initial_world_def)

theorem usage_error_only_witness:
  "length [''./server'', ''8080'', ''extra''] > 2
   \<and> fst (main example_env 5 [''./server'', ''8080'', ''extra'']) = Exited (- 1)
   \<and> fst (main example_env 5 [''./server'', ''8080'', ''extra'']) \<noteq> Exited 0
   \<and> snd (main example_env 5 [''./server'', ''8080'', ''extra'']) =
       initial_world\<lparr>console := [(Main_Thread, USAGE_MESSAGE_c)]\<rparr>
   \<and> console (snd (main example_env 5 [''./server'', ''8080'', ''extra''])) =
       [(Main_Thread, USAGE_MESSAGE_c)]
   \<and> calls (snd (main example_env 5 [''./server'', ''8080'', ''extra''])) = []
   \<and> detached (snd (main example_env 5 [''./server'', ''8080'', ''extra''])) = []"
proof -
  have h: "length [''./server'', ''8080'', ''extra''] > 2" by simp
  from usage_error_only [OF h, of example_env 5] show ?thesis using h by blast
qed

section \<open>The connection handler\<close>

text \<open>
  C9. For every connection handle, the buffer of \<open>handle_connection\<close> has
  \<open>MAX_MESSAGE_SIZE_IN_BYTES_c\<close> = 4096 bytes and every byte is 0 after the
  \<open>memset\<close>, whatever the stack held before. The handler changes the world only by its
  one line on the console: it makes no call of the socket interface, so it neither reads
  from nor writes to the peer.
\<close>

theorem handle_connection_clears_buffer:
  "snd (handle_connection env connection_fd w) = replicate 4096 0
   \<and> length (snd (handle_connection env connection_fd w)) = MAX_MESSAGE_SIZE_IN_BYTES_c
   \<and> fst (handle_connection env connection_fd w) =
       w\<lparr>console := console w @
          [(Handler_Thread connection_fd, HANDLING_NEW_CONNECTION_c @ to_string connection_fd)]\<rparr>
   \<and> calls (fst (handle_connection env connection_fd w)) = calls w"
  by (simp add: handle_connection_def memset_def MAX_MESSAGE_SIZE_IN_BYTES_c_def
      thread_safe_print_def Let_def)

section \<open>The result of \<open>listen\<close>\<close>

lemma run_thread_listen_fails: "run_thread (env\<lparr>listen_fails := b\<rparr>) = run_thread env"
  by (rule ext)+ (simp add: run_thread_def handle_connection_def Let_def)

lemma yield_listen_fails: "yield (env\<lparr>listen_fails := b\<rparr>) w = yield env w"
  by (simp add: yield_def run_thread_listen_fails)

lemma sys_accept_listen_fails: "sys_accept (env\<lparr>listen_fails := b\<rparr>) fd w = sys_accept env fd w"
  by (simp add: sys_accept_def yield_listen_fails Let_def)

lemma accept_loop_rt_listen_fails:
  "accept_loop_rt rt (env\<lparr>listen_fails := b\<rparr>) fuel fd w = accept_loop_rt rt env fuel fd w"
proof (induction fuel arbitrary: w)
  case 0
  show ?case by simp
next
  case (Suc fuel)
  obtain cfd w1 where a: "sys_accept env fd w = (cfd, w1)"
    by (cases "sys_accept env fd w")
  show ?case
    using a Suc.IH [of "spawn_detached cfd w1"] by (simp add: sys_accept_listen_fails)
qed

lemma run_server_rt_listen_fails:
  "run_server_rt rt (env\<lparr>listen_fails := b\<rparr>) fuel p q w = run_server_rt rt env fuel p q w"
  by (simp add: run_server_rt_def accept_loop_rt_listen_fails sys_socket_def sys_setsockopt_def
      sys_bind_def get_port_number_def sys_getsockname_def sys_listen_def Let_def)

lemma run_server_listen_fails:
  "run_server (env\<lparr>listen_fails := b\<rparr>) fuel p q w = run_server env fuel p q w"
  unfolding run_server_def by (rule run_server_rt_listen_fails)

theorem listen_result_is_ignored:
  "fst (sys_listen (env\<lparr>listen_fails := True\<rparr>) fd q w) = - 1
   \<and> run_server (env\<lparr>listen_fails := True\<rparr>) fuel p q w =
       run_server (env\<lparr>listen_fails := False\<rparr>) fuel p q w
   \<and> main (env\<lparr>listen_fails := True\<rparr>) fuel argv = main (env\<lparr>listen_fails := False\<rparr>) fuel argv
   \<and> fst (run_server (example_env\<lparr>listen_fails := True\<rparr>) (Suc (Suc 0)) 8080 30 initial_world) = Unfinished
   \<and> calls (snd (run_server (example_env\<lparr>listen_fails := True\<rparr>) (Suc (Suc 0)) 8080 30 initial_world)) =
       [Socket AF_INET SOCK_STREAM 0, Setsockopt 3 SOL_SOCKET SO_REUSEADDR 1,
        Bind 3 (make_server_sockaddr LittleEndian (uninit_sockaddr example_env) 8080),
        Getsockname 3, Listen 3 30, Accept 3, Accept 3]
   \<and> detached (snd (run_server (example_env\<lparr>listen_fails := True\<rparr>) (Suc (Suc 0)) 8080 30 initial_world)) = [5]"
proof (intro conjI)
  show "fst (sys_listen (env\<lparr>listen_fails := True\<rparr>) fd q w) = - 1"
    by (simp add: sys_listen_def)
  show "run_server (env\<lparr>listen_fails := True\<rparr>) fuel p q w =
       run_server (env\<lparr>listen_fails := False\<rparr>) fuel p q w"
    by (simp only: run_server_listen_fails)
  show "main (env\<lparr>listen_fails := True\<rparr>) fuel argv = main (env\<lparr>listen_fails := False\<rparr>) fuel argv"
    by (simp only: main_def main_rt_def try_run_server_rt_def run_server_rt_listen_fails
        yield_listen_fails)
  show "fst (run_server (example_env\<lparr>listen_fails := True\<rparr>) (Suc (Suc 0)) 8080 30 initial_world) = Unfinished"
    by (simp add: model_defs example_env_def)
  show "calls (snd (run_server (example_env\<lparr>listen_fails := True\<rparr>) (Suc (Suc 0)) 8080 30 initial_world)) =
       [Socket AF_INET SOCK_STREAM 0, Setsockopt 3 SOL_SOCKET SO_REUSEADDR 1,
        Bind 3 (make_server_sockaddr LittleEndian (uninit_sockaddr example_env) 8080),
        Getsockname 3, Listen 3 30, Accept 3, Accept 3]"
    by (simp add: model_defs example_env_def)
  show "detached (snd (run_server (example_env\<lparr>listen_fails := True\<rparr>) (Suc (Suc 0)) 8080 30 initial_world)) = [5]"
    by (simp add: model_defs example_env_def)
qed


section \<open>The process as a whole\<close>

lemma main_rt_run:
  assumes "length argv \<le> 2"
  shows "main_rt rt env fuel argv =
    try_run_server_rt rt env fuel (requested_port argv)
      (thread_safe_print Main_Thread (announcement argv) initial_world)"
  using assms by (simp add: main_rt_def requested_port_def announcement_def Let_def)

lemma main_run:
  assumes "length argv \<le> 2"
  shows "main env fuel argv =
    try_run_server env fuel (requested_port argv)
      (thread_safe_print Main_Thread (announcement argv) initial_world)"
  unfolding main_def try_run_server_def using assms by (rule main_rt_run)

lemma try_run_server_rt_unfinished:
  assumes "run_server_rt rt env fuel port SERVER_SOCKET_QUEUE_SIZE_c w = (Unfinished, w2)"
  shows "try_run_server_rt rt env fuel port w = (Still_Running, w2)"
  using assms by (simp add: try_run_server_rt_def)

lemma try_run_server_rt_threw:
  assumes "run_server_rt rt env fuel port SERVER_SOCKET_QUEUE_SIZE_c w = (out, w2)"
    and "out = Threw e \<and> msg = what e \<or> out = Threw_system_error msg"
  shows "\<exists>h1 h2 w'. try_run_server_rt rt env fuel port w = (Exited (- 1), w')
     \<and> console w' = console w2 @ map handler_line h1 @ [(Main_Thread, msg)] @ map handler_line h2
     \<and> mset h1 + mset h2 + mset (detached w') = mset (detached w2)
     \<and> calls w' = calls w2 \<and> accept_count w' = accept_count w2"
proof -
  let ?y1 = "yield env w2"
  let ?p = "thread_safe_print Main_Thread msg ?y1"
  let ?y2 = "yield env ?p"
  obtain h1 where "threads_ran h1 w2 ?y1" using yield_ran by blast
  note A = threads_ranD [OF this]
  obtain h2 where "threads_ran h2 ?p ?y2" using yield_ran by blast
  note B = threads_ranD [OF this]
  have t: "try_run_server_rt rt env fuel port w = (Exited (- 1), ?y2)"
    using assms by (auto simp add: try_run_server_rt_def)
  have c: "console ?y2 =
      console w2 @ map handler_line h1 @ [(Main_Thread, msg)] @ map handler_line h2"
    using A(1) B(1) by (simp add: thread_safe_print_def)
  have "mset h2 + mset (detached ?y2) = mset (detached ?y1)"
    using B(2) by (simp add: thread_safe_print_def)
  then have "mset h1 + (mset h2 + mset (detached ?y2)) = mset (detached w2)"
    using A(2) by simp
  then have d: "mset h1 + mset h2 + mset (detached ?y2) = mset (detached w2)"
    by (simp only: add.assoc)
  have k: "calls ?y2 = calls w2" using A(3) B(3) by (simp add: thread_safe_print_def)
  have n: "accept_count ?y2 = accept_count w2"
    using A(5) B(5) by (simp add: thread_safe_print_def)
  from t c d k n show ?thesis by blast
qed

lemma try_run_server_rt_threw_no_threads:
  assumes "run_server_rt rt env fuel port SERVER_SOCKET_QUEUE_SIZE_c w = (Threw e, w2)"
    and "detached w2 = []"
  shows "fst (try_run_server_rt rt env fuel port w) = Exited (- 1)"
    and "console (snd (try_run_server_rt rt env fuel port w)) =
      console w2 @ [(Main_Thread, what e)]"
    and "calls (snd (try_run_server_rt rt env fuel port w)) = calls w2"
    and "detached (snd (try_run_server_rt rt env fuel port w)) = []"
proof -
  have "Threw e = Threw e \<and> what e = what e \<or> Threw e = Threw_system_error (what e)"
    by simp
  from try_run_server_rt_threw [OF assms(1) this] obtain h1 h2 w' where
    t: "try_run_server_rt rt env fuel port w = (Exited (- 1), w')"
    and c: "console w' =
      console w2 @ map handler_line h1 @ [(Main_Thread, what e)] @ map handler_line h2"
    and d: "mset h1 + mset h2 + mset (detached w') = mset (detached w2)"
    and k: "calls w' = calls w2"
    by blast
  from d assms(2) have e: "h1 = []" "h2 = []" "detached w' = []" by simp_all
  with c have c': "console w' = console w2 @ [(Main_Thread, what e)]" by simp
  show "fst (try_run_server_rt rt env fuel port w) = Exited (- 1)" using t by simp
  show "console (snd (try_run_server_rt rt env fuel port w)) =
      console w2 @ [(Main_Thread, what e)]"
    using t c' by simp
  show "calls (snd (try_run_server_rt rt env fuel port w)) = calls w2" using t k by simp
  show "detached (snd (try_run_server_rt rt env fuel port w)) = []" using t e(3) by simp
qed

lemma run_server_rt_outcomes:
  "fst (run_server_rt rt env fuel p q w) \<in>
     {Unfinished,
      Threw (Server_Error ENCOUNTERED_AN_ERROR_OPENING_STREAM_SOCKET_c),
      Threw (Server_Error ENCOUNTERED_ERROR_SETTING_SOCKET_OPTIONS_c),
      Threw (Server_Error ENCOUNTERED_ERROR_BINDING_STREAM_SOCKET_c),
      Threw (Server_Error ENCOUNTERED_ERROR_FETCHING_SOCKET_PORT_c),
      Threw (Server_Error ENCOUNTERED_ERROR_ACCEPTING_NEW_CONNECTION_c),
      Threw_system_error (system_error_what rt)}"
proof -
  consider (a) "socket_ret env = - 1"
    | (b) "socket_ret env \<noteq> - 1" "setsockopt_fails env"
    | (c) "socket_ret env \<noteq> - 1" "\<not> setsockopt_fails env" "bind_fails env"
    | (d) "socket_ret env \<noteq> - 1" "\<not> setsockopt_fails env" "\<not> bind_fails env"
          "getsockname_fails env"
    | (e) "socket_ret env \<noteq> - 1" "\<not> setsockopt_fails env" "\<not> bind_fails env"
          "\<not> getsockname_fails env"
    by blast
  then show ?thesis
  proof cases
    case a
    then show ?thesis by (simp add: run_server_rt_socket_fails)
  next
    case b
    then show ?thesis by (simp add: run_server_rt_setsockopt_fails)
  next
    case c
    then show ?thesis by (simp add: run_server_rt_bind_fails)
  next
    case d
    then show ?thesis by (simp add: run_server_rt_getsockname_fails(1))
  next
    case e
    from run_server_rt_started [OF e, of rt fuel p q w] obtain w6 where
      r: "run_server_rt rt env fuel p q w = accept_loop_rt rt env fuel (socket_ret env) w6"
      by blast
    show ?thesis
    proof (cases rule: accept_loop_rt_cases [of fuel env w6 rt "socket_ret env"])
      case (running hs w')
      then show ?thesis using r by simp
    next
      case (failed k hs w')
      then show ?thesis using r by simp
    qed
  qed
qed

lemma run_server_rt_not_Returned: "fst (run_server_rt rt env fuel p q w) \<noteq> Returned"
  using run_server_rt_outcomes [of rt env fuel p q w] by auto

lemma try_run_server_rt_not_0: "fst (try_run_server_rt rt env fuel port w) \<noteq> Exited 0"
proof (cases "run_server_rt rt env fuel port SERVER_SOCKET_QUEUE_SIZE_c w")
  case (Pair out w2)
  then have "out \<noteq> Returned"
    using run_server_rt_not_Returned [of rt env fuel port SERVER_SOCKET_QUEUE_SIZE_c w] by simp
  then show ?thesis using Pair by (cases out) (simp_all add: try_run_server_rt_def)
qed

lemma main_rt_not_0: "fst (main_rt rt env fuel argv) \<noteq> Exited 0"
proof (cases "length argv \<le> 2")
  case True
  then show ?thesis by (simp only: main_rt_run try_run_server_rt_not_0 not_False_eq_True)
next
  case False
  then show ?thesis by (simp add: main_rt_def)
qed

text \<open>What the loop has done while it runs, and when it ends.\<close>

lemma run_server_rt_runs_on:
  assumes "socket_ret env \<noteq> - 1" and "\<not> setsockopt_fails env" and "\<not> bind_fails env"
    and "\<not> getsockname_fails env"
    and "\<forall>i<fuel. accept_ret env (accept_count w + i) \<noteq> - 1"
    and "\<forall>i<fuel. \<not> thread_start_fails rt (accept_count w + i)"
  shows "\<exists>hs w'. run_server_rt rt env fuel p q w = (Unfinished, w')
    \<and> console w' = console w @
         [(Main_Thread, SERVER_LISTENING_ON_PORT_c @ to_string (resolved_port env p))]
         @ map handler_line hs
    \<and> mset hs + mset (detached w') =
        mset (detached w) + mset (map (accept_ret env) [accept_count w..<accept_count w + fuel])
    \<and> calls w' = calls w @
         [Socket AF_INET SOCK_STREAM 0,
          Setsockopt (socket_ret env) SOL_SOCKET SO_REUSEADDR 1,
          Bind (socket_ret env) (make_server_sockaddr (host_order env) (uninit_sockaddr env) p),
          Getsockname (socket_ret env),
          Listen (socket_ret env) q]
         @ replicate fuel (Accept (socket_ret env))
    \<and> accept_count w' = accept_count w + fuel"
proof -
  from run_server_rt_started [OF assms(1-4), of rt fuel p q w] obtain w6 where
    r: "run_server_rt rt env fuel p q w = accept_loop_rt rt env fuel (socket_ret env) w6"
    and c: "console w6 = console w @
           [(Main_Thread, SERVER_LISTENING_ON_PORT_c @ to_string (resolved_port env p))]"
    and k: "calls w6 = calls w @
           [Socket AF_INET SOCK_STREAM 0,
            Setsockopt (socket_ret env) SOL_SOCKET SO_REUSEADDR 1,
            Bind (socket_ret env) (make_server_sockaddr (host_order env) (uninit_sockaddr env) p),
            Getsockname (socket_ret env),
            Listen (socket_ret env) q]"
    and d: "detached w6 = detached w" and n: "accept_count w6 = accept_count w"
    by blast
  from assms(5) n have a: "\<forall>i<fuel. accept_ret env (accept_count w6 + i) \<noteq> - 1" by simp
  from assms(6) n have t: "\<forall>i<fuel. \<not> thread_start_fails rt (accept_count w6 + i)" by simp
  from accept_loop_rt_unfinished [OF a t] obtain hs w' where
    l: "accept_loop_rt rt env fuel (socket_ret env) w6 = (Unfinished, w')"
    and lr: "loop_ran env (socket_ret env) fuel fuel hs w6 w'" by blast
  note L = loop_ranD [OF lr]
  have "run_server_rt rt env fuel p q w = (Unfinished, w')" using r l by simp
  moreover have "console w' = console w @
         [(Main_Thread, SERVER_LISTENING_ON_PORT_c @ to_string (resolved_port env p))]
         @ map handler_line hs"
    using L(1) c by simp
  moreover have "mset hs + mset (detached w') =
        mset (detached w) + mset (map (accept_ret env) [accept_count w..<accept_count w + fuel])"
    using L(2) d n by simp
  moreover have "calls w' = calls w @
         [Socket AF_INET SOCK_STREAM 0,
          Setsockopt (socket_ret env) SOL_SOCKET SO_REUSEADDR 1,
          Bind (socket_ret env) (make_server_sockaddr (host_order env) (uninit_sockaddr env) p),
          Getsockname (socket_ret env),
          Listen (socket_ret env) q]
         @ replicate fuel (Accept (socket_ret env))"
    using L(3) k by simp
  moreover have "accept_count w' = accept_count w + fuel" using L(5) n by simp
  ultimately show ?thesis by blast
qed

lemma run_server_rt_loop_fails:
  assumes "socket_ret env \<noteq> - 1" and "\<not> setsockopt_fails env" and "\<not> bind_fails env"
    and "\<not> getsockname_fails env"
    and "k < fuel"
    and "\<forall>i<k. accept_ret env (accept_count w + i) \<noteq> - 1"
    and "\<forall>i<k. \<not> thread_start_fails rt (accept_count w + i)"
    and "accept_ret env (accept_count w + k) = - 1 \<or> thread_start_fails rt (accept_count w + k)"
  shows "\<exists>hs w'. run_server_rt rt env fuel p q w =
        (if accept_ret env (accept_count w + k) = - 1
         then Threw (Server_Error ENCOUNTERED_ERROR_ACCEPTING_NEW_CONNECTION_c)
         else Threw_system_error (system_error_what rt), w')
    \<and> console w' = console w @
         [(Main_Thread, SERVER_LISTENING_ON_PORT_c @ to_string (resolved_port env p))]
         @ map handler_line hs
    \<and> mset hs + mset (detached w') =
        mset (detached w) + mset (map (accept_ret env) [accept_count w..<accept_count w + k])
    \<and> calls w' = calls w @
         [Socket AF_INET SOCK_STREAM 0,
          Setsockopt (socket_ret env) SOL_SOCKET SO_REUSEADDR 1,
          Bind (socket_ret env) (make_server_sockaddr (host_order env) (uninit_sockaddr env) p),
          Getsockname (socket_ret env),
          Listen (socket_ret env) q]
         @ replicate (Suc k) (Accept (socket_ret env))
    \<and> accept_count w' = accept_count w + Suc k"
proof -
  from run_server_rt_started [OF assms(1-4), of rt fuel p q w] obtain w6 where
    r: "run_server_rt rt env fuel p q w = accept_loop_rt rt env fuel (socket_ret env) w6"
    and c: "console w6 = console w @
           [(Main_Thread, SERVER_LISTENING_ON_PORT_c @ to_string (resolved_port env p))]"
    and ks: "calls w6 = calls w @
           [Socket AF_INET SOCK_STREAM 0,
            Setsockopt (socket_ret env) SOL_SOCKET SO_REUSEADDR 1,
            Bind (socket_ret env) (make_server_sockaddr (host_order env) (uninit_sockaddr env) p),
            Getsockname (socket_ret env),
            Listen (socket_ret env) q]"
    and d: "detached w6 = detached w" and n: "accept_count w6 = accept_count w"
    by blast
  from assms(6) n have a: "\<forall>i<k. accept_ret env (accept_count w6 + i) \<noteq> - 1" by simp
  from assms(7) n have t: "\<forall>i<k. \<not> thread_start_fails rt (accept_count w6 + i)" by simp
  from assms(8) n have f: "accept_ret env (accept_count w6 + k) = - 1
      \<or> thread_start_fails rt (accept_count w6 + k)" by simp
  from accept_loop_rt_fails [OF assms(5) a t f] obtain hs w' where
    l: "accept_loop_rt rt env fuel (socket_ret env) w6 =
        (if accept_ret env (accept_count w6 + k) = - 1
         then Threw (Server_Error ENCOUNTERED_ERROR_ACCEPTING_NEW_CONNECTION_c)
         else Threw_system_error (system_error_what rt), w')"
    and lr: "loop_ran env (socket_ret env) k (Suc k) hs w6 w'" by blast
  note L = loop_ranD [OF lr]
  have "run_server_rt rt env fuel p q w =
        (if accept_ret env (accept_count w + k) = - 1
         then Threw (Server_Error ENCOUNTERED_ERROR_ACCEPTING_NEW_CONNECTION_c)
         else Threw_system_error (system_error_what rt), w')"
    using r l n by simp
  moreover have "console w' = console w @
         [(Main_Thread, SERVER_LISTENING_ON_PORT_c @ to_string (resolved_port env p))]
         @ map handler_line hs"
    using L(1) c by simp
  moreover have "mset hs + mset (detached w') =
        mset (detached w) + mset (map (accept_ret env) [accept_count w..<accept_count w + k])"
    using L(2) d n by simp
  moreover have "calls w' = calls w @
         [Socket AF_INET SOCK_STREAM 0,
          Setsockopt (socket_ret env) SOL_SOCKET SO_REUSEADDR 1,
          Bind (socket_ret env) (make_server_sockaddr (host_order env) (uninit_sockaddr env) p),
          Getsockname (socket_ret env),
          Listen (socket_ret env) q]
         @ replicate (Suc k) (Accept (socket_ret env))"
    using L(3) ks by simp
  moreover have "accept_count w' = accept_count w + Suc k" using L(5) n by simp
  ultimately show ?thesis by blast
qed


section \<open>Fatal errors\<close>

lemma lines_of_append: "lines_of t (xs @ ys) = lines_of t xs @ lines_of t ys"
  by (simp add: lines_of_def)

lemma lines_of_handler_lines: "lines_of Main_Thread (map handler_line hs) = []"
  by (induction hs) (simp_all add: lines_of_def handler_line_def)

lemma main_rt_socket_fails:
  assumes "length argv \<le> 2" and "socket_ret env = - 1"
  shows "fst (main_rt rt env fuel argv) = Exited (- 1)"
    and "console (snd (main_rt rt env fuel argv)) =
      [(Main_Thread, announcement argv),
       (Main_Thread, ENCOUNTERED_AN_ERROR_OPENING_STREAM_SOCKET_c)]"
    and "calls (snd (main_rt rt env fuel argv)) = [Socket AF_INET SOCK_STREAM 0]"
    and "detached (snd (main_rt rt env fuel argv)) = []"
proof -
  let ?w1 = "thread_safe_print Main_Thread (announcement argv) initial_world"
  note r = run_server_rt_socket_fails [OF assms(2), of rt fuel "requested_port argv"
      SERVER_SOCKET_QUEUE_SIZE_c ?w1]
  have d: "detached (log_call (Socket AF_INET SOCK_STREAM 0) ?w1) = []"
    by (simp add: log_call_def thread_safe_print_def initial_world_def)
  note T = try_run_server_rt_threw_no_threads [OF r d]
  show "fst (main_rt rt env fuel argv) = Exited (- 1)"
    using T(1) by (simp only: main_rt_run [OF assms(1)])
  show "console (snd (main_rt rt env fuel argv)) =
      [(Main_Thread, announcement argv),
       (Main_Thread, ENCOUNTERED_AN_ERROR_OPENING_STREAM_SOCKET_c)]"
    using T(2) by (simp add: main_rt_run [OF assms(1)] log_call_def thread_safe_print_def
        initial_world_def)
  show "calls (snd (main_rt rt env fuel argv)) = [Socket AF_INET SOCK_STREAM 0]"
    using T(3) by (simp add: main_rt_run [OF assms(1)] log_call_def thread_safe_print_def
        initial_world_def)
  show "detached (snd (main_rt rt env fuel argv)) = []"
    using T(4) by (simp only: main_rt_run [OF assms(1)])
qed

lemma main_rt_setsockopt_fails:
  assumes "length argv \<le> 2" and "socket_ret env \<noteq> - 1" and "setsockopt_fails env"
  shows "fst (main_rt rt env fuel argv) = Exited (- 1)"
    and "console (snd (main_rt rt env fuel argv)) =
      [(Main_Thread, announcement argv),
       (Main_Thread, ENCOUNTERED_ERROR_SETTING_SOCKET_OPTIONS_c)]"
    and "calls (snd (main_rt rt env fuel argv)) =
      [Socket AF_INET SOCK_STREAM 0, Setsockopt (socket_ret env) SOL_SOCKET SO_REUSEADDR 1]"
    and "detached (snd (main_rt rt env fuel argv)) = []"
proof -
  let ?w1 = "thread_safe_print Main_Thread (announcement argv) initial_world"
  let ?w2 = "log_call (Setsockopt (socket_ret env) SOL_SOCKET SO_REUSEADDR 1)
       (log_call (Socket AF_INET SOCK_STREAM 0) ?w1)"
  note r = run_server_rt_setsockopt_fails [OF assms(2,3), of rt fuel "requested_port argv"
      SERVER_SOCKET_QUEUE_SIZE_c ?w1]
  have d: "detached ?w2 = []"
    by (simp add: log_call_def thread_safe_print_def initial_world_def)
  note T = try_run_server_rt_threw_no_threads [OF r d]
  show "fst (main_rt rt env fuel argv) = Exited (- 1)"
    using T(1) by (simp only: main_rt_run [OF assms(1)])
  show "console (snd (main_rt rt env fuel argv)) =
      [(Main_Thread, announcement argv),
       (Main_Thread, ENCOUNTERED_ERROR_SETTING_SOCKET_OPTIONS_c)]"
    using T(2) by (simp add: main_rt_run [OF assms(1)] log_call_def thread_safe_print_def
        initial_world_def)
  show "calls (snd (main_rt rt env fuel argv)) =
      [Socket AF_INET SOCK_STREAM 0, Setsockopt (socket_ret env) SOL_SOCKET SO_REUSEADDR 1]"
    using T(3) by (simp add: main_rt_run [OF assms(1)] log_call_def thread_safe_print_def
        initial_world_def)
  show "detached (snd (main_rt rt env fuel argv)) = []"
    using T(4) by (simp only: main_rt_run [OF assms(1)])
qed

lemma main_rt_bind_fails:
  assumes "length argv \<le> 2" and "socket_ret env \<noteq> - 1" and "\<not> setsockopt_fails env"
    and "bind_fails env"
  shows "fst (main_rt rt env fuel argv) = Exited (- 1)"
    and "console (snd (main_rt rt env fuel argv)) =
      [(Main_Thread, announcement argv),
       (Main_Thread, ENCOUNTERED_ERROR_BINDING_STREAM_SOCKET_c)]"
    and "calls (snd (main_rt rt env fuel argv)) =
      [Socket AF_INET SOCK_STREAM 0, Setsockopt (socket_ret env) SOL_SOCKET SO_REUSEADDR 1,
       Bind (socket_ret env)
         (make_server_sockaddr (host_order env) (uninit_sockaddr env) (requested_port argv))]"
    and "detached (snd (main_rt rt env fuel argv)) = []"
proof -
  let ?w1 = "thread_safe_print Main_Thread (announcement argv) initial_world"
  let ?w3 = "log_call (Bind (socket_ret env)
         (make_server_sockaddr (host_order env) (uninit_sockaddr env) (requested_port argv)))
       (log_call (Setsockopt (socket_ret env) SOL_SOCKET SO_REUSEADDR 1)
         (log_call (Socket AF_INET SOCK_STREAM 0) ?w1))"
  note r = run_server_rt_bind_fails [OF assms(2,3,4), of rt fuel "requested_port argv"
      SERVER_SOCKET_QUEUE_SIZE_c ?w1]
  have d: "detached ?w3 = []"
    by (simp add: log_call_def thread_safe_print_def initial_world_def)
  note T = try_run_server_rt_threw_no_threads [OF r d]
  show "fst (main_rt rt env fuel argv) = Exited (- 1)"
    using T(1) by (simp only: main_rt_run [OF assms(1)])
  show "console (snd (main_rt rt env fuel argv)) =
      [(Main_Thread, announcement argv),
       (Main_Thread, ENCOUNTERED_ERROR_BINDING_STREAM_SOCKET_c)]"
    using T(2) by (simp add: main_rt_run [OF assms(1)] log_call_def thread_safe_print_def
        initial_world_def)
  show "calls (snd (main_rt rt env fuel argv)) =
      [Socket AF_INET SOCK_STREAM 0, Setsockopt (socket_ret env) SOL_SOCKET SO_REUSEADDR 1,
       Bind (socket_ret env)
         (make_server_sockaddr (host_order env) (uninit_sockaddr env) (requested_port argv))]"
    using T(3) by (simp add: main_rt_run [OF assms(1)] log_call_def thread_safe_print_def
        initial_world_def)
  show "detached (snd (main_rt rt env fuel argv)) = []"
    using T(4) by (simp only: main_rt_run [OF assms(1)])
qed

lemma main_rt_getsockname_fails:
  assumes "length argv \<le> 2" and "socket_ret env \<noteq> - 1" and "\<not> setsockopt_fails env"
    and "\<not> bind_fails env" and "getsockname_fails env"
  shows "fst (main_rt rt env fuel argv) = Exited (- 1)"
    and "console (snd (main_rt rt env fuel argv)) =
      [(Main_Thread, announcement argv),
       (Main_Thread, ENCOUNTERED_ERROR_FETCHING_SOCKET_PORT_c)]"
    and "calls (snd (main_rt rt env fuel argv)) =
      [Socket AF_INET SOCK_STREAM 0, Setsockopt (socket_ret env) SOL_SOCKET SO_REUSEADDR 1,
       Bind (socket_ret env)
         (make_server_sockaddr (host_order env) (uninit_sockaddr env) (requested_port argv)),
       Getsockname (socket_ret env)]"
    and "detached (snd (main_rt rt env fuel argv)) = []"
proof -
  let ?w1 = "thread_safe_print Main_Thread (announcement argv) initial_world"
  let ?r = "run_server_rt rt env fuel (requested_port argv) SERVER_SOCKET_QUEUE_SIZE_c ?w1"
  note G = run_server_rt_getsockname_fails [OF assms(2-5), of rt fuel "requested_port argv"
      SERVER_SOCKET_QUEUE_SIZE_c ?w1]
  have r: "?r = (Threw (Server_Error ENCOUNTERED_ERROR_FETCHING_SOCKET_PORT_c), snd ?r)"
    using G(1) by (simp add: prod_eq_iff)
  have d: "detached (snd ?r) = []"
    using G(4) by (simp add: thread_safe_print_def initial_world_def)
  note T = try_run_server_rt_threw_no_threads [OF r d]
  show "fst (main_rt rt env fuel argv) = Exited (- 1)"
    using T(1) by (simp only: main_rt_run [OF assms(1)])
  show "console (snd (main_rt rt env fuel argv)) =
      [(Main_Thread, announcement argv),
       (Main_Thread, ENCOUNTERED_ERROR_FETCHING_SOCKET_PORT_c)]"
    using T(2) G(3)
    by (simp add: main_rt_run [OF assms(1)] thread_safe_print_def initial_world_def)
  show "calls (snd (main_rt rt env fuel argv)) =
      [Socket AF_INET SOCK_STREAM 0, Setsockopt (socket_ret env) SOL_SOCKET SO_REUSEADDR 1,
       Bind (socket_ret env)
         (make_server_sockaddr (host_order env) (uninit_sockaddr env) (requested_port argv)),
       Getsockname (socket_ret env)]"
    using T(3) G(2)
    by (simp add: main_rt_run [OF assms(1)] thread_safe_print_def initial_world_def)
  show "detached (snd (main_rt rt env fuel argv)) = []"
    using T(4) by (simp only: main_rt_run [OF assms(1)])
qed

lemma main_rt_still_running:
  assumes "length argv \<le> 2"
    and "socket_ret env \<noteq> - 1" and "\<not> setsockopt_fails env" and "\<not> bind_fails env"
    and "\<not> getsockname_fails env"
    and "\<forall>i<fuel. accept_ret env i \<noteq> - 1"
    and "\<forall>i<fuel. \<not> thread_start_fails rt i"
  shows "\<exists>hs w'. main_rt rt env fuel argv = (Still_Running, w')
      \<and> console w' =
          [(Main_Thread, announcement argv),
           (Main_Thread, SERVER_LISTENING_ON_PORT_c @
              to_string (resolved_port env (requested_port argv)))]
          @ map handler_line hs
      \<and> mset hs + mset (detached w') = mset (map (accept_ret env) [0..<fuel])
      \<and> calls w' =
          [Socket AF_INET SOCK_STREAM 0,
           Setsockopt (socket_ret env) SOL_SOCKET SO_REUSEADDR 1,
           Bind (socket_ret env)
             (make_server_sockaddr (host_order env) (uninit_sockaddr env) (requested_port argv)),
           Getsockname (socket_ret env),
           Listen (socket_ret env) 30]
          @ replicate fuel (Accept (socket_ret env))
      \<and> accept_count w' = fuel"
proof -
  let ?w1 = "thread_safe_print Main_Thread (announcement argv) initial_world"
  have z: "accept_count ?w1 = 0" "detached ?w1 = []" "calls ?w1 = []"
    "console ?w1 = [(Main_Thread, announcement argv)]"
    by (simp_all add: thread_safe_print_def initial_world_def)
  from assms(6) z(1) have a: "\<forall>i<fuel. accept_ret env (accept_count ?w1 + i) \<noteq> - 1" by simp
  from assms(7) z(1) have t: "\<forall>i<fuel. \<not> thread_start_fails rt (accept_count ?w1 + i)"
    by simp
  from run_server_rt_runs_on [OF assms(2-5) a t, of "requested_port argv"
      SERVER_SOCKET_QUEUE_SIZE_c]
  obtain hs w' where
    r: "run_server_rt rt env fuel (requested_port argv) SERVER_SOCKET_QUEUE_SIZE_c ?w1 =
        (Unfinished, w')"
    and c: "console w' = console ?w1 @
         [(Main_Thread, SERVER_LISTENING_ON_PORT_c @
             to_string (resolved_port env (requested_port argv)))]
         @ map handler_line hs"
    and d: "mset hs + mset (detached w') =
        mset (detached ?w1)
        + mset (map (accept_ret env) [accept_count ?w1..<accept_count ?w1 + fuel])"
    and k: "calls w' = calls ?w1 @
         [Socket AF_INET SOCK_STREAM 0,
          Setsockopt (socket_ret env) SOL_SOCKET SO_REUSEADDR 1,
          Bind (socket_ret env)
            (make_server_sockaddr (host_order env) (uninit_sockaddr env) (requested_port argv)),
          Getsockname (socket_ret env),
          Listen (socket_ret env) SERVER_SOCKET_QUEUE_SIZE_c]
         @ replicate fuel (Accept (socket_ret env))"
    and n: "accept_count w' = accept_count ?w1 + fuel"
    by blast
  have "main_rt rt env fuel argv = (Still_Running, w')"
    using try_run_server_rt_unfinished [OF r] by (simp only: main_rt_run [OF assms(1)])
  moreover have "console w' =
          [(Main_Thread, announcement argv),
           (Main_Thread, SERVER_LISTENING_ON_PORT_c @
              to_string (resolved_port env (requested_port argv)))]
          @ map handler_line hs"
    using c z(4) by simp
  moreover have "mset hs + mset (detached w') = mset (map (accept_ret env) [0..<fuel])"
    using d z(1,2) by simp
  moreover have "calls w' =
          [Socket AF_INET SOCK_STREAM 0,
           Setsockopt (socket_ret env) SOL_SOCKET SO_REUSEADDR 1,
           Bind (socket_ret env)
             (make_server_sockaddr (host_order env) (uninit_sockaddr env) (requested_port argv)),
           Getsockname (socket_ret env),
           Listen (socket_ret env) 30]
          @ replicate fuel (Accept (socket_ret env))"
    using k z(3) by (simp add: SERVER_SOCKET_QUEUE_SIZE_c_def)
  moreover have "accept_count w' = fuel" using n z(1) by simp
  ultimately show ?thesis by blast
qed

lemma main_rt_loop_fails:
  assumes "length argv \<le> 2"
    and "socket_ret env \<noteq> - 1" and "\<not> setsockopt_fails env" and "\<not> bind_fails env"
    and "\<not> getsockname_fails env"
    and "k < fuel" and "\<forall>i<k. accept_ret env i \<noteq> - 1"
    and "\<forall>i<k. \<not> thread_start_fails rt i"
    and "accept_ret env k = - 1 \<or> thread_start_fails rt k"
  shows "\<exists>hs h2 w'. main_rt rt env fuel argv = (Exited (- 1), w')
      \<and> console w' =
          [(Main_Thread, announcement argv),
           (Main_Thread, SERVER_LISTENING_ON_PORT_c @
              to_string (resolved_port env (requested_port argv)))]
          @ map handler_line hs
          @ [(Main_Thread,
              if accept_ret env k = - 1 then ENCOUNTERED_ERROR_ACCEPTING_NEW_CONNECTION_c
              else system_error_what rt)]
          @ map handler_line h2
      \<and> mset hs + mset h2 + mset (detached w') = mset (map (accept_ret env) [0..<k])
      \<and> calls w' =
          [Socket AF_INET SOCK_STREAM 0,
           Setsockopt (socket_ret env) SOL_SOCKET SO_REUSEADDR 1,
           Bind (socket_ret env)
             (make_server_sockaddr (host_order env) (uninit_sockaddr env) (requested_port argv)),
           Getsockname (socket_ret env),
           Listen (socket_ret env) 30]
          @ replicate (Suc k) (Accept (socket_ret env))
      \<and> accept_count w' = Suc k"
proof -
  let ?w1 = "thread_safe_print Main_Thread (announcement argv) initial_world"
  let ?out = "if accept_ret env k = - 1
         then Threw (Server_Error ENCOUNTERED_ERROR_ACCEPTING_NEW_CONNECTION_c)
         else Threw_system_error (system_error_what rt)"
  let ?msg = "if accept_ret env k = - 1 then ENCOUNTERED_ERROR_ACCEPTING_NEW_CONNECTION_c
              else system_error_what rt"
  have z: "accept_count ?w1 = 0" "detached ?w1 = []" "calls ?w1 = []"
    "console ?w1 = [(Main_Thread, announcement argv)]"
    by (simp_all add: thread_safe_print_def initial_world_def)
  from assms(7) z(1) have a: "\<forall>i<k. accept_ret env (accept_count ?w1 + i) \<noteq> - 1" by simp
  from assms(8) z(1) have t: "\<forall>i<k. \<not> thread_start_fails rt (accept_count ?w1 + i)" by simp
  from assms(9) z(1) have f: "accept_ret env (accept_count ?w1 + k) = - 1
      \<or> thread_start_fails rt (accept_count ?w1 + k)" by simp
  from run_server_rt_loop_fails [OF assms(2-6) a t f, of "requested_port argv"
      SERVER_SOCKET_QUEUE_SIZE_c] z(1)
  obtain hs w2 where
    r: "run_server_rt rt env fuel (requested_port argv) SERVER_SOCKET_QUEUE_SIZE_c ?w1 =
        (?out, w2)"
    and c: "console w2 = console ?w1 @
         [(Main_Thread, SERVER_LISTENING_ON_PORT_c @
             to_string (resolved_port env (requested_port argv)))]
         @ map handler_line hs"
    and d: "mset hs + mset (detached w2) =
        mset (detached ?w1)
        + mset (map (accept_ret env) [accept_count ?w1..<accept_count ?w1 + k])"
    and ks: "calls w2 = calls ?w1 @
         [Socket AF_INET SOCK_STREAM 0,
          Setsockopt (socket_ret env) SOL_SOCKET SO_REUSEADDR 1,
          Bind (socket_ret env)
            (make_server_sockaddr (host_order env) (uninit_sockaddr env) (requested_port argv)),
          Getsockname (socket_ret env),
          Listen (socket_ret env) SERVER_SOCKET_QUEUE_SIZE_c]
         @ replicate (Suc k) (Accept (socket_ret env))"
    and n: "accept_count w2 = accept_count ?w1 + Suc k"
    by auto
  have o: "?out = Threw (Server_Error ENCOUNTERED_ERROR_ACCEPTING_NEW_CONNECTION_c)
        \<and> ?msg = what (Server_Error ENCOUNTERED_ERROR_ACCEPTING_NEW_CONNECTION_c)
      \<or> ?out = Threw_system_error ?msg"
    by simp
  from try_run_server_rt_threw [OF r o] obtain h1 h2 w' where
    t: "try_run_server_rt rt env fuel (requested_port argv) ?w1 = (Exited (- 1), w')"
    and tc: "console w' = console w2 @ map handler_line h1 @ [(Main_Thread, ?msg)]
          @ map handler_line h2"
    and td: "mset h1 + mset h2 + mset (detached w') = mset (detached w2)"
    and tk: "calls w' = calls w2" and tn: "accept_count w' = accept_count w2"
    by blast
  have "main_rt rt env fuel argv = (Exited (- 1), w')"
    using t by (simp only: main_rt_run [OF assms(1)])
  moreover have "console w' =
          [(Main_Thread, announcement argv),
           (Main_Thread, SERVER_LISTENING_ON_PORT_c @
              to_string (resolved_port env (requested_port argv)))]
          @ map handler_line (hs @ h1)
          @ [(Main_Thread, ?msg)]
          @ map handler_line h2"
    unfolding tc c z(4) by simp
  moreover have "mset (hs @ h1) + mset h2 + mset (detached w') =
      mset (map (accept_ret env) [0..<k])"
  proof -
    have "mset (hs @ h1) + mset h2 + mset (detached w') =
        mset hs + (mset h1 + mset h2 + mset (detached w'))"
      by (simp add: add.assoc)
    also have "\<dots> = mset hs + mset (detached w2)" by (simp only: td)
    also have "\<dots> = mset (map (accept_ret env) [0..<k])" using d z(1,2) by simp
    finally show ?thesis .
  qed
  moreover have "calls w' =
          [Socket AF_INET SOCK_STREAM 0,
           Setsockopt (socket_ret env) SOL_SOCKET SO_REUSEADDR 1,
           Bind (socket_ret env)
             (make_server_sockaddr (host_order env) (uninit_sockaddr env) (requested_port argv)),
           Getsockname (socket_ret env),
           Listen (socket_ret env) 30]
          @ replicate (Suc k) (Accept (socket_ret env))"
    using tk ks z(3) by (simp add: SERVER_SOCKET_QUEUE_SIZE_c_def)
  moreover have "accept_count w' = Suc k" using tn n z(1) by simp
  ultimately show ?thesis by blast
qed

text \<open>The same for the program as it runs when every thread starts.\<close>

lemma main_socket_fails:
  assumes "length argv \<le> 2" and "socket_ret env = - 1"
  shows "fst (main env fuel argv) = Exited (- 1)"
    and "console (snd (main env fuel argv)) =
      [(Main_Thread, announcement argv),
       (Main_Thread, ENCOUNTERED_AN_ERROR_OPENING_STREAM_SOCKET_c)]"
    and "calls (snd (main env fuel argv)) = [Socket AF_INET SOCK_STREAM 0]"
  unfolding main_def using assms by (rule main_rt_socket_fails)+

lemma main_setsockopt_fails:
  assumes "length argv \<le> 2" and "socket_ret env \<noteq> - 1" and "setsockopt_fails env"
  shows "fst (main env fuel argv) = Exited (- 1)"
    and "console (snd (main env fuel argv)) =
      [(Main_Thread, announcement argv),
       (Main_Thread, ENCOUNTERED_ERROR_SETTING_SOCKET_OPTIONS_c)]"
    and "calls (snd (main env fuel argv)) =
      [Socket AF_INET SOCK_STREAM 0, Setsockopt (socket_ret env) SOL_SOCKET SO_REUSEADDR 1]"
  unfolding main_def using assms by (rule main_rt_setsockopt_fails)+

lemma main_bind_fails:
  assumes "length argv \<le> 2" and "socket_ret env \<noteq> - 1" and "\<not> setsockopt_fails env"
    and "bind_fails env"
  shows "fst (main env fuel argv) = Exited (- 1)"
    and "console (snd (main env fuel argv)) =
      [(Main_Thread, announcement argv),
       (Main_Thread, ENCOUNTERED_ERROR_BINDING_STREAM_SOCKET_c)]"
    and "calls (snd (main env fuel argv)) =
      [Socket AF_INET SOCK_STREAM 0, Setsockopt (socket_ret env) SOL_SOCKET SO_REUSEADDR 1,
       Bind (socket_ret env)
         (make_server_sockaddr (host_order env) (uninit_sockaddr env) (requested_port argv))]"
  unfolding main_def using assms by (rule main_rt_bind_fails)+

lemma main_getsockname_fails:
  assumes "length argv \<le> 2" and "socket_ret env \<noteq> - 1" and "\<not> setsockopt_fails env"
    and "\<not> bind_fails env" and "getsockname_fails env"
  shows "fst (main env fuel argv) = Exited (- 1)"
    and "console (snd (main env fuel argv)) =
      [(Main_Thread, announcement argv),
       (Main_Thread, ENCOUNTERED_ERROR_FETCHING_SOCKET_PORT_c)]"
    and "calls (snd (main env fuel argv)) =
      [Socket AF_INET SOCK_STREAM 0, Setsockopt (socket_ret env) SOL_SOCKET SO_REUSEADDR 1,
       Bind (socket_ret env)
         (make_server_sockaddr (host_order env) (uninit_sockaddr env) (requested_port argv)),
       Getsockname (socket_ret env)]"
  unfolding main_def using assms by (rule main_rt_getsockname_fails)+

lemma run_server_accept_fails:
  assumes "socket_ret env \<noteq> - 1" and "\<not> setsockopt_fails env" and "\<not> bind_fails env"
    and "\<not> getsockname_fails env"
    and "k < fuel" and "\<forall>i<k. accept_ret env (accept_count w + i) \<noteq> - 1"
    and "accept_ret env (accept_count w + k) = - 1"
  shows "fst (run_server env fuel p q w) =
      Threw (Server_Error ENCOUNTERED_ERROR_ACCEPTING_NEW_CONNECTION_c)"
    and "calls (snd (run_server env fuel p q w)) = calls w @
      [Socket AF_INET SOCK_STREAM 0,
       Setsockopt (socket_ret env) SOL_SOCKET SO_REUSEADDR 1,
       Bind (socket_ret env) (make_server_sockaddr (host_order env) (uninit_sockaddr env) p),
       Getsockname (socket_ret env),
       Listen (socket_ret env) q]
      @ replicate (Suc k) (Accept (socket_ret env))"
proof -
  have t: "\<forall>i<k. \<not> thread_start_fails every_thread_starts (accept_count w + i)"
    by (simp add: every_thread_starts_def)
  from assms(7) have f: "accept_ret env (accept_count w + k) = - 1
      \<or> thread_start_fails every_thread_starts (accept_count w + k)" by simp
  from run_server_rt_loop_fails [OF assms(1-6) t f, of p q] assms(7) obtain w' where
    r: "run_server env fuel p q w =
        (Threw (Server_Error ENCOUNTERED_ERROR_ACCEPTING_NEW_CONNECTION_c), w')"
    and c: "calls w' = calls w @
         [Socket AF_INET SOCK_STREAM 0,
          Setsockopt (socket_ret env) SOL_SOCKET SO_REUSEADDR 1,
          Bind (socket_ret env) (make_server_sockaddr (host_order env) (uninit_sockaddr env) p),
          Getsockname (socket_ret env),
          Listen (socket_ret env) q]
         @ replicate (Suc k) (Accept (socket_ret env))"
    unfolding run_server_def by auto
  show "fst (run_server env fuel p q w) =
      Threw (Server_Error ENCOUNTERED_ERROR_ACCEPTING_NEW_CONNECTION_c)"
    using r by simp
  show "calls (snd (run_server env fuel p q w)) = calls w @
      [Socket AF_INET SOCK_STREAM 0,
       Setsockopt (socket_ret env) SOL_SOCKET SO_REUSEADDR 1,
       Bind (socket_ret env) (make_server_sockaddr (host_order env) (uninit_sockaddr env) p),
       Getsockname (socket_ret env),
       Listen (socket_ret env) q]
      @ replicate (Suc k) (Accept (socket_ret env))"
    using r c by simp
qed

lemma main_accept_fails_lines:
  assumes "length argv \<le> 2"
    and "socket_ret env \<noteq> - 1" and "\<not> setsockopt_fails env" and "\<not> bind_fails env"
    and "\<not> getsockname_fails env"
    and "k < fuel" and "\<forall>i<k. accept_ret env i \<noteq> - 1" and "accept_ret env k = - 1"
  shows "fst (main env fuel argv) = Exited (- 1)"
    and "lines_of Main_Thread (console (snd (main env fuel argv))) =
      [announcement argv,
       SERVER_LISTENING_ON_PORT_c @ to_string (resolved_port env (requested_port argv)),
       ENCOUNTERED_ERROR_ACCEPTING_NEW_CONNECTION_c]"
    and "calls (snd (main env fuel argv)) =
      [Socket AF_INET SOCK_STREAM 0,
       Setsockopt (socket_ret env) SOL_SOCKET SO_REUSEADDR 1,
       Bind (socket_ret env)
         (make_server_sockaddr (host_order env) (uninit_sockaddr env) (requested_port argv)),
       Getsockname (socket_ret env),
       Listen (socket_ret env) 30]
      @ replicate (Suc k) (Accept (socket_ret env))"
proof -
  have t: "\<forall>i<k. \<not> thread_start_fails every_thread_starts i"
    by (simp add: every_thread_starts_def)
  from assms(8) have f: "accept_ret env k = - 1 \<or> thread_start_fails every_thread_starts k"
    by simp
  from main_rt_loop_fails [OF assms(1-7) t f] assms(8) obtain hs h2 w' where
    m: "main env fuel argv = (Exited (- 1), w')"
    and c: "console w' =
          [(Main_Thread, announcement argv),
           (Main_Thread, SERVER_LISTENING_ON_PORT_c @
              to_string (resolved_port env (requested_port argv)))]
          @ map handler_line hs
          @ [(Main_Thread, ENCOUNTERED_ERROR_ACCEPTING_NEW_CONNECTION_c)]
          @ map handler_line h2"
    and k: "calls w' =
          [Socket AF_INET SOCK_STREAM 0,
           Setsockopt (socket_ret env) SOL_SOCKET SO_REUSEADDR 1,
           Bind (socket_ret env)
             (make_server_sockaddr (host_order env) (uninit_sockaddr env) (requested_port argv)),
           Getsockname (socket_ret env),
           Listen (socket_ret env) 30]
          @ replicate (Suc k) (Accept (socket_ret env))"
    unfolding main_def by auto
  show "fst (main env fuel argv) = Exited (- 1)" using m by simp
  have "lines_of Main_Thread (console w') =
      [announcement argv,
       SERVER_LISTENING_ON_PORT_c @ to_string (resolved_port env (requested_port argv)),
       ENCOUNTERED_ERROR_ACCEPTING_NEW_CONNECTION_c]"
    unfolding c lines_of_append lines_of_handler_lines by (simp add: lines_of_def)
  then show "lines_of Main_Thread (console (snd (main env fuel argv))) =
      [announcement argv,
       SERVER_LISTENING_ON_PORT_c @ to_string (resolved_port env (requested_port argv)),
       ENCOUNTERED_ERROR_ACCEPTING_NEW_CONNECTION_c]"
    using m by simp
  show "calls (snd (main env fuel argv)) =
      [Socket AF_INET SOCK_STREAM 0,
       Setsockopt (socket_ret env) SOL_SOCKET SO_REUSEADDR 1,
       Bind (socket_ret env)
         (make_server_sockaddr (host_order env) (uninit_sockaddr env) (requested_port argv)),
       Getsockname (socket_ret env),
       Listen (socket_ret env) 30]
      @ replicate (Suc k) (Accept (socket_ret env))"
    using m k by simp
qed

lemma example_env_accepts: "\<forall>i<2. accept_ret example_env i \<noteq> - 1"
proof (intro allI impI)
  fix i :: nat
  assume "i < 2"
  then consider "i = 0" | "i = 1" by linarith
  then show "accept_ret example_env i \<noteq> - 1"
    by cases (simp_all add: example_env_def)
qed

text \<open>
  C2. Every fatal failure ends the process with its own message. Whichever of \<open>socket\<close>,
  \<open>setsockopt\<close>, \<open>bind\<close>, \<open>getsockname\<close> fails first (the calls before it having
  succeeded, whatever the later ones would do), and likewise when the startup succeeds and
  the \<open>k\<close>-th \<open>accept\<close> is the first to return -1: \<open>run_server\<close> throws the
  \<open>Server_Error\<close> with the message of that call; the failing call is the last call made
  (no retry: the trace of calls ends with it, and \<open>accept\<close> has been called once per
  accepted connection plus once); \<open>main\<close> returns -1; and the lines \<open>main\<close> wrote are
  its announcement, the listening line if the startup succeeded, and that one message.
\<close>

theorem fatal_errors_abort:
  assumes "length argv \<le> 2"
  shows
   "(socket_ret env = - 1 \<longrightarrow>
       run_server env fuel p q w =
         (Threw (Server_Error ENCOUNTERED_AN_ERROR_OPENING_STREAM_SOCKET_c),
          log_call (Socket AF_INET SOCK_STREAM 0) w)
       \<and> fst (main env fuel argv) = Exited (- 1)
       \<and> console (snd (main env fuel argv)) =
           [(Main_Thread, announcement argv),
            (Main_Thread, ENCOUNTERED_AN_ERROR_OPENING_STREAM_SOCKET_c)]
       \<and> calls (snd (main env fuel argv)) = [Socket AF_INET SOCK_STREAM 0])
    \<and> (socket_ret env \<noteq> - 1 \<and> setsockopt_fails env \<longrightarrow>
       run_server env fuel p q w =
         (Threw (Server_Error ENCOUNTERED_ERROR_SETTING_SOCKET_OPTIONS_c),
          log_call (Setsockopt (socket_ret env) SOL_SOCKET SO_REUSEADDR 1)
            (log_call (Socket AF_INET SOCK_STREAM 0) w))
       \<and> fst (main env fuel argv) = Exited (- 1)
       \<and> console (snd (main env fuel argv)) =
           [(Main_Thread, announcement argv),
            (Main_Thread, ENCOUNTERED_ERROR_SETTING_SOCKET_OPTIONS_c)]
       \<and> calls (snd (main env fuel argv)) =
           [Socket AF_INET SOCK_STREAM 0, Setsockopt (socket_ret env) SOL_SOCKET SO_REUSEADDR 1])
    \<and> (socket_ret env \<noteq> - 1 \<and> \<not> setsockopt_fails env \<and> bind_fails env \<longrightarrow>
       run_server env fuel p q w =
         (Threw (Server_Error ENCOUNTERED_ERROR_BINDING_STREAM_SOCKET_c),
          log_call (Bind (socket_ret env)
              (make_server_sockaddr (host_order env) (uninit_sockaddr env) p))
            (log_call (Setsockopt (socket_ret env) SOL_SOCKET SO_REUSEADDR 1)
              (log_call (Socket AF_INET SOCK_STREAM 0) w)))
       \<and> fst (main env fuel argv) = Exited (- 1)
       \<and> console (snd (main env fuel argv)) =
           [(Main_Thread, announcement argv),
            (Main_Thread, ENCOUNTERED_ERROR_BINDING_STREAM_SOCKET_c)]
       \<and> calls (snd (main env fuel argv)) =
           [Socket AF_INET SOCK_STREAM 0, Setsockopt (socket_ret env) SOL_SOCKET SO_REUSEADDR 1,
            Bind (socket_ret env)
              (make_server_sockaddr (host_order env) (uninit_sockaddr env) (requested_port argv))])
    \<and> (socket_ret env \<noteq> - 1 \<and> \<not> setsockopt_fails env \<and> \<not> bind_fails env
        \<and> getsockname_fails env \<longrightarrow>
       fst (run_server env fuel p q w) =
         Threw (Server_Error ENCOUNTERED_ERROR_FETCHING_SOCKET_PORT_c)
       \<and> calls (snd (run_server env fuel p q w)) = calls w @
           [Socket AF_INET SOCK_STREAM 0, Setsockopt (socket_ret env) SOL_SOCKET SO_REUSEADDR 1,
            Bind (socket_ret env) (make_server_sockaddr (host_order env) (uninit_sockaddr env) p),
            Getsockname (socket_ret env)]
       \<and> fst (main env fuel argv) = Exited (- 1)
       \<and> console (snd (main env fuel argv)) =
           [(Main_Thread, announcement argv),
            (Main_Thread, ENCOUNTERED_ERROR_FETCHING_SOCKET_PORT_c)]
       \<and> calls (snd (main env fuel argv)) =
           [Socket AF_INET SOCK_STREAM 0, Setsockopt (socket_ret env) SOL_SOCKET SO_REUSEADDR 1,
            Bind (socket_ret env)
              (make_server_sockaddr (host_order env) (uninit_sockaddr env) (requested_port argv)),
            Getsockname (socket_ret env)])
    \<and> (socket_ret env \<noteq> - 1 \<and> \<not> setsockopt_fails env \<and> \<not> bind_fails env
        \<and> \<not> getsockname_fails env \<and> accept_count w = 0
        \<and> k < fuel \<and> (\<forall>i<k. accept_ret env i \<noteq> - 1) \<and> accept_ret env k = - 1 \<longrightarrow>
       fst (run_server env fuel p q w) =
         Threw (Server_Error ENCOUNTERED_ERROR_ACCEPTING_NEW_CONNECTION_c)
       \<and> calls (snd (run_server env fuel p q w)) = calls w @
           [Socket AF_INET SOCK_STREAM 0, Setsockopt (socket_ret env) SOL_SOCKET SO_REUSEADDR 1,
            Bind (socket_ret env) (make_server_sockaddr (host_order env) (uninit_sockaddr env) p),
            Getsockname (socket_ret env), Listen (socket_ret env) q]
           @ replicate (Suc k) (Accept (socket_ret env))
       \<and> fst (main env fuel argv) = Exited (- 1)
       \<and> lines_of Main_Thread (console (snd (main env fuel argv))) =
           [announcement argv,
            SERVER_LISTENING_ON_PORT_c @ to_string (resolved_port env (requested_port argv)),
            ENCOUNTERED_ERROR_ACCEPTING_NEW_CONNECTION_c]
       \<and> calls (snd (main env fuel argv)) =
           [Socket AF_INET SOCK_STREAM 0, Setsockopt (socket_ret env) SOL_SOCKET SO_REUSEADDR 1,
            Bind (socket_ret env)
              (make_server_sockaddr (host_order env) (uninit_sockaddr env) (requested_port argv)),
            Getsockname (socket_ret env), Listen (socket_ret env) 30]
           @ replicate (Suc k) (Accept (socket_ret env)))"
proof (intro conjI impI)
  assume a: "socket_ret env = - 1"
  show "run_server env fuel p q w =
         (Threw (Server_Error ENCOUNTERED_AN_ERROR_OPENING_STREAM_SOCKET_c),
          log_call (Socket AF_INET SOCK_STREAM 0) w)"
    using a by (rule run_server_socket_fails)
  show "fst (main env fuel argv) = Exited (- 1)"
    using assms a by (rule main_socket_fails(1))
  show "console (snd (main env fuel argv)) =
           [(Main_Thread, announcement argv),
            (Main_Thread, ENCOUNTERED_AN_ERROR_OPENING_STREAM_SOCKET_c)]"
    using assms a by (rule main_socket_fails(2))
  show "calls (snd (main env fuel argv)) = [Socket AF_INET SOCK_STREAM 0]"
    using assms a by (rule main_socket_fails(3))
next
  assume "socket_ret env \<noteq> - 1 \<and> setsockopt_fails env"
  then have a: "socket_ret env \<noteq> - 1" "setsockopt_fails env" by simp_all
  show "run_server env fuel p q w =
         (Threw (Server_Error ENCOUNTERED_ERROR_SETTING_SOCKET_OPTIONS_c),
          log_call (Setsockopt (socket_ret env) SOL_SOCKET SO_REUSEADDR 1)
            (log_call (Socket AF_INET SOCK_STREAM 0) w))"
    using a by (rule run_server_setsockopt_fails)
  show "fst (main env fuel argv) = Exited (- 1)"
    using assms a by (rule main_setsockopt_fails(1))
  show "console (snd (main env fuel argv)) =
           [(Main_Thread, announcement argv),
            (Main_Thread, ENCOUNTERED_ERROR_SETTING_SOCKET_OPTIONS_c)]"
    using assms a by (rule main_setsockopt_fails(2))
  show "calls (snd (main env fuel argv)) =
           [Socket AF_INET SOCK_STREAM 0, Setsockopt (socket_ret env) SOL_SOCKET SO_REUSEADDR 1]"
    using assms a by (rule main_setsockopt_fails(3))
next
  assume "socket_ret env \<noteq> - 1 \<and> \<not> setsockopt_fails env \<and> bind_fails env"
  then have a: "socket_ret env \<noteq> - 1" "\<not> setsockopt_fails env" "bind_fails env" by simp_all
  show "run_server env fuel p q w =
         (Threw (Server_Error ENCOUNTERED_ERROR_BINDING_STREAM_SOCKET_c),
          log_call (Bind (socket_ret env)
              (make_server_sockaddr (host_order env) (uninit_sockaddr env) p))
            (log_call (Setsockopt (socket_ret env) SOL_SOCKET SO_REUSEADDR 1)
              (log_call (Socket AF_INET SOCK_STREAM 0) w)))"
    using a by (rule run_server_bind_fails)
  show "fst (main env fuel argv) = Exited (- 1)"
    using assms a by (rule main_bind_fails(1))
  show "console (snd (main env fuel argv)) =
           [(Main_Thread, announcement argv),
            (Main_Thread, ENCOUNTERED_ERROR_BINDING_STREAM_SOCKET_c)]"
    using assms a by (rule main_bind_fails(2))
  show "calls (snd (main env fuel argv)) =
           [Socket AF_INET SOCK_STREAM 0, Setsockopt (socket_ret env) SOL_SOCKET SO_REUSEADDR 1,
            Bind (socket_ret env)
              (make_server_sockaddr (host_order env) (uninit_sockaddr env) (requested_port argv))]"
    using assms a by (rule main_bind_fails(3))
next
  assume "socket_ret env \<noteq> - 1 \<and> \<not> setsockopt_fails env \<and> \<not> bind_fails env
        \<and> getsockname_fails env"
  then have a: "socket_ret env \<noteq> - 1" "\<not> setsockopt_fails env" "\<not> bind_fails env"
    "getsockname_fails env" by simp_all
  show "fst (run_server env fuel p q w) =
         Threw (Server_Error ENCOUNTERED_ERROR_FETCHING_SOCKET_PORT_c)"
    using a by (rule run_server_getsockname_fails(1))
  show "calls (snd (run_server env fuel p q w)) = calls w @
           [Socket AF_INET SOCK_STREAM 0, Setsockopt (socket_ret env) SOL_SOCKET SO_REUSEADDR 1,
            Bind (socket_ret env) (make_server_sockaddr (host_order env) (uninit_sockaddr env) p),
            Getsockname (socket_ret env)]"
    using a by (rule run_server_getsockname_fails(2))
  show "fst (main env fuel argv) = Exited (- 1)"
    using assms a by (rule main_getsockname_fails(1))
  show "console (snd (main env fuel argv)) =
           [(Main_Thread, announcement argv),
            (Main_Thread, ENCOUNTERED_ERROR_FETCHING_SOCKET_PORT_c)]"
    using assms a by (rule main_getsockname_fails(2))
  show "calls (snd (main env fuel argv)) =
           [Socket AF_INET SOCK_STREAM 0, Setsockopt (socket_ret env) SOL_SOCKET SO_REUSEADDR 1,
            Bind (socket_ret env)
              (make_server_sockaddr (host_order env) (uninit_sockaddr env) (requested_port argv)),
            Getsockname (socket_ret env)]"
    using assms a by (rule main_getsockname_fails(3))
next
  assume "socket_ret env \<noteq> - 1 \<and> \<not> setsockopt_fails env \<and> \<not> bind_fails env
        \<and> \<not> getsockname_fails env \<and> accept_count w = 0
        \<and> k < fuel \<and> (\<forall>i<k. accept_ret env i \<noteq> - 1) \<and> accept_ret env k = - 1"
  then have a: "socket_ret env \<noteq> - 1" "\<not> setsockopt_fails env" "\<not> bind_fails env"
    "\<not> getsockname_fails env"
    and z: "accept_count w = 0"
    and b: "k < fuel" "\<forall>i<k. accept_ret env i \<noteq> - 1" "accept_ret env k = - 1"
    by simp_all
  from b z have b': "\<forall>i<k. accept_ret env (accept_count w + i) \<noteq> - 1"
    "accept_ret env (accept_count w + k) = - 1" by simp_all
  show "fst (run_server env fuel p q w) =
         Threw (Server_Error ENCOUNTERED_ERROR_ACCEPTING_NEW_CONNECTION_c)"
    using a b(1) b' by (rule run_server_accept_fails(1))
  show "calls (snd (run_server env fuel p q w)) = calls w @
           [Socket AF_INET SOCK_STREAM 0, Setsockopt (socket_ret env) SOL_SOCKET SO_REUSEADDR 1,
            Bind (socket_ret env) (make_server_sockaddr (host_order env) (uninit_sockaddr env) p),
            Getsockname (socket_ret env), Listen (socket_ret env) q]
           @ replicate (Suc k) (Accept (socket_ret env))"
    using a b(1) b' by (rule run_server_accept_fails(2))
  show "fst (main env fuel argv) = Exited (- 1)"
    using assms a b by (rule main_accept_fails_lines(1))
  show "lines_of Main_Thread (console (snd (main env fuel argv))) =
           [announcement argv,
            SERVER_LISTENING_ON_PORT_c @ to_string (resolved_port env (requested_port argv)),
            ENCOUNTERED_ERROR_ACCEPTING_NEW_CONNECTION_c]"
    using assms a b by (rule main_accept_fails_lines(2))
  show "calls (snd (main env fuel argv)) =
           [Socket AF_INET SOCK_STREAM 0, Setsockopt (socket_ret env) SOL_SOCKET SO_REUSEADDR 1,
            Bind (socket_ret env)
              (make_server_sockaddr (host_order env) (uninit_sockaddr env) (requested_port argv)),
            Getsockname (socket_ret env), Listen (socket_ret env) 30]
           @ replicate (Suc k) (Accept (socket_ret env))"
    using assms a b by (rule main_accept_fails_lines(3))
qed

theorem fatal_errors_abort_witness:
  "length [''./server'', ''8080''] \<le> 2
   \<and> socket_ret (example_env\<lparr>socket_ret := - 1\<rparr>) = - 1
   \<and> fst (run_server (example_env\<lparr>socket_ret := - 1\<rparr>) 5 8080 30 initial_world) =
       Threw (Server_Error ENCOUNTERED_AN_ERROR_OPENING_STREAM_SOCKET_c)
   \<and> console (snd (main (example_env\<lparr>socket_ret := - 1\<rparr>) 5 [''./server'', ''8080''])) =
       [(Main_Thread, announcement [''./server'', ''8080'']),
        (Main_Thread, ENCOUNTERED_AN_ERROR_OPENING_STREAM_SOCKET_c)]
   \<and> socket_ret (example_env\<lparr>setsockopt_fails := True\<rparr>) \<noteq> - 1
   \<and> setsockopt_fails (example_env\<lparr>setsockopt_fails := True\<rparr>)
   \<and> console (snd (main (example_env\<lparr>setsockopt_fails := True\<rparr>) 5 [''./server'', ''8080''])) =
       [(Main_Thread, announcement [''./server'', ''8080'']),
        (Main_Thread, ENCOUNTERED_ERROR_SETTING_SOCKET_OPTIONS_c)]
   \<and> \<not> setsockopt_fails (example_env\<lparr>bind_fails := True\<rparr>)
   \<and> bind_fails (example_env\<lparr>bind_fails := True\<rparr>)
   \<and> console (snd (main (example_env\<lparr>bind_fails := True\<rparr>) 5 [''./server'', ''8080''])) =
       [(Main_Thread, announcement [''./server'', ''8080'']),
        (Main_Thread, ENCOUNTERED_ERROR_BINDING_STREAM_SOCKET_c)]
   \<and> \<not> bind_fails (example_env\<lparr>getsockname_fails := True\<rparr>)
   \<and> getsockname_fails (example_env\<lparr>getsockname_fails := True\<rparr>)
   \<and> console (snd (main (example_env\<lparr>getsockname_fails := True\<rparr>) 5 [''./server'', ''8080''])) =
       [(Main_Thread, announcement [''./server'', ''8080'']),
        (Main_Thread, ENCOUNTERED_ERROR_FETCHING_SOCKET_PORT_c)]
   \<and> \<not> getsockname_fails example_env \<and> accept_count initial_world = 0
   \<and> accept_ret example_env 0 \<noteq> - 1 \<and> accept_ret example_env 1 \<noteq> - 1
   \<and> accept_ret example_env 2 = - 1
   \<and> fst (run_server example_env 5 8080 30 initial_world) =
       Threw (Server_Error ENCOUNTERED_ERROR_ACCEPTING_NEW_CONNECTION_c)
   \<and> fst (main example_env 5 [''./server'', ''8080'']) = Exited (- 1)
   \<and> lines_of Main_Thread (console (snd (main example_env 5 [''./server'', ''8080'']))) =
       [announcement [''./server'', ''8080''],
        SERVER_LISTENING_ON_PORT_c @
          to_string (resolved_port example_env (requested_port [''./server'', ''8080''])),
        ENCOUNTERED_ERROR_ACCEPTING_NEW_CONNECTION_c]"
proof -
  let ?args = "[''./server'', ''8080'']"
  have L: "length ?args \<le> 2" by simp
  have h1: "socket_ret (example_env\<lparr>socket_ret := - 1\<rparr>) = - 1" by simp
  have h2: "socket_ret (example_env\<lparr>setsockopt_fails := True\<rparr>) \<noteq> - 1
      \<and> setsockopt_fails (example_env\<lparr>setsockopt_fails := True\<rparr>)"
    by (simp add: example_env_def)
  have h3: "socket_ret (example_env\<lparr>bind_fails := True\<rparr>) \<noteq> - 1
      \<and> \<not> setsockopt_fails (example_env\<lparr>bind_fails := True\<rparr>)
      \<and> bind_fails (example_env\<lparr>bind_fails := True\<rparr>)"
    by (simp add: example_env_def)
  have h4: "socket_ret (example_env\<lparr>getsockname_fails := True\<rparr>) \<noteq> - 1
      \<and> \<not> setsockopt_fails (example_env\<lparr>getsockname_fails := True\<rparr>)
      \<and> \<not> bind_fails (example_env\<lparr>getsockname_fails := True\<rparr>)
      \<and> getsockname_fails (example_env\<lparr>getsockname_fails := True\<rparr>)"
    by (simp add: example_env_def)
  have a: "accept_ret example_env 0 \<noteq> - 1 \<and> accept_ret example_env 1 \<noteq> - 1
      \<and> accept_ret example_env 2 = - 1"
    by (simp add: example_env_def)
  have h5: "socket_ret example_env \<noteq> - 1 \<and> \<not> setsockopt_fails example_env
      \<and> \<not> bind_fails example_env \<and> \<not> getsockname_fails example_env
      \<and> accept_count initial_world = 0 \<and> (2::nat) < 5
      \<and> (\<forall>i<2. accept_ret example_env i \<noteq> - 1) \<and> accept_ret example_env 2 = - 1"
    using example_env_accepts by (simp add: example_env_def initial_world_def)
  note T1 = fatal_errors_abort [OF L, of "example_env\<lparr>socket_ret := - 1\<rparr>" 5 8080 30 initial_world 2]
  note T2 = fatal_errors_abort [OF L, of "example_env\<lparr>setsockopt_fails := True\<rparr>" 5 8080 30
      initial_world 2]
  note T3 = fatal_errors_abort [OF L, of "example_env\<lparr>bind_fails := True\<rparr>" 5 8080 30
      initial_world 2]
  note T4 = fatal_errors_abort [OF L, of "example_env\<lparr>getsockname_fails := True\<rparr>" 5 8080 30
      initial_world 2]
  note T5 = fatal_errors_abort [OF L, of example_env 5 8080 30 initial_world 2]
  have c1: "fst (run_server (example_env\<lparr>socket_ret := - 1\<rparr>) 5 8080 30 initial_world) =
       Threw (Server_Error ENCOUNTERED_AN_ERROR_OPENING_STREAM_SOCKET_c)
     \<and> console (snd (main (example_env\<lparr>socket_ret := - 1\<rparr>) 5 ?args)) =
       [(Main_Thread, announcement ?args),
        (Main_Thread, ENCOUNTERED_AN_ERROR_OPENING_STREAM_SOCKET_c)]"
    using T1 h1 by simp
  have c2: "console (snd (main (example_env\<lparr>setsockopt_fails := True\<rparr>) 5 ?args)) =
       [(Main_Thread, announcement ?args),
        (Main_Thread, ENCOUNTERED_ERROR_SETTING_SOCKET_OPTIONS_c)]"
    using T2 h2 by blast
  have c3: "console (snd (main (example_env\<lparr>bind_fails := True\<rparr>) 5 ?args)) =
       [(Main_Thread, announcement ?args),
        (Main_Thread, ENCOUNTERED_ERROR_BINDING_STREAM_SOCKET_c)]"
    using T3 h3 by blast
  have c4: "console (snd (main (example_env\<lparr>getsockname_fails := True\<rparr>) 5 ?args)) =
       [(Main_Thread, announcement ?args),
        (Main_Thread, ENCOUNTERED_ERROR_FETCHING_SOCKET_PORT_c)]"
    using T4 h4 by blast
  have c5: "fst (run_server example_env 5 8080 30 initial_world) =
       Threw (Server_Error ENCOUNTERED_ERROR_ACCEPTING_NEW_CONNECTION_c)
     \<and> fst (main example_env 5 ?args) = Exited (- 1)
     \<and> lines_of Main_Thread (console (snd (main example_env 5 ?args))) =
       [announcement ?args,
        SERVER_LISTENING_ON_PORT_c @
          to_string (resolved_port example_env (requested_port ?args)),
        ENCOUNTERED_ERROR_ACCEPTING_NEW_CONNECTION_c]"
    using T5 h5 by blast
  from L h1 h2 h3 h4 h5 a c1 c2 c3 c4 c5 show ?thesis by blast
qed

section \<open>\<open>run_server\<close> never returns\<close>

text \<open>
  C7, as stated: the only exits from \<open>run_server\<close> are thrown \<open>Server_Error\<close>s. When
  the thread for an accepted connection cannot be started, the constructor of
  \<open>std::thread\<close> throws \<open>std::system_error\<close> inside the loop: \<open>run_server\<close> is left by
  that exception, which is no \<open>Server_Error\<close>, and \<open>main\<close> prints its message and
  returns -1. Here, in the example environment, the first connection is accepted and no
  thread can be started for it.
\<close>

theorem thread_start_failure_counterexample:
  "accept_ret example_env 0 \<noteq> - 1 \<and> thread_start_fails no_thread_runtime 0
   \<and> fst (run_server_rt no_thread_runtime example_env (Suc 0) 8080 30 initial_world) =
       Threw_system_error ''Resource temporarily unavailable''
   \<and> calls (snd (run_server_rt no_thread_runtime example_env (Suc 0) 8080 30 initial_world)) =
       [Socket AF_INET SOCK_STREAM 0, Setsockopt 3 SOL_SOCKET SO_REUSEADDR 1,
        Bind 3 (make_server_sockaddr LittleEndian (uninit_sockaddr example_env) 8080),
        Getsockname 3, Listen 3 30, Accept 3]
   \<and> main_rt no_thread_runtime example_env (Suc 0) [''./server'', ''8080''] =
       (Exited (- 1),
        snd (main_rt no_thread_runtime example_env (Suc 0) [''./server'', ''8080'']))
   \<and> lines_of Main_Thread
        (console (snd (main_rt no_thread_runtime example_env (Suc 0) [''./server'', ''8080'']))) =
       [USER_SELECTED_FOLLOWING_PORT_c @ ''8080'', SERVER_LISTENING_ON_PORT_c @ ''8080'',
        ''Resource temporarily unavailable'']"
proof -
  have a: "atoi ''8080'' = 8080"
    by (simp add: atoi_def strtol_10_def isspace_def isdigit_def)
  have t: "to_string 8080 = ''8080''"
    by (simp add: to_string_def string_of_nat.simps digit_char_def)
  have 1: "accept_ret example_env 0 \<noteq> - 1 \<and> thread_start_fails no_thread_runtime 0"
    by (simp add: example_env_def no_thread_runtime_def)
  have 2: "fst (run_server_rt no_thread_runtime example_env (Suc 0) 8080 30 initial_world) =
       Threw_system_error ''Resource temporarily unavailable''"
    by (simp add: model_defs example_env_def no_thread_runtime_def)
  have 3: "calls (snd (run_server_rt no_thread_runtime example_env (Suc 0) 8080 30 initial_world)) =
       [Socket AF_INET SOCK_STREAM 0, Setsockopt 3 SOL_SOCKET SO_REUSEADDR 1,
        Bind 3 (make_server_sockaddr LittleEndian (uninit_sockaddr example_env) 8080),
        Getsockname 3, Listen 3 30, Accept 3]"
    by (simp add: model_defs example_env_def no_thread_runtime_def)
  have 4: "fst (main_rt no_thread_runtime example_env (Suc 0) [''./server'', ''8080'']) =
      Exited (- 1)"
    by (simp add: model_defs example_env_def no_thread_runtime_def a)
  have 5: "lines_of Main_Thread
        (console (snd (main_rt no_thread_runtime example_env (Suc 0) [''./server'', ''8080'']))) =
       [USER_SELECTED_FOLLOWING_PORT_c @ ''8080'', SERVER_LISTENING_ON_PORT_c @ ''8080'',
        ''Resource temporarily unavailable'']"
    by (simp add: model_defs example_env_def no_thread_runtime_def a t lines_of_def
        bswap_16_def htons_def ntohs_def)
  from 4 have 6: "main_rt no_thread_runtime example_env (Suc 0) [''./server'', ''8080''] =
       (Exited (- 1),
        snd (main_rt no_thread_runtime example_env (Suc 0) [''./server'', ''8080'']))"
    by (simp add: prod_eq_iff)
  from 1 2 3 6 5 show ?thesis by blast
qed

text \<open>
  C7, amended. \<open>run_server\<close> never returns: whatever the runtime and the environment, and
  however many loop iterations are followed, its outcome is never \<open>Returned\<close>, and
  \<open>main\<close> never exits with 0. It is still in the loop, or it has thrown one of the five
  \<open>Server_Error\<close>s, or it has let through the \<open>std::system_error\<close> of a thread that
  could not be started. When the startup calls succeed, no \<open>accept\<close> fails and every
  thread starts, then after any number \<open>fuel\<close> of iterations the loop is still running:
  it has called \<open>accept\<close> \<open>fuel\<close> times and nothing else since \<open>listen\<close>, and for each of
  the \<open>fuel\<close> connections it has started a thread, which has printed its line or has
  not run yet. When the startup succeeds and the thread for the \<open>k\<close>-th connection is
  the first thing to fail, \<open>run_server\<close> ends by that \<open>std::system_error\<close> after
  \<open>k + 1\<close> calls of \<open>accept\<close>; \<open>main\<close> catches it, writes its message after its
  announcement and the listening line, and returns -1.
\<close>

theorem run_server_never_returns:
  "fst (run_server_rt rt env fuel p q w) \<noteq> Returned
   \<and> fst (run_server_rt rt env fuel p q w) \<in>
       {Unfinished,
        Threw (Server_Error ENCOUNTERED_AN_ERROR_OPENING_STREAM_SOCKET_c),
        Threw (Server_Error ENCOUNTERED_ERROR_SETTING_SOCKET_OPTIONS_c),
        Threw (Server_Error ENCOUNTERED_ERROR_BINDING_STREAM_SOCKET_c),
        Threw (Server_Error ENCOUNTERED_ERROR_FETCHING_SOCKET_PORT_c),
        Threw (Server_Error ENCOUNTERED_ERROR_ACCEPTING_NEW_CONNECTION_c),
        Threw_system_error (system_error_what rt)}
   \<and> fst (main_rt rt env fuel argv) \<noteq> Exited 0
   \<and> (socket_ret env \<noteq> - 1 \<and> \<not> setsockopt_fails env \<and> \<not> bind_fails env
        \<and> \<not> getsockname_fails env
        \<and> (\<forall>i. accept_ret env i \<noteq> - 1) \<and> (\<forall>i. \<not> thread_start_fails rt i) \<longrightarrow>
        (\<exists>hs. fst (run_server_rt rt env fuel p q w) = Unfinished
           \<and> calls (snd (run_server_rt rt env fuel p q w)) = calls w @
               [Socket AF_INET SOCK_STREAM 0,
                Setsockopt (socket_ret env) SOL_SOCKET SO_REUSEADDR 1,
                Bind (socket_ret env)
                  (make_server_sockaddr (host_order env) (uninit_sockaddr env) p),
                Getsockname (socket_ret env),
                Listen (socket_ret env) q]
               @ replicate fuel (Accept (socket_ret env))
           \<and> accept_count (snd (run_server_rt rt env fuel p q w)) = accept_count w + fuel
           \<and> console (snd (run_server_rt rt env fuel p q w)) = console w @
               [(Main_Thread, SERVER_LISTENING_ON_PORT_c @ to_string (resolved_port env p))]
               @ map handler_line hs
           \<and> mset hs + mset (detached (snd (run_server_rt rt env fuel p q w))) =
               mset (detached w)
               + mset (map (accept_ret env) [accept_count w..<accept_count w + fuel])))
   \<and> (socket_ret env \<noteq> - 1 \<and> \<not> setsockopt_fails env \<and> \<not> bind_fails env
        \<and> \<not> getsockname_fails env \<and> k < fuel
        \<and> (\<forall>i. i \<le> k \<longrightarrow> accept_ret env (accept_count w + i) \<noteq> - 1)
        \<and> (\<forall>i<k. \<not> thread_start_fails rt (accept_count w + i))
        \<and> thread_start_fails rt (accept_count w + k) \<longrightarrow>
        fst (run_server_rt rt env fuel p q w) = Threw_system_error (system_error_what rt)
        \<and> calls (snd (run_server_rt rt env fuel p q w)) = calls w @
            [Socket AF_INET SOCK_STREAM 0,
             Setsockopt (socket_ret env) SOL_SOCKET SO_REUSEADDR 1,
             Bind (socket_ret env)
               (make_server_sockaddr (host_order env) (uninit_sockaddr env) p),
             Getsockname (socket_ret env),
             Listen (socket_ret env) q]
            @ replicate (Suc k) (Accept (socket_ret env)))
   \<and> (length argv \<le> 2
        \<and> socket_ret env \<noteq> - 1 \<and> \<not> setsockopt_fails env \<and> \<not> bind_fails env
        \<and> \<not> getsockname_fails env \<and> k < fuel
        \<and> (\<forall>i. i \<le> k \<longrightarrow> accept_ret env i \<noteq> - 1)
        \<and> (\<forall>i<k. \<not> thread_start_fails rt i)
        \<and> thread_start_fails rt k \<longrightarrow>
        fst (main_rt rt env fuel argv) = Exited (- 1)
        \<and> lines_of Main_Thread (console (snd (main_rt rt env fuel argv))) =
            [announcement argv,
             SERVER_LISTENING_ON_PORT_c @ to_string (resolved_port env (requested_port argv)),
             system_error_what rt])"
proof (intro conjI impI)
  show "fst (run_server_rt rt env fuel p q w) \<noteq> Returned"
    by (rule run_server_rt_not_Returned)
  show "fst (run_server_rt rt env fuel p q w) \<in>
       {Unfinished,
        Threw (Server_Error ENCOUNTERED_AN_ERROR_OPENING_STREAM_SOCKET_c),
        Threw (Server_Error ENCOUNTERED_ERROR_SETTING_SOCKET_OPTIONS_c),
        Threw (Server_Error ENCOUNTERED_ERROR_BINDING_STREAM_SOCKET_c),
        Threw (Server_Error ENCOUNTERED_ERROR_FETCHING_SOCKET_PORT_c),
        Threw (Server_Error ENCOUNTERED_ERROR_ACCEPTING_NEW_CONNECTION_c),
        Threw_system_error (system_error_what rt)}"
    by (rule run_server_rt_outcomes)
  show "fst (main_rt rt env fuel argv) \<noteq> Exited 0"
    by (rule main_rt_not_0)
next
  assume "socket_ret env \<noteq> - 1 \<and> \<not> setsockopt_fails env \<and> \<not> bind_fails env
        \<and> \<not> getsockname_fails env
        \<and> (\<forall>i. accept_ret env i \<noteq> - 1) \<and> (\<forall>i. \<not> thread_start_fails rt i)"
  then have s: "socket_ret env \<noteq> - 1" "\<not> setsockopt_fails env" "\<not> bind_fails env"
    "\<not> getsockname_fails env"
    and a: "\<forall>i<fuel. accept_ret env (accept_count w + i) \<noteq> - 1"
    and t: "\<forall>i<fuel. \<not> thread_start_fails rt (accept_count w + i)"
    by simp_all
  from run_server_rt_runs_on [OF s a t, of p q] obtain hs w' where
    r: "run_server_rt rt env fuel p q w = (Unfinished, w')"
    and f: "console w' = console w @
         [(Main_Thread, SERVER_LISTENING_ON_PORT_c @ to_string (resolved_port env p))]
         @ map handler_line hs"
      "mset hs + mset (detached w') =
        mset (detached w) + mset (map (accept_ret env) [accept_count w..<accept_count w + fuel])"
      "calls w' = calls w @
         [Socket AF_INET SOCK_STREAM 0,
          Setsockopt (socket_ret env) SOL_SOCKET SO_REUSEADDR 1,
          Bind (socket_ret env) (make_server_sockaddr (host_order env) (uninit_sockaddr env) p),
          Getsockname (socket_ret env),
          Listen (socket_ret env) q]
         @ replicate fuel (Accept (socket_ret env))"
      "accept_count w' = accept_count w + fuel"
    by blast
  show "\<exists>hs. fst (run_server_rt rt env fuel p q w) = Unfinished
           \<and> calls (snd (run_server_rt rt env fuel p q w)) = calls w @
               [Socket AF_INET SOCK_STREAM 0,
                Setsockopt (socket_ret env) SOL_SOCKET SO_REUSEADDR 1,
                Bind (socket_ret env)
                  (make_server_sockaddr (host_order env) (uninit_sockaddr env) p),
                Getsockname (socket_ret env),
                Listen (socket_ret env) q]
               @ replicate fuel (Accept (socket_ret env))
           \<and> accept_count (snd (run_server_rt rt env fuel p q w)) = accept_count w + fuel
           \<and> console (snd (run_server_rt rt env fuel p q w)) = console w @
               [(Main_Thread, SERVER_LISTENING_ON_PORT_c @ to_string (resolved_port env p))]
               @ map handler_line hs
           \<and> mset hs + mset (detached (snd (run_server_rt rt env fuel p q w))) =
               mset (detached w)
               + mset (map (accept_ret env) [accept_count w..<accept_count w + fuel])"
    unfolding r fst_conv snd_conv using f by blast
next
  assume h: "socket_ret env \<noteq> - 1 \<and> \<not> setsockopt_fails env \<and> \<not> bind_fails env
        \<and> \<not> getsockname_fails env \<and> k < fuel
        \<and> (\<forall>i. i \<le> k \<longrightarrow> accept_ret env (accept_count w + i) \<noteq> - 1)
        \<and> (\<forall>i<k. \<not> thread_start_fails rt (accept_count w + i))
        \<and> thread_start_fails rt (accept_count w + k)"
  then have s: "socket_ret env \<noteq> - 1" "\<not> setsockopt_fails env" "\<not> bind_fails env"
    "\<not> getsockname_fails env" and k: "k < fuel"
    and t: "\<forall>i<k. \<not> thread_start_fails rt (accept_count w + i)"
    and f: "thread_start_fails rt (accept_count w + k)"
    by simp_all
  from h have a: "\<forall>i<k. accept_ret env (accept_count w + i) \<noteq> - 1" by simp
  from h have ak: "accept_ret env (accept_count w + k) \<noteq> - 1" by simp
  from f have f': "accept_ret env (accept_count w + k) = - 1
      \<or> thread_start_fails rt (accept_count w + k)" by simp
  from run_server_rt_loop_fails [OF s k a t f', of p q] ak obtain w' where
    r: "run_server_rt rt env fuel p q w = (Threw_system_error (system_error_what rt), w')"
    and c: "calls w' = calls w @
         [Socket AF_INET SOCK_STREAM 0,
          Setsockopt (socket_ret env) SOL_SOCKET SO_REUSEADDR 1,
          Bind (socket_ret env) (make_server_sockaddr (host_order env) (uninit_sockaddr env) p),
          Getsockname (socket_ret env),
          Listen (socket_ret env) q]
         @ replicate (Suc k) (Accept (socket_ret env))"
    by auto
  show "fst (run_server_rt rt env fuel p q w) = Threw_system_error (system_error_what rt)"
    using r by simp
  show "calls (snd (run_server_rt rt env fuel p q w)) = calls w @
            [Socket AF_INET SOCK_STREAM 0,
             Setsockopt (socket_ret env) SOL_SOCKET SO_REUSEADDR 1,
             Bind (socket_ret env)
               (make_server_sockaddr (host_order env) (uninit_sockaddr env) p),
             Getsockname (socket_ret env),
             Listen (socket_ret env) q]
            @ replicate (Suc k) (Accept (socket_ret env))"
    using r c by simp
next
  assume h: "length argv \<le> 2
        \<and> socket_ret env \<noteq> - 1 \<and> \<not> setsockopt_fails env \<and> \<not> bind_fails env
        \<and> \<not> getsockname_fails env \<and> k < fuel
        \<and> (\<forall>i. i \<le> k \<longrightarrow> accept_ret env i \<noteq> - 1)
        \<and> (\<forall>i<k. \<not> thread_start_fails rt i)
        \<and> thread_start_fails rt k"
  then have s: "length argv \<le> 2" "socket_ret env \<noteq> - 1" "\<not> setsockopt_fails env"
    "\<not> bind_fails env" "\<not> getsockname_fails env" "k < fuel"
    and t: "\<forall>i<k. \<not> thread_start_fails rt i"
    by simp_all
  from h have a: "\<forall>i<k. accept_ret env i \<noteq> - 1" by simp
  from h have ak: "accept_ret env k \<noteq> - 1" by simp
  from h have f: "accept_ret env k = - 1 \<or> thread_start_fails rt k" by simp
  from main_rt_loop_fails [OF s a t f] ak obtain hs h2 w' where
    m: "main_rt rt env fuel argv = (Exited (- 1), w')"
    and c: "console w' =
          [(Main_Thread, announcement argv),
           (Main_Thread, SERVER_LISTENING_ON_PORT_c @
              to_string (resolved_port env (requested_port argv)))]
          @ map handler_line hs
          @ [(Main_Thread, system_error_what rt)]
          @ map handler_line h2"
    by auto
  show "fst (main_rt rt env fuel argv) = Exited (- 1)" using m by simp
  have "lines_of Main_Thread (console w') =
      [announcement argv,
       SERVER_LISTENING_ON_PORT_c @ to_string (resolved_port env (requested_port argv)),
       system_error_what rt]"
    unfolding c lines_of_append lines_of_handler_lines by (simp add: lines_of_def)
  then show "lines_of Main_Thread (console (snd (main_rt rt env fuel argv))) =
            [announcement argv,
             SERVER_LISTENING_ON_PORT_c @ to_string (resolved_port env (requested_port argv)),
             system_error_what rt]"
    using m by simp
qed

theorem run_server_never_returns_witness:
  "socket_ret busy_env \<noteq> - 1 \<and> \<not> setsockopt_fails busy_env \<and> \<not> bind_fails busy_env
   \<and> \<not> getsockname_fails busy_env \<and> (\<forall>i. accept_ret busy_env i \<noteq> - 1)
   \<and> (\<forall>i. \<not> thread_start_fails every_thread_starts i)
   \<and> fst (run_server_rt every_thread_starts busy_env 3 8080 30 initial_world) = Unfinished
   \<and> accept_count (snd (run_server_rt every_thread_starts busy_env 3 8080 30 initial_world)) =
       accept_count initial_world + 3
   \<and> accept_ret busy_env (accept_count initial_world + 0) \<noteq> - 1
   \<and> thread_start_fails no_thread_runtime (accept_count initial_world + 0)
   \<and> fst (run_server_rt no_thread_runtime busy_env 3 8080 30 initial_world) =
       Threw_system_error (system_error_what no_thread_runtime)
   \<and> length [''./server'', ''8080''] \<le> 2
   \<and> fst (main_rt no_thread_runtime busy_env 3 [''./server'', ''8080'']) = Exited (- 1)
   \<and> lines_of Main_Thread
        (console (snd (main_rt no_thread_runtime busy_env 3 [''./server'', ''8080'']))) =
       [announcement [''./server'', ''8080''],
        SERVER_LISTENING_ON_PORT_c @
          to_string (resolved_port busy_env (requested_port [''./server'', ''8080''])),
        system_error_what no_thread_runtime]"
proof -
  have s: "socket_ret busy_env \<noteq> - 1 \<and> \<not> setsockopt_fails busy_env \<and> \<not> bind_fails busy_env
   \<and> \<not> getsockname_fails busy_env"
    by (simp add: busy_env_def example_env_def)
  have a: "\<forall>i. accept_ret busy_env i \<noteq> - 1" by (simp add: busy_env_def)
  have t: "\<forall>i. \<not> thread_start_fails every_thread_starts i"
    by (simp add: every_thread_starts_def)
  have f: "thread_start_fails no_thread_runtime (accept_count initial_world + 0)"
    by (simp add: no_thread_runtime_def)
  note T1 = run_server_never_returns [of every_thread_starts busy_env 3 8080 30 initial_world]
  note T2 = run_server_never_returns [of no_thread_runtime busy_env 3 8080 30 initial_world
      "[''./server'', ''8080'']" 0]
  have c1: "fst (run_server_rt every_thread_starts busy_env 3 8080 30 initial_world) = Unfinished
     \<and> accept_count (snd (run_server_rt every_thread_starts busy_env 3 8080 30 initial_world)) =
       accept_count initial_world + 3"
    using T1 s a t by blast
  have h2: "socket_ret busy_env \<noteq> - 1 \<and> \<not> setsockopt_fails busy_env \<and> \<not> bind_fails busy_env
        \<and> \<not> getsockname_fails busy_env \<and> (0::nat) < 3
        \<and> (\<forall>i. i \<le> 0 \<longrightarrow> accept_ret busy_env (accept_count initial_world + i) \<noteq> - 1)
        \<and> (\<forall>i<0. \<not> thread_start_fails no_thread_runtime (accept_count initial_world + i))
        \<and> thread_start_fails no_thread_runtime (accept_count initial_world + 0)"
    using s a f by simp
  have c2: "fst (run_server_rt no_thread_runtime busy_env 3 8080 30 initial_world) =
       Threw_system_error (system_error_what no_thread_runtime)"
    using T2 h2 by blast
  have h3: "length [''./server'', ''8080''] \<le> 2
        \<and> socket_ret busy_env \<noteq> - 1 \<and> \<not> setsockopt_fails busy_env \<and> \<not> bind_fails busy_env
        \<and> \<not> getsockname_fails busy_env \<and> (0::nat) < 3
        \<and> (\<forall>i. i \<le> 0 \<longrightarrow> accept_ret busy_env i \<noteq> - 1)
        \<and> (\<forall>i<0. \<not> thread_start_fails no_thread_runtime i)
        \<and> thread_start_fails no_thread_runtime 0"
    using s a by (simp add: no_thread_runtime_def)
  have c3: "fst (main_rt no_thread_runtime busy_env 3 [''./server'', ''8080'']) = Exited (- 1)
   \<and> lines_of Main_Thread
        (console (snd (main_rt no_thread_runtime busy_env 3 [''./server'', ''8080'']))) =
       [announcement [''./server'', ''8080''],
        SERVER_LISTENING_ON_PORT_c @
          to_string (resolved_port busy_env (requested_port [''./server'', ''8080''])),
        system_error_what no_thread_runtime]"
    using T2 h3 by blast
  from s a t c1 f c2 c3 show ?thesis by simp
qed


section \<open>The console\<close>

lemma process_exit_console:
  "console (process_exit rt w) = console w @ (if detached w = [] then [] else exit_writes rt)"
  by (simp add: process_exit_def)

lemma process_exit_detached: "detached (process_exit rt w) = detached w"
  by (simp add: process_exit_def)

lemma run_process_running:
  assumes "main_rt rt env fuel argv = (Still_Running, w')"
  shows "run_process rt env fuel argv = (Still_Running, w')"
  using assms by (simp add: run_process_def)

lemma run_process_exited:
  assumes "main_rt rt env fuel argv = (Exited code, w')"
  shows "run_process rt env fuel argv = (Exited code, process_exit rt w')"
  using assms by (simp add: run_process_def)

lemma atoi_8080: "atoi ''8080'' = 8080"
  by (simp add: atoi_def strtol_10_def isspace_def isdigit_def)

lemma to_string_8080: "to_string 8080 = ''8080''"
  by (simp add: to_string_def string_of_nat.simps digit_char_def)

lemma to_string_4: "to_string 4 = ''4''"
  by (simp add: to_string_def string_of_nat.simps digit_char_def)

text \<open>
  C5, as stated: one "Handling new connection" line for each accepted connection, before
  the message of a fatal error. In \<open>stalled_env\<close> the first \<open>accept\<close> returns
  connection 4 and a detached thread is started for it; the second \<open>accept\<close> fails
  before that thread has run, and \<open>main\<close> prints the message and returns -1: the
  console then has no line for connection 4, whose thread is still waiting to run, and
  nothing makes the exiting process write it.
\<close>

theorem handler_line_missing_counterexample:
  "accept_ret stalled_env 0 = 4 \<and> accept_ret stalled_env 1 = - 1
   \<and> fst (main stalled_env (Suc (Suc 0)) [''./server'', ''8080'']) = Exited (- 1)
   \<and> console (snd (main stalled_env (Suc (Suc 0)) [''./server'', ''8080''])) =
       [(Main_Thread, USER_SELECTED_FOLLOWING_PORT_c @ ''8080''),
        (Main_Thread, SERVER_LISTENING_ON_PORT_c @ ''8080''),
        (Main_Thread, ENCOUNTERED_ERROR_ACCEPTING_NEW_CONNECTION_c)]
   \<and> (Handler_Thread 4, HANDLING_NEW_CONNECTION_c @ ''4'') \<notin>
       set (console (snd (main stalled_env (Suc (Suc 0)) [''./server'', ''8080''])))
   \<and> handler_line 4 = (Handler_Thread 4, HANDLING_NEW_CONNECTION_c @ ''4'')
   \<and> detached (snd (main stalled_env (Suc (Suc 0)) [''./server'', ''8080''])) = [4]"
proof -
  have c: "console (snd (main stalled_env (Suc (Suc 0)) [''./server'', ''8080''])) =
       [(Main_Thread, USER_SELECTED_FOLLOWING_PORT_c @ ''8080''),
        (Main_Thread, SERVER_LISTENING_ON_PORT_c @ ''8080''),
        (Main_Thread, ENCOUNTERED_ERROR_ACCEPTING_NEW_CONNECTION_c)]"
    by (simp add: model_defs stalled_env_def example_env_def atoi_8080 to_string_8080
        bswap_16_def htons_def ntohs_def)
  have a: "accept_ret stalled_env 0 = 4 \<and> accept_ret stalled_env 1 = - 1"
    by (simp add: stalled_env_def)
  have s: "fst (main stalled_env (Suc (Suc 0)) [''./server'', ''8080'']) = Exited (- 1)"
    by (simp add: model_defs stalled_env_def example_env_def atoi_8080)
  have d: "detached (snd (main stalled_env (Suc (Suc 0)) [''./server'', ''8080''])) = [4]"
    by (simp add: model_defs stalled_env_def example_env_def atoi_8080)
  have n: "(Handler_Thread 4, HANDLING_NEW_CONNECTION_c @ ''4'') \<notin>
       set (console (snd (main stalled_env (Suc (Suc 0)) [''./server'', ''8080''])))"
    unfolding c by simp
  have h: "handler_line 4 = (Handler_Thread 4, HANDLING_NEW_CONNECTION_c @ ''4'')"
    by (simp add: handler_line_def to_string_4)
  from a s c n h d show ?thesis by blast
qed

text \<open>
  C5, amended. For a run with at most one argument the console of the process holds, in
  this order: the announcement of \<open>main\<close> (the "User selected" line with the port parsed
  from the argument, or the "did not specify" line); then, if the startup succeeds, the
  "Server live" line with the resolved port; then lines of handler threads, each the
  "Handling new connection" line of a connection for which a thread was started. While
  the server runs, each such connection has exactly one line or a thread that is still
  pending. If an \<open>accept\<close> fails or the thread for an accepted connection cannot be
  started (that connection gets no line), \<open>main\<close> writes the message of that error once,
  lines of threads started before may follow, and \<open>main\<close> returns -1; up to that return
  each connection with a thread has exactly one line or a pending thread. If threads are
  pending at that return, what the exiting process and these threads write after it
  (\<open>exit_writes\<close>) follows, and is not determined by the program: nothing, a line, a
  part of one, or a line twice. If a startup call fails the console holds the
  announcement and the message of the first failing call, and the exit code is -1.
\<close>

theorem console_output_order:
  assumes "length argv \<le> 2"
  shows
   "(socket_ret env \<noteq> - 1 \<and> \<not> setsockopt_fails env \<and> \<not> bind_fails env
      \<and> \<not> getsockname_fails env \<and> (\<forall>i<fuel. accept_ret env i \<noteq> - 1)
      \<and> (\<forall>i<fuel. \<not> thread_start_fails rt i) \<longrightarrow>
      (\<exists>hs. fst (run_process rt env fuel argv) = Still_Running
         \<and> console (snd (run_process rt env fuel argv)) =
             [(Main_Thread, announcement argv),
              (Main_Thread, SERVER_LISTENING_ON_PORT_c @
                 to_string (resolved_port env (requested_port argv)))]
             @ map handler_line hs
         \<and> mset hs + mset (detached (snd (run_process rt env fuel argv))) =
             mset (map (accept_ret env) [0..<fuel])))
    \<and> (socket_ret env \<noteq> - 1 \<and> \<not> setsockopt_fails env \<and> \<not> bind_fails env
      \<and> \<not> getsockname_fails env
      \<and> k < fuel \<and> (\<forall>i<k. accept_ret env i \<noteq> - 1) \<and> (\<forall>i<k. \<not> thread_start_fails rt i)
      \<and> (accept_ret env k = - 1 \<or> thread_start_fails rt k) \<longrightarrow>
      (\<exists>hs h2. fst (run_process rt env fuel argv) = Exited (- 1)
         \<and> console (snd (run_process rt env fuel argv)) =
             [(Main_Thread, announcement argv),
              (Main_Thread, SERVER_LISTENING_ON_PORT_c @
                 to_string (resolved_port env (requested_port argv)))]
             @ map handler_line hs
             @ [(Main_Thread,
                 if accept_ret env k = - 1 then ENCOUNTERED_ERROR_ACCEPTING_NEW_CONNECTION_c
                 else system_error_what rt)]
             @ map handler_line h2
             @ (if detached (snd (run_process rt env fuel argv)) = [] then []
                else exit_writes rt)
         \<and> mset hs + mset h2 + mset (detached (snd (run_process rt env fuel argv))) =
             mset (map (accept_ret env) [0..<k])))
    \<and> (socket_ret env = - 1 \<or> setsockopt_fails env \<or> bind_fails env
        \<or> getsockname_fails env \<longrightarrow>
      fst (run_process rt env fuel argv) = Exited (- 1)
      \<and> console (snd (run_process rt env fuel argv)) =
          [(Main_Thread, announcement argv),
           (Main_Thread,
            if socket_ret env = - 1 then ENCOUNTERED_AN_ERROR_OPENING_STREAM_SOCKET_c
            else if setsockopt_fails env then ENCOUNTERED_ERROR_SETTING_SOCKET_OPTIONS_c
            else if bind_fails env then ENCOUNTERED_ERROR_BINDING_STREAM_SOCKET_c
            else ENCOUNTERED_ERROR_FETCHING_SOCKET_PORT_c)])"
proof (intro conjI impI)
  assume "socket_ret env \<noteq> - 1 \<and> \<not> setsockopt_fails env \<and> \<not> bind_fails env
      \<and> \<not> getsockname_fails env \<and> (\<forall>i<fuel. accept_ret env i \<noteq> - 1)
      \<and> (\<forall>i<fuel. \<not> thread_start_fails rt i)"
  then have a: "socket_ret env \<noteq> - 1" "\<not> setsockopt_fails env" "\<not> bind_fails env"
    "\<not> getsockname_fails env" "\<forall>i<fuel. accept_ret env i \<noteq> - 1"
    "\<forall>i<fuel. \<not> thread_start_fails rt i" by simp_all
  from main_rt_still_running [OF assms a] obtain hs w' where
    m: "main_rt rt env fuel argv = (Still_Running, w')"
    and c: "console w' =
          [(Main_Thread, announcement argv),
           (Main_Thread, SERVER_LISTENING_ON_PORT_c @
              to_string (resolved_port env (requested_port argv)))]
          @ map handler_line hs"
    and d: "mset hs + mset (detached w') = mset (map (accept_ret env) [0..<fuel])"
    by blast
  show "\<exists>hs. fst (run_process rt env fuel argv) = Still_Running
         \<and> console (snd (run_process rt env fuel argv)) =
             [(Main_Thread, announcement argv),
              (Main_Thread, SERVER_LISTENING_ON_PORT_c @
                 to_string (resolved_port env (requested_port argv)))]
             @ map handler_line hs
         \<and> mset hs + mset (detached (snd (run_process rt env fuel argv))) =
             mset (map (accept_ret env) [0..<fuel])"
    unfolding run_process_running [OF m] fst_conv snd_conv using c d by blast
next
  assume "socket_ret env \<noteq> - 1 \<and> \<not> setsockopt_fails env \<and> \<not> bind_fails env
      \<and> \<not> getsockname_fails env
      \<and> k < fuel \<and> (\<forall>i<k. accept_ret env i \<noteq> - 1) \<and> (\<forall>i<k. \<not> thread_start_fails rt i)
      \<and> (accept_ret env k = - 1 \<or> thread_start_fails rt k)"
  then have a: "socket_ret env \<noteq> - 1" "\<not> setsockopt_fails env" "\<not> bind_fails env"
    "\<not> getsockname_fails env" "k < fuel" "\<forall>i<k. accept_ret env i \<noteq> - 1"
    "\<forall>i<k. \<not> thread_start_fails rt i"
    "accept_ret env k = - 1 \<or> thread_start_fails rt k" by simp_all
  from main_rt_loop_fails [OF assms a] obtain hs h2 w' where
    m: "main_rt rt env fuel argv = (Exited (- 1), w')"
    and c: "console w' =
          [(Main_Thread, announcement argv),
           (Main_Thread, SERVER_LISTENING_ON_PORT_c @
              to_string (resolved_port env (requested_port argv)))]
          @ map handler_line hs
          @ [(Main_Thread,
              if accept_ret env k = - 1 then ENCOUNTERED_ERROR_ACCEPTING_NEW_CONNECTION_c
              else system_error_what rt)]
          @ map handler_line h2"
    and d: "mset hs + mset h2 + mset (detached w') = mset (map (accept_ret env) [0..<k])"
    by blast
  have c': "console (process_exit rt w') =
          [(Main_Thread, announcement argv),
           (Main_Thread, SERVER_LISTENING_ON_PORT_c @
              to_string (resolved_port env (requested_port argv)))]
          @ map handler_line hs
          @ [(Main_Thread,
              if accept_ret env k = - 1 then ENCOUNTERED_ERROR_ACCEPTING_NEW_CONNECTION_c
              else system_error_what rt)]
          @ map handler_line h2
          @ (if detached (process_exit rt w') = [] then [] else exit_writes rt)"
    unfolding process_exit_console process_exit_detached c by simp
  have d': "mset hs + mset h2 + mset (detached (process_exit rt w')) =
      mset (map (accept_ret env) [0..<k])"
    unfolding process_exit_detached by (rule d)
  show "\<exists>hs h2. fst (run_process rt env fuel argv) = Exited (- 1)
         \<and> console (snd (run_process rt env fuel argv)) =
             [(Main_Thread, announcement argv),
              (Main_Thread, SERVER_LISTENING_ON_PORT_c @
                 to_string (resolved_port env (requested_port argv)))]
             @ map handler_line hs
             @ [(Main_Thread,
                 if accept_ret env k = - 1 then ENCOUNTERED_ERROR_ACCEPTING_NEW_CONNECTION_c
                 else system_error_what rt)]
             @ map handler_line h2
             @ (if detached (snd (run_process rt env fuel argv)) = [] then []
                else exit_writes rt)
         \<and> mset hs + mset h2 + mset (detached (snd (run_process rt env fuel argv))) =
             mset (map (accept_ret env) [0..<k])"
    unfolding run_process_exited [OF m] fst_conv snd_conv using c' d' by blast
next
  assume f: "socket_ret env = - 1 \<or> setsockopt_fails env \<or> bind_fails env
        \<or> getsockname_fails env"
  then consider (a) "socket_ret env = - 1"
    | (b) "socket_ret env \<noteq> - 1" "setsockopt_fails env"
    | (c) "socket_ret env \<noteq> - 1" "\<not> setsockopt_fails env" "bind_fails env"
    | (d) "socket_ret env \<noteq> - 1" "\<not> setsockopt_fails env" "\<not> bind_fails env"
          "getsockname_fails env"
    by blast
  then have m: "fst (main_rt rt env fuel argv) = Exited (- 1)
      \<and> console (snd (main_rt rt env fuel argv)) =
          [(Main_Thread, announcement argv),
           (Main_Thread,
            if socket_ret env = - 1 then ENCOUNTERED_AN_ERROR_OPENING_STREAM_SOCKET_c
            else if setsockopt_fails env then ENCOUNTERED_ERROR_SETTING_SOCKET_OPTIONS_c
            else if bind_fails env then ENCOUNTERED_ERROR_BINDING_STREAM_SOCKET_c
            else ENCOUNTERED_ERROR_FETCHING_SOCKET_PORT_c)]
      \<and> detached (snd (main_rt rt env fuel argv)) = []"
  proof cases
    case a
    then show ?thesis using main_rt_socket_fails(1,2,4) [OF assms a, of rt fuel] by simp
  next
    case b
    then show ?thesis using main_rt_setsockopt_fails(1,2,4) [OF assms b, of rt fuel] by simp
  next
    case c
    then show ?thesis using main_rt_bind_fails(1,2,4) [OF assms c, of rt fuel] by simp
  next
    case d
    then show ?thesis using main_rt_getsockname_fails(1,2,4) [OF assms d, of rt fuel] by simp
  qed
  then have e: "main_rt rt env fuel argv = (Exited (- 1), snd (main_rt rt env fuel argv))"
    by (simp add: prod_eq_iff)
  have x: "process_exit rt (snd (main_rt rt env fuel argv)) = snd (main_rt rt env fuel argv)"
    using m by (simp add: process_exit_def)
  have r: "run_process rt env fuel argv = (Exited (- 1), snd (main_rt rt env fuel argv))"
    using run_process_exited [OF e] x by simp
  show "fst (run_process rt env fuel argv) = Exited (- 1)" using r by simp
  show "console (snd (run_process rt env fuel argv)) =
          [(Main_Thread, announcement argv),
           (Main_Thread,
            if socket_ret env = - 1 then ENCOUNTERED_AN_ERROR_OPENING_STREAM_SOCKET_c
            else if setsockopt_fails env then ENCOUNTERED_ERROR_SETTING_SOCKET_OPTIONS_c
            else if bind_fails env then ENCOUNTERED_ERROR_BINDING_STREAM_SOCKET_c
            else ENCOUNTERED_ERROR_FETCHING_SOCKET_PORT_c)]"
    unfolding r snd_conv using m by blast
qed

theorem console_output_order_witness:
  "length [''./server'', ''8080''] \<le> 2
   \<and> socket_ret example_env \<noteq> - 1 \<and> \<not> setsockopt_fails example_env
   \<and> \<not> bind_fails example_env \<and> \<not> getsockname_fails example_env
   \<and> accept_ret example_env 0 \<noteq> - 1 \<and> accept_ret example_env 1 \<noteq> - 1
   \<and> \<not> thread_start_fails every_thread_starts 0 \<and> \<not> thread_start_fails every_thread_starts 1
   \<and> (\<exists>hs. fst (run_process every_thread_starts example_env 2 [''./server'', ''8080'']) =
           Still_Running
         \<and> console (snd (run_process every_thread_starts example_env 2
               [''./server'', ''8080''])) =
             [(Main_Thread, announcement [''./server'', ''8080'']),
              (Main_Thread, SERVER_LISTENING_ON_PORT_c @
                 to_string (resolved_port example_env (requested_port [''./server'', ''8080''])))]
             @ map handler_line hs
         \<and> mset hs + mset (detached (snd (run_process every_thread_starts example_env 2
               [''./server'', ''8080'']))) =
             mset (map (accept_ret example_env) [0..<2]))
   \<and> socket_ret stalled_env \<noteq> - 1 \<and> \<not> setsockopt_fails stalled_env
   \<and> \<not> bind_fails stalled_env \<and> \<not> getsockname_fails stalled_env
   \<and> accept_ret stalled_env 0 \<noteq> - 1 \<and> \<not> thread_start_fails racing_exit_runtime 0
   \<and> accept_ret stalled_env 1 = - 1
   \<and> (\<exists>hs h2. fst (run_process racing_exit_runtime stalled_env 2 [''./server'', ''8080'']) =
           Exited (- 1)
         \<and> console (snd (run_process racing_exit_runtime stalled_env 2
               [''./server'', ''8080''])) =
             [(Main_Thread, announcement [''./server'', ''8080'']),
              (Main_Thread, SERVER_LISTENING_ON_PORT_c @
                 to_string (resolved_port stalled_env (requested_port [''./server'', ''8080''])))]
             @ map handler_line hs
             @ [(Main_Thread, ENCOUNTERED_ERROR_ACCEPTING_NEW_CONNECTION_c)]
             @ map handler_line h2
             @ (if detached (snd (run_process racing_exit_runtime stalled_env 2
                     [''./server'', ''8080''])) = [] then []
                else exit_writes racing_exit_runtime)
         \<and> mset hs + mset h2 + mset (detached (snd (run_process racing_exit_runtime stalled_env 2
               [''./server'', ''8080'']))) =
             mset (map (accept_ret stalled_env) [0..<1]))
   \<and> console (snd (run_process racing_exit_runtime stalled_env (Suc (Suc 0))
         [''./server'', ''8080''])) =
       [(Main_Thread, USER_SELECTED_FOLLOWING_PORT_c @ ''8080''),
        (Main_Thread, SERVER_LISTENING_ON_PORT_c @ ''8080''),
        (Main_Thread, ENCOUNTERED_ERROR_ACCEPTING_NEW_CONNECTION_c),
        (Handler_Thread 4, HANDLING_NEW_CONNECTION_c @ ''4''),
        (Handler_Thread 4, HANDLING_NEW_CONNECTION_c @ ''4'')]
   \<and> bind_fails (example_env\<lparr>bind_fails := True\<rparr>)
   \<and> fst (run_process every_thread_starts (example_env\<lparr>bind_fails := True\<rparr>) 5
         [''./server'', ''8080'']) = Exited (- 1)
   \<and> console (snd (run_process every_thread_starts (example_env\<lparr>bind_fails := True\<rparr>) 5
         [''./server'', ''8080''])) =
       [(Main_Thread, announcement [''./server'', ''8080'']),
        (Main_Thread, ENCOUNTERED_ERROR_BINDING_STREAM_SOCKET_c)]"
proof -
  let ?args = "[''./server'', ''8080'']"
  have L: "length ?args \<le> 2" by simp
  have a: "accept_ret example_env 0 \<noteq> - 1 \<and> accept_ret example_env 1 \<noteq> - 1"
    by (simp add: example_env_def)
  have t: "\<not> thread_start_fails every_thread_starts 0
      \<and> \<not> thread_start_fails every_thread_starts 1"
    by (simp add: every_thread_starts_def)
  have ok: "socket_ret example_env \<noteq> - 1 \<and> \<not> setsockopt_fails example_env
      \<and> \<not> bind_fails example_env \<and> \<not> getsockname_fails example_env"
    by (simp add: example_env_def)
  have h1: "socket_ret example_env \<noteq> - 1 \<and> \<not> setsockopt_fails example_env
      \<and> \<not> bind_fails example_env \<and> \<not> getsockname_fails example_env
      \<and> (\<forall>i<2. accept_ret example_env i \<noteq> - 1)
      \<and> (\<forall>i<2. \<not> thread_start_fails every_thread_starts i)"
    using ok example_env_accepts by (simp add: every_thread_starts_def)
  have ok2: "socket_ret stalled_env \<noteq> - 1 \<and> \<not> setsockopt_fails stalled_env
      \<and> \<not> bind_fails stalled_env \<and> \<not> getsockname_fails stalled_env"
    by (simp add: stalled_env_def example_env_def)
  have a2: "accept_ret stalled_env 0 \<noteq> - 1 \<and> \<not> thread_start_fails racing_exit_runtime 0
      \<and> accept_ret stalled_env 1 = - 1"
    by (simp add: stalled_env_def racing_exit_runtime_def every_thread_starts_def)
  have h2: "socket_ret stalled_env \<noteq> - 1 \<and> \<not> setsockopt_fails stalled_env
      \<and> \<not> bind_fails stalled_env \<and> \<not> getsockname_fails stalled_env
      \<and> (1::nat) < 2 \<and> (\<forall>i<1. accept_ret stalled_env i \<noteq> - 1)
      \<and> (\<forall>i<1. \<not> thread_start_fails racing_exit_runtime i)
      \<and> (accept_ret stalled_env 1 = - 1 \<or> thread_start_fails racing_exit_runtime 1)"
    using ok2 a2 by simp
  have h3: "bind_fails (example_env\<lparr>bind_fails := True\<rparr>)" by simp
  have i3: "\<not> (socket_ret (example_env\<lparr>bind_fails := True\<rparr>) = - 1)
      \<and> \<not> setsockopt_fails (example_env\<lparr>bind_fails := True\<rparr>)"
    by (simp add: example_env_def)
  note T1 = console_output_order [OF L, of example_env 2 every_thread_starts 2]
  note T2 = console_output_order [OF L, of stalled_env 2 racing_exit_runtime 1]
  note T3 = console_output_order [OF L, of "example_env\<lparr>bind_fails := True\<rparr>" 5
      every_thread_starts 2]
  have c1: "\<exists>hs. fst (run_process every_thread_starts example_env 2 ?args) = Still_Running
         \<and> console (snd (run_process every_thread_starts example_env 2 ?args)) =
             [(Main_Thread, announcement ?args),
              (Main_Thread, SERVER_LISTENING_ON_PORT_c @
                 to_string (resolved_port example_env (requested_port ?args)))]
             @ map handler_line hs
         \<and> mset hs + mset (detached (snd (run_process every_thread_starts example_env 2
               ?args))) =
             mset (map (accept_ret example_env) [0..<2])"
    by (rule mp [OF T1 [THEN conjunct1] h1])
  have c2: "\<exists>hs h2. fst (run_process racing_exit_runtime stalled_env 2 ?args) = Exited (- 1)
         \<and> console (snd (run_process racing_exit_runtime stalled_env 2 ?args)) =
             [(Main_Thread, announcement ?args),
              (Main_Thread, SERVER_LISTENING_ON_PORT_c @
                 to_string (resolved_port stalled_env (requested_port ?args)))]
             @ map handler_line hs
             @ [(Main_Thread, ENCOUNTERED_ERROR_ACCEPTING_NEW_CONNECTION_c)]
             @ map handler_line h2
             @ (if detached (snd (run_process racing_exit_runtime stalled_env 2 ?args)) = []
                then [] else exit_writes racing_exit_runtime)
         \<and> mset hs + mset h2 + mset (detached (snd (run_process racing_exit_runtime stalled_env 2
               ?args))) =
             mset (map (accept_ret stalled_env) [0..<1])"
    using mp [OF T2 [THEN conjunct2, THEN conjunct1] h2] a2 by simp
  have c2': "console (snd (run_process racing_exit_runtime stalled_env (Suc (Suc 0)) ?args)) =
       [(Main_Thread, USER_SELECTED_FOLLOWING_PORT_c @ ''8080''),
        (Main_Thread, SERVER_LISTENING_ON_PORT_c @ ''8080''),
        (Main_Thread, ENCOUNTERED_ERROR_ACCEPTING_NEW_CONNECTION_c),
        (Handler_Thread 4, HANDLING_NEW_CONNECTION_c @ ''4''),
        (Handler_Thread 4, HANDLING_NEW_CONNECTION_c @ ''4'')]"
    by (simp add: run_process_def process_exit_def racing_exit_runtime_def model_defs
        stalled_env_def example_env_def atoi_8080 to_string_8080 handler_line_def to_string_4
        bswap_16_def htons_def ntohs_def)
  have c3: "fst (run_process every_thread_starts (example_env\<lparr>bind_fails := True\<rparr>) 5 ?args) =
        Exited (- 1)
      \<and> console (snd (run_process every_thread_starts (example_env\<lparr>bind_fails := True\<rparr>) 5
           ?args)) =
       [(Main_Thread, announcement ?args),
        (Main_Thread, ENCOUNTERED_ERROR_BINDING_STREAM_SOCKET_c)]"
  proof -
    have "socket_ret (example_env\<lparr>bind_fails := True\<rparr>) = - 1
        \<or> setsockopt_fails (example_env\<lparr>bind_fails := True\<rparr>)
        \<or> bind_fails (example_env\<lparr>bind_fails := True\<rparr>)
        \<or> getsockname_fails (example_env\<lparr>bind_fails := True\<rparr>)"
      by simp
    from mp [OF T3 [THEN conjunct2, THEN conjunct2] this] show ?thesis
      using i3 by simp
  qed
  from L ok a t c1 ok2 a2 c2 c2' h3 c3 show ?thesis by blast
qed


section \<open>The port argument\<close>

lemma digits_value_foldl:
  "digits_value (int a) s =
     int (foldl (\<lambda>n c. n * 10 + (of_char c - 48)) a (takeWhile isdigit s))"
proof (induction s arbitrary: a)
  case Nil
  show ?case by simp
next
  case (Cons c cs)
  show ?case
  proof (cases "isdigit c")
    case True
    then have "(48::nat) \<le> of_char c" by (simp add: isdigit_def)
    then have "int a * 10 + (of_char c - 48) = int (a * 10 + (of_char c - 48))"
      by (simp add: of_nat_diff of_nat_of_char)
    then show ?thesis using True Cons.IH [of "a * 10 + (of_char c - 48)"] by simp
  next
    case False
    then show ?thesis by simp
  qed
qed

lemma digits_value_decimal: "digits_value 0 s = int (decimal (takeWhile isdigit s))"
  using digits_value_foldl [of 0 s] by (simp add: decimal_def)

lemma strtol_10_read:
  "strtol_10 nptr =
     max (- (2 ^ 63)) (min (2 ^ 63 - 1)
       (if minus_read nptr then - int (decimal (digits_read nptr))
        else int (decimal (digits_read nptr))))"
proof (cases "dropWhile isspace nptr")
  case Nil
  show ?thesis
    unfolding strtol_10_def digits_read_def minus_read_def Let_def Nil
    by (simp add: decimal_def)
next
  case (Cons c cs)
  show ?thesis
  proof (cases "c = CHR ''-''")
    case True
    then show ?thesis
      unfolding strtol_10_def digits_read_def minus_read_def Let_def Cons
      by (simp add: digits_value_decimal)
  next
    case False
    note m = this
    show ?thesis
    proof (cases "c = CHR ''+''")
      case True
      then show ?thesis
        unfolding strtol_10_def digits_read_def minus_read_def Let_def Cons
        by (simp add: digits_value_decimal)
    next
      case False
      have "digits_value 0 (c # cs) = int (decimal (takeWhile isdigit (c # cs)))"
        by (rule digits_value_decimal)
      then show ?thesis
        using m False
        unfolding strtol_10_def digits_read_def minus_read_def Let_def Cons
        by (simp only: list.case if_False simp_thms)
    qed
  qed
qed

lemma atoi_eq_0_iff: "atoi nptr = 0 \<longleftrightarrow> 2 ^ 32 dvd strtol_10 nptr"
  by (simp add: atoi_def word_of_int_eq_0_iff)

lemma decimal_zeros:
  assumes "list_all (\<lambda>c. c = CHR ''0'') ds"
  shows "decimal ds = 0"
proof -
  have "foldl (\<lambda>n c. n * 10 + (of_char c - 48)) (0::nat) ds = 0" using assms
    by (induction ds) simp_all
  then show ?thesis by (simp add: decimal_def)
qed

lemma atoi_read:
  "atoi nptr = 0 \<longleftrightarrow>
     (if minus_read nptr
      then 2 ^ 63 \<le> decimal (digits_read nptr) \<or> 2 ^ 32 dvd decimal (digits_read nptr)
      else decimal (digits_read nptr) < 2 ^ 63 \<and> 2 ^ 32 dvd decimal (digits_read nptr))"
proof -
  let ?v = "decimal (digits_read nptr)"
  have big: "(2::int) ^ 32 dvd - (2 ^ 63)"
  proof -
    have "- ((2::int) ^ 63) = 2 ^ 32 * (- (2 ^ 31))" by simp
    then show ?thesis by (rule dvdI)
  qed
  have odd: "\<not> (2::int) ^ 32 dvd 2 ^ 63 - 1"
  proof
    assume "(2::int) ^ 32 dvd 2 ^ 63 - 1"
    moreover have "(2::int) dvd 2 ^ 32" by simp
    ultimately have "(2::int) dvd 2 ^ 63 - 1" by (rule dvd_trans [rotated])
    then show False by simp
  qed
  have d: "(2::int) ^ 32 dvd int ?v \<longleftrightarrow> (2::nat) ^ 32 dvd ?v"
  proof -
    have "(2::int) ^ 32 = int (2 ^ 32)" by simp
    then show ?thesis by (simp only: int_dvd_int_iff)
  qed
  have l: "int ?v < 2 ^ 63 \<longleftrightarrow> ?v < 2 ^ 63"
  proof -
    have "(2::int) ^ 63 = int (2 ^ 63)" by simp
    then show ?thesis by (simp only: of_nat_less_iff)
  qed
  show ?thesis
  proof (cases "minus_read nptr")
    case True
    show ?thesis
    proof (cases "?v < 2 ^ 63")
      case True
      with l have "int ?v < 2 ^ 63" by simp
      then have "max (- (2 ^ 63)) (min (2 ^ 63 - 1) (- int ?v)) = - int ?v" by simp
      then have "atoi nptr = 0 \<longleftrightarrow> 2 ^ 32 dvd - int ?v"
        using \<open>minus_read nptr\<close> by (simp add: atoi_eq_0_iff strtol_10_read)
      then show ?thesis using \<open>minus_read nptr\<close> True d by simp
    next
      case False
      with l have "2 ^ 63 \<le> int ?v" by simp
      then have "max (- (2 ^ 63)) (min (2 ^ 63 - 1) (- int ?v)) = - (2 ^ 63)" by simp
      then have "atoi nptr = 0"
        using \<open>minus_read nptr\<close> big by (simp add: atoi_eq_0_iff strtol_10_read)
      then show ?thesis using \<open>minus_read nptr\<close> False by simp
    qed
  next
    case False
    note p = this
    show ?thesis
    proof (cases "?v < 2 ^ 63")
      case True
      with l have "int ?v < 2 ^ 63" by simp
      then have "max (- (2 ^ 63)) (min (2 ^ 63 - 1) (int ?v)) = int ?v" by simp
      then have "atoi nptr = 0 \<longleftrightarrow> 2 ^ 32 dvd int ?v"
        using p by (simp add: atoi_eq_0_iff strtol_10_read)
      then show ?thesis using p True d by simp
    next
      case False
      with l have "2 ^ 63 \<le> int ?v" by simp
      then have "max (- (2 ^ 63)) (min (2 ^ 63 - 1) (int ?v)) = 2 ^ 63 - 1" by simp
      then have "atoi nptr \<noteq> 0"
        using p odd by (simp add: atoi_eq_0_iff strtol_10_read)
      then show ?thesis using p False by simp
    qed
  qed
qed

lemma atoi_small:
  assumes "decimal (digits_read nptr) < 2 ^ 31"
  shows "sint (atoi nptr) =
    (if minus_read nptr then - int (decimal (digits_read nptr))
     else int (decimal (digits_read nptr)))"
proof -
  let ?v = "decimal (digits_read nptr)"
  let ?x = "if minus_read nptr then - int ?v else int ?v"
  have "int ?v < int (2 ^ 31)" using assms by (simp only: of_nat_less_iff)
  then have b: "int ?v < 2 ^ 31" by simp
  then have r: "- (2 ^ 31) \<le> ?x" "?x < 2 ^ 31" by simp_all
  then have "max (- (2 ^ 63)) (min (2 ^ 63 - 1) ?x) = ?x" by simp
  then have s: "strtol_10 nptr = ?x" by (simp only: strtol_10_read)
  have "signed_take_bit 31 ?x = ?x"
    using r by (rule signed_take_bit_int_eq_self)
  then have "sint (word_of_int ?x :: 32 word) = ?x"
    by (simp only: sint_sbintrunc') simp
  then show ?thesis by (simp only: atoi_def s)
qed

lemma to_string_0: "to_string 0 = ''0''"
  by (simp add: to_string_def string_of_nat.simps digit_char_def)

text \<open>A run does not look at the lines that are on the console when it starts.\<close>

lemma prepend_thread_safe_print:
  "thread_safe_print t s (prepend_console c w) = prepend_console c (thread_safe_print t s w)"
  by (simp add: thread_safe_print_def prepend_console_def)

lemma prepend_log_call: "log_call x (prepend_console c w) = prepend_console c (log_call x w)"
  by (simp add: log_call_def prepend_console_def)

lemma prepend_run_thread:
  "run_thread env (prepend_console c w) k = prepend_console c (run_thread env w k)"
  by (simp add: run_thread_def handle_connection_def thread_safe_print_def prepend_console_def
      Let_def)

lemma prepend_foldl_run_thread:
  "foldl (run_thread env) (prepend_console c w) ks =
     prepend_console c (foldl (run_thread env) w ks)"
  by (induction ks arbitrary: w) (simp_all add: prepend_run_thread)

lemma prepend_yield: "yield env (prepend_console c w) = prepend_console c (yield env w)"
proof -
  have "(prepend_console c w)\<lparr>ticks := Suc (ticks (prepend_console c w))\<rparr> =
      prepend_console c (w\<lparr>ticks := Suc (ticks w)\<rparr>)"
    by (simp add: prepend_console_def)
  moreover have "ticks (prepend_console c w) = ticks w" by (simp add: prepend_console_def)
  ultimately show ?thesis by (simp add: yield_def prepend_foldl_run_thread)
qed

lemma prepend_sys_accept:
  "sys_accept env fd (prepend_console c w) =
     (fst (sys_accept env fd w), prepend_console c (snd (sys_accept env fd w)))"
  by (simp add: sys_accept_def prepend_log_call prepend_yield Let_def)
    (simp add: prepend_console_def)

lemma prepend_accept_count: "accept_count (prepend_console c w) = accept_count w"
  by (simp add: prepend_console_def)

lemma prepend_spawn_detached:
  "spawn_detached fd (prepend_console c w) = prepend_console c (spawn_detached fd w)"
  by (simp add: spawn_detached_def prepend_console_def)

lemma prepend_accept_loop_rt:
  "accept_loop_rt rt env fuel fd (prepend_console c w) =
     (fst (accept_loop_rt rt env fuel fd w),
      prepend_console c (snd (accept_loop_rt rt env fuel fd w)))"
proof (induction fuel arbitrary: w)
  case 0
  show ?case by simp
next
  case (Suc fuel)
  obtain cfd w1 where a: "sys_accept env fd w = (cfd, w1)"
    by (cases "sys_accept env fd w")
  then have b: "sys_accept env fd (prepend_console c w) = (cfd, prepend_console c w1)"
    by (simp add: prepend_sys_accept)
  show ?case
  proof (cases "cfd = - 1 \<or> thread_start_fails rt (accept_count w)")
    case True
    then show ?thesis using a b by (auto simp add: prepend_accept_count)
  next
    case False
    then show ?thesis
      using a b Suc.IH [of "spawn_detached cfd w1"]
      by (simp add: prepend_spawn_detached prepend_accept_count)
  qed
qed

lemma prepend_sys_socket:
  "sys_socket env d t p (prepend_console c w) =
     (fst (sys_socket env d t p w), prepend_console c (snd (sys_socket env d t p w)))"
  by (simp add: sys_socket_def prepend_log_call)

lemma prepend_sys_setsockopt:
  "sys_setsockopt env fd l n v (prepend_console c w) =
     (fst (sys_setsockopt env fd l n v w), prepend_console c (snd (sys_setsockopt env fd l n v w)))"
  by (simp add: sys_setsockopt_def prepend_log_call)

lemma prepend_sys_bind:
  "sys_bind env fd addr (prepend_console c w) =
     (fst (sys_bind env fd addr w), prepend_console c (snd (sys_bind env fd addr w)))"
  by (simp add: sys_bind_def log_call_def prepend_console_def Let_def)

lemma prepend_sys_listen:
  "sys_listen env fd q (prepend_console c w) =
     (fst (sys_listen env fd q w), prepend_console c (snd (sys_listen env fd q w)))"
  by (simp add: sys_listen_def prepend_log_call)

lemma prepend_get_port_number:
  "get_port_number env fd (prepend_console c w) =
     (fst (get_port_number env fd w), prepend_console c (snd (get_port_number env fd w)))"
  by (simp add: get_port_number_def sys_getsockname_def log_call_def prepend_console_def Let_def)

lemma prepend_run_server_rt:
  "run_server_rt rt env fuel p q (prepend_console c w) =
     (fst (run_server_rt rt env fuel p q w),
      prepend_console c (snd (run_server_rt rt env fuel p q w)))"
  by (simp add: run_server_rt_def case_prod_beta Let_def prepend_sys_socket
      prepend_sys_setsockopt prepend_sys_bind prepend_sys_listen prepend_get_port_number
      prepend_thread_safe_print prepend_accept_loop_rt split: sum.splits)

lemma prepend_try_run_server_rt:
  "try_run_server_rt rt env fuel port (prepend_console c w) =
     (fst (try_run_server_rt rt env fuel port w),
      prepend_console c (snd (try_run_server_rt rt env fuel port w)))"
proof (cases "run_server_rt rt env fuel port SERVER_SOCKET_QUEUE_SIZE_c w")
  case (Pair out w2)
  then have "run_server_rt rt env fuel port SERVER_SOCKET_QUEUE_SIZE_c (prepend_console c w) =
      (out, prepend_console c w2)"
    by (simp add: prepend_run_server_rt)
  with Pair show ?thesis
    by (cases out)
      (simp_all add: try_run_server_rt_def prepend_yield prepend_thread_safe_print)
qed

lemma main_rt_console_split:
  assumes "length argv \<le> 2"
  shows "main_rt rt env fuel argv =
      (fst (try_run_server_rt rt env fuel (requested_port argv) initial_world),
       prepend_console [(Main_Thread, announcement argv)]
         (snd (try_run_server_rt rt env fuel (requested_port argv) initial_world)))"
proof -
  have "thread_safe_print Main_Thread (announcement argv) initial_world =
      prepend_console [(Main_Thread, announcement argv)] initial_world"
    by (simp add: thread_safe_print_def prepend_console_def initial_world_def)
  then show ?thesis
    by (simp only: main_rt_run [OF assms] prepend_try_run_server_rt)
qed

text \<open>
  C6, as stated: every malformed (non-numeric) port argument parses to 0. The argument
  \<open>80abc\<close> is not numeric, and \<open>atoi\<close> reads its leading digits: the port is 80, the
  line printed is "User selected to run the server on port: 80", and the server listens
  on port 80, not on a port the kernel picked.
\<close>

theorem digits_then_letters_counterexample:
  "\<not> numeric ''80abc'' \<and> atoi ''80abc'' = 80 \<and> atoi ''80abc'' \<noteq> 0
   \<and> console (snd (main example_env 0 [''./server'', ''80abc''])) =
       [(Main_Thread, USER_SELECTED_FOLLOWING_PORT_c @ ''80''),
        (Main_Thread, SERVER_LISTENING_ON_PORT_c @ ''80'')]
   \<and> USER_SELECTED_FOLLOWING_PORT_c @ ''80'' \<noteq> USER_SELECTED_FOLLOWING_PORT_c @ ''0''"
proof -
  have n: "\<not> numeric ''80abc''" by (simp add: numeric_def isdigit_def)
  have a: "atoi ''80abc'' = 80"
    by (simp add: atoi_def strtol_10_def isspace_def isdigit_def)
  have t: "to_string 80 = ''80''"
    by (simp add: to_string_def string_of_nat.simps digit_char_def)
  have c: "console (snd (main example_env 0 [''./server'', ''80abc''])) =
       [(Main_Thread, USER_SELECTED_FOLLOWING_PORT_c @ ''80''),
        (Main_Thread, SERVER_LISTENING_ON_PORT_c @ ''80'')]"
    by (simp add: model_defs example_env_def a t bswap_16_def htons_def ntohs_def)
  have d: "USER_SELECTED_FOLLOWING_PORT_c @ ''80'' \<noteq> USER_SELECTED_FOLLOWING_PORT_c @ ''0''"
    by simp
  from n a c d show ?thesis by simp
qed

text \<open>
  C6, amended. Of its argument \<open>atoi\<close> reads, after leading white space and one optional
  sign, the longest run of decimal digits; what follows is ignored. A single port
  argument, malformed or not, parses to 0 exactly when the number these digits denote is
  below \<open>2^63\<close> and a multiple of \<open>2^32\<close>, or comes after a minus sign and is \<open>2^63\<close> or
  more. So it parses to 0 whenever no digit other than 0 is read (\<open>abc\<close>, the empty
  argument, \<open>0x10\<close>); and when the digits read denote a number below \<open>2^31\<close> it parses
  to that number, negated after a minus sign (\<open>80abc\<close> parses to 80, not to 0).
  Whenever the argument parses to 0, the run is the run without an argument, first line
  apart: the same exit status and the same final state, with the same calls, and the
  same console after the first line, which is "User selected to run the server on port:
  0" instead of the "did not specify" line; the usage message is not what is printed.
\<close>

theorem port_argument_parses_to_0:
  "(atoi nptr = 0 \<longleftrightarrow>
      (if minus_read nptr
       then 2 ^ 63 \<le> decimal (digits_read nptr) \<or> 2 ^ 32 dvd decimal (digits_read nptr)
       else decimal (digits_read nptr) < 2 ^ 63 \<and> 2 ^ 32 dvd decimal (digits_read nptr)))
   \<and> (list_all (\<lambda>c. c = CHR ''0'') (digits_read nptr) \<longrightarrow> atoi nptr = 0)
   \<and> (decimal (digits_read nptr) < 2 ^ 31 \<longrightarrow>
        sint (atoi nptr) =
          (if minus_read nptr then - int (decimal (digits_read nptr))
           else int (decimal (digits_read nptr))))
   \<and> (length argv = 2 \<and> atoi (argv ! 1) = 0 \<longrightarrow>
        fst (main_rt rt env fuel argv) = fst (main_rt rt env fuel [argv ! 0])
        \<and> snd (main_rt rt env fuel argv) =
            (snd (main_rt rt env fuel [argv ! 0]))
              \<lparr>console := (Main_Thread, USER_SELECTED_FOLLOWING_PORT_c @ ''0'') #
                 tl (console (snd (main_rt rt env fuel [argv ! 0])))\<rparr>
        \<and> hd (console (snd (main_rt rt env fuel [argv ! 0]))) =
            (Main_Thread, USER_DID_NOT_SPECIFY_PORT_c)
        \<and> console (snd (main_rt rt env fuel argv)) =
            (Main_Thread, USER_SELECTED_FOLLOWING_PORT_c @ ''0'') #
            tl (console (snd (main_rt rt env fuel [argv ! 0])))
        \<and> calls (snd (main_rt rt env fuel argv)) = calls (snd (main_rt rt env fuel [argv ! 0]))
        \<and> console (snd (main_rt rt env fuel argv)) \<noteq> [(Main_Thread, USAGE_MESSAGE_c)])"
proof (intro conjI impI)
  show "atoi nptr = 0 \<longleftrightarrow>
      (if minus_read nptr
       then 2 ^ 63 \<le> decimal (digits_read nptr) \<or> 2 ^ 32 dvd decimal (digits_read nptr)
       else decimal (digits_read nptr) < 2 ^ 63 \<and> 2 ^ 32 dvd decimal (digits_read nptr))"
    by (rule atoi_read)
next
  assume "list_all (\<lambda>c. c = CHR ''0'') (digits_read nptr)"
  then have "decimal (digits_read nptr) = 0" by (rule decimal_zeros)
  then show "atoi nptr = 0" by (simp add: atoi_read)
next
  assume "decimal (digits_read nptr) < 2 ^ 31"
  then show "sint (atoi nptr) =
          (if minus_read nptr then - int (decimal (digits_read nptr))
           else int (decimal (digits_read nptr)))"
    by (rule atoi_small)
next
  assume h: "length argv = 2 \<and> atoi (argv ! 1) = 0"
  then have z: "atoi (argv ! 1) = 0" and l: "length argv = 2" by simp_all
  have L: "length argv \<le> 2" using l by simp
  have L1: "length [argv ! 0] \<le> 2" by simp
  have p: "requested_port argv = 0" using l z by (simp add: requested_port_def)
  have p1: "requested_port [argv ! 0] = 0" by (simp add: requested_port_def)
  have a: "announcement argv = USER_SELECTED_FOLLOWING_PORT_c @ ''0''"
    using l z by (simp add: announcement_def to_string_0)
  have a1: "announcement [argv ! 0] = USER_DID_NOT_SPECIFY_PORT_c"
    by (simp add: announcement_def)
  let ?t = "try_run_server_rt rt env fuel 0 initial_world"
  have M: "main_rt rt env fuel argv =
      (fst ?t, prepend_console [(Main_Thread, USER_SELECTED_FOLLOWING_PORT_c @ ''0'')] (snd ?t))"
    using main_rt_console_split [OF L, of rt env fuel] by (simp only: p a)
  have N: "main_rt rt env fuel [argv ! 0] =
      (fst ?t, prepend_console [(Main_Thread, USER_DID_NOT_SPECIFY_PORT_c)] (snd ?t))"
    using main_rt_console_split [OF L1, of rt env fuel] by (simp only: p1 a1)
  show "fst (main_rt rt env fuel argv) = fst (main_rt rt env fuel [argv ! 0])"
    by (simp add: M N)
  show "snd (main_rt rt env fuel argv) =
            (snd (main_rt rt env fuel [argv ! 0]))
              \<lparr>console := (Main_Thread, USER_SELECTED_FOLLOWING_PORT_c @ ''0'') #
                 tl (console (snd (main_rt rt env fuel [argv ! 0])))\<rparr>"
    by (simp add: M N prepend_console_def)
  show "hd (console (snd (main_rt rt env fuel [argv ! 0]))) =
            (Main_Thread, USER_DID_NOT_SPECIFY_PORT_c)"
    by (simp add: N prepend_console_def)
  show c: "console (snd (main_rt rt env fuel argv)) =
            (Main_Thread, USER_SELECTED_FOLLOWING_PORT_c @ ''0'') #
            tl (console (snd (main_rt rt env fuel [argv ! 0])))"
    by (simp add: M N prepend_console_def)
  show "calls (snd (main_rt rt env fuel argv)) = calls (snd (main_rt rt env fuel [argv ! 0]))"
    by (simp add: M N prepend_console_def)
  show "console (snd (main_rt rt env fuel argv)) \<noteq> [(Main_Thread, USAGE_MESSAGE_c)]"
    unfolding c by (simp add: USER_SELECTED_FOLLOWING_PORT_c_def USAGE_MESSAGE_c_def)
qed

theorem port_argument_parses_to_0_witness:
  "list_all (\<lambda>c. c = CHR ''0'') (digits_read ''abc'') \<and> atoi ''abc'' = 0
   \<and> list_all (\<lambda>c. c = CHR ''0'') (digits_read ''0x10'') \<and> atoi ''0x10'' = 0
   \<and> \<not> numeric ''0x10''
   \<and> decimal (digits_read ''80abc'') < 2 ^ 31 \<and> sint (atoi ''80abc'') = 80
   \<and> \<not> minus_read ''4294967296x'' \<and> decimal (digits_read ''4294967296x'') = 2 ^ 32
   \<and> atoi ''4294967296x'' = 0
   \<and> length [''./server'', ''0x10''] = 2 \<and> atoi ([''./server'', ''0x10''] ! 1) = 0
   \<and> fst (main_rt every_thread_starts example_env 5 [''./server'', ''0x10'']) =
       fst (main_rt every_thread_starts example_env 5 [[''./server'', ''0x10''] ! 0])
   \<and> console (snd (main_rt every_thread_starts example_env 5 [''./server'', ''0x10''])) =
        (Main_Thread, USER_SELECTED_FOLLOWING_PORT_c @ ''0'') #
        tl (console (snd (main_rt every_thread_starts example_env 5
              [[''./server'', ''0x10''] ! 0])))"
proof -
  have d1: "list_all (\<lambda>c. c = CHR ''0'') (digits_read ''abc'')"
    by (simp add: digits_read_def isspace_def isdigit_def)
  have d2: "list_all (\<lambda>c. c = CHR ''0'') (digits_read ''0x10'')"
    by (simp add: digits_read_def isspace_def isdigit_def)
  have n2: "\<not> numeric ''0x10''" by (simp add: numeric_def isdigit_def)
  have d3: "decimal (digits_read ''80abc'') = 80" "\<not> minus_read ''80abc''"
    by (simp_all add: digits_read_def minus_read_def decimal_def isspace_def isdigit_def)
  have d4: "\<not> minus_read ''4294967296x''" "decimal (digits_read ''4294967296x'') = 2 ^ 32"
    by (simp_all add: digits_read_def minus_read_def decimal_def isspace_def isdigit_def)
  have e4: "decimal (digits_read ''4294967296x'') < 2 ^ 63
      \<and> 2 ^ 32 dvd decimal (digits_read ''4294967296x'')"
    by (simp add: d4(2))
  note T1 = port_argument_parses_to_0 [of "''abc''" "[''./server'', ''0x10'']"
      every_thread_starts example_env 5]
  note T2 = port_argument_parses_to_0 [of "''0x10''" "[''./server'', ''0x10'']"
      every_thread_starts example_env 5]
  note T3 = port_argument_parses_to_0 [of "''80abc''" "[''./server'', ''0x10'']"
      every_thread_starts example_env 5]
  note T4 = port_argument_parses_to_0 [of "''4294967296x''" "[''./server'', ''0x10'']"
      every_thread_starts example_env 5]
  have c1: "atoi ''abc'' = 0" using T1 d1 by blast
  have c2: "atoi ''0x10'' = 0" using T2 d2 by blast
  have c3: "sint (atoi ''80abc'') = 80"
    using mp [OF T3 [THEN conjunct2, THEN conjunct2, THEN conjunct1]] d3 by simp
  have c4: "atoi ''4294967296x'' = 0"
    using T4 [THEN conjunct1] d4(1) e4 by simp
  have h: "length [''./server'', ''0x10''] = 2 \<and> atoi ([''./server'', ''0x10''] ! 1) = 0"
    using c2 by simp
  have c5: "fst (main_rt every_thread_starts example_env 5 [''./server'', ''0x10'']) =
       fst (main_rt every_thread_starts example_env 5 [[''./server'', ''0x10''] ! 0])
     \<and> console (snd (main_rt every_thread_starts example_env 5 [''./server'', ''0x10''])) =
        (Main_Thread, USER_SELECTED_FOLLOWING_PORT_c @ ''0'') #
        tl (console (snd (main_rt every_thread_starts example_env 5
              [[''./server'', ''0x10''] ! 0])))"
    using mp [OF T2 [THEN conjunct2, THEN conjunct2, THEN conjunct2] h] by blast
  have s3: "decimal (digits_read ''80abc'') < 2 ^ 31" by (simp add: d3(1))
  from d1 c1 d2 c2 n2 s3 c3 d4 c4 h c5 show ?thesis by blast
qed


end
